theory Spec2Isabelle
  imports Main "HOL-Library.Word"
begin

unbundle bit_operations_syntax

section \<open>Data model of \<^verbatim>\<open>Marlin/stepper.cpp\<close>\<close>

text \<open>
  The target is an 8-bit AVR: \<^verbatim>\<open>char\<close> has 8 bits, \<^verbatim>\<open>int\<close> and
  \<^verbatim>\<open>unsigned short\<close> 16, \<^verbatim>\<open>long\<close> and \<^verbatim>\<open>unsigned long\<close> 32.
  A variable is a word of its width; whether it is read signed or unsigned is decided at
  each comparison, as in C.
\<close>

type_synonym u8 = "8 word"
type_synonym u16 = "16 word"
type_synonym u32 = "32 word"

datatype axis = X_AXIS | Y_AXIS | Z_AXIS | E_AXIS

text \<open>
  \<^verbatim>\<open>block_t\<close> is declared in \<^verbatim>\<open>planner.h\<close>; the fields below are the ones
  \<^verbatim>\<open>stepper.cpp\<close> reads. \<^verbatim>\<open>steps_*\<close>, \<^verbatim>\<open>accelerate_until\<close>,
  \<^verbatim>\<open>decelerate_after\<close> and \<^verbatim>\<open>acceleration_rate\<close> are \<^verbatim>\<open>long\<close>, the rates
  and \<^verbatim>\<open>step_event_count\<close> are \<^verbatim>\<open>unsigned long\<close>.
\<close>

record block_t =
  steps_x :: u32
  steps_y :: u32
  steps_z :: u32
  steps_e :: u32
  step_event_count :: u32
  accelerate_until :: u32
  decelerate_after :: u32
  acceleration_rate :: u32
  direction_bits :: u8
  active_extruder :: u8
  nominal_rate :: u32
  initial_rate :: u32
  final_rate :: u32
  busy :: bool

fun steps :: "block_t \<Rightarrow> axis \<Rightarrow> u32" where
  "steps b X_AXIS = steps_x b"
| "steps b Y_AXIS = steps_y b"
| "steps b Z_AXIS = steps_z b"
| "steps b E_AXIS = steps_e b"

text \<open>
  The step outputs. \<^verbatim>\<open>WRITE(p, !INVERT_p)\<close> drives the pin to its active level and is
  logged as \<open>(p, True)\<close>; \<^verbatim>\<open>WRITE(p, INVERT_p)\<close> returns it to rest and is logged as
  \<open>(p, False)\<close>. \<open>E_STEP_PIN\<close> stands for the pin that the macro \<^verbatim>\<open>WRITE_E_STEP\<close>
  (of \<^verbatim>\<open>stepper.h\<close>) selects, \<open>Y_STEP_PIN\<close> also for \<^verbatim>\<open>tl_Y_STEP_PIN\<close>.
\<close>

datatype step_pin =
  X_STEP_PIN | X2_STEP_PIN | Y_STEP_PIN | Z_STEP_PIN | Z2_STEP_PIN | E_STEP_PIN

datatype serial_msg = MSG_STEPPER_TOO_HIGH u16

text \<open>
  The compile-time configuration (\<^verbatim>\<open>Configuration.h\<close>, \<^verbatim>\<open>pins.h\<close>,
  \<^verbatim>\<open>speed_lookuptable.h\<close>) is not part of the translated file: every constant and every
  \<^verbatim>\<open>#ifdef\<close> that \<^verbatim>\<open>stepper.cpp\<close> consults is a field of \<open>config\<close>, and the
  theorems hold for all of its values.
\<close>

record config =
  F_CPU :: nat
  MAX_STEP_FREQUENCY :: nat
  speed_lookuptable_fast :: "nat \<Rightarrow> nat \<Rightarrow> u16"
  speed_lookuptable_slow :: "nat \<Rightarrow> nat \<Rightarrow> u16"
  DUAL_X_CARRIAGE :: bool
  X_HOME_DIR :: int
  X2_HOME_DIR :: int
  Z_LATE_ENABLE :: bool
  Z_DUAL_STEPPER_DRIVERS :: bool
  TL_DUAL_Z :: bool
  POWER_LOSS_TRIGGER_BY_PIN :: bool
  has_X_MIN_PIN :: bool
  has_X_MAX_PIN :: bool
  has_Y_MIN_PIN :: bool
  has_Y_MAX_PIN :: bool
  has_Z_MIN_PIN :: bool
  has_Z_MAX_PIN :: bool
  X_ENDSTOPS_INVERTING :: bool
  Y_ENDSTOPS_INVERTING :: bool
  Z_ENDSTOPS_INVERTING :: bool

text \<open>
  What one run of the interrupt body reads from outside the file: the levels of the
  endstop pins and the variables \<^verbatim>\<open>extruder_carriage_mode\<close>, \<^verbatim>\<open>tl_RUN_STATUS\<close>,
  \<^verbatim>\<open>tl_Y_ENDSTOPS_INVERTING\<close> of the main program, and the answer of
  \<^verbatim>\<open>Check_Power_Loss()\<close>.
\<close>

record inputs =
  X_MIN_PIN :: bool
  X_MAX_PIN :: bool
  Y_MIN_PIN :: bool
  tl_Y_MIN_PIN :: bool
  Y_MAX_PIN :: bool
  Z_MIN_PIN :: bool
  Z_MAX_PIN :: bool
  tl_Y_ENDSTOPS_INVERTING :: bool
  extruder_carriage_mode :: u16
  tl_RUN_STATUS :: u16
  Check_Power_Loss :: bool

text \<open>
  The variables of the file, with the planner's ring buffer and the two hardware registers
  the file programs. \<open>current_block\<close> is a non-owning pointer to the head of the buffer: it
  is \<open>Some\<close> of that block, or \<open>None\<close> for \<^verbatim>\<open>NULL\<close>. \<open>pin_log\<close> and \<open>serial_log\<close> record
  the writes to the step pins and to the serial port, the newest first.
\<close>

record stepper =
  current_block :: "block_t option"
  block_buffer :: "block_t list"
  counter_x :: u32
  counter_y :: u32
  counter_z :: u32
  counter_e :: u32
  step_events_completed :: u32
  acceleration_time :: u32
  deceleration_time :: u32
  acc_step_rate :: u16
  step_loops :: u8
  OCR1A_nominal :: u16
  step_loops_nominal :: u16
  endstops_trigsteps :: "axis \<Rightarrow> u32"
  endstop_x_hit :: bool
  endstop_y_hit :: bool
  endstop_z_hit :: bool
  old_x_min_endstop :: bool
  old_x_max_endstop :: bool
  old_y_min_endstop :: bool
  old_y_max_endstop :: bool
  old_z_min_endstop :: bool
  old_z_max_endstop :: bool
  check_endstops_x :: bool
  check_endstops_y :: bool
  check_endstops_z :: bool
  check_endstops_all :: bool
  count_position :: "axis \<Rightarrow> u32"
  count_direction :: "axis \<Rightarrow> u8"
  bQuickStop :: bool
  OCR1A :: u16
  OCIE1A :: bool
  pin_log :: "(step_pin \<times> bool) list"
  serial_log :: "serial_msg list"

section \<open>Endstop enable flags\<close>

text \<open>\<^verbatim>\<open>void enable_endstops(bool check, int Axis)\<close>\<close>

definition enable_endstops :: "bool \<Rightarrow> u16 \<Rightarrow> stepper \<Rightarrow> stepper" where
  "enable_endstops check Axis st =
    (if Axis = 0 then st\<lparr>check_endstops_x := check\<rparr>
     else if Axis = 1 then st\<lparr>check_endstops_y := check\<rparr>
     else if Axis = 2 then st\<lparr>check_endstops_z := check\<rparr>
     else if Axis = - 1 then
       st\<lparr>check_endstops_x := check, check_endstops_y := check,
          check_endstops_z := check, check_endstops_all := check\<rparr>
     else st)"

text \<open>
  The gate in front of each endstop check. After the expansion of
  \<^verbatim>\<open>#define CHECK_ENDSTOPS_X if (check_endstops_x)\<close> the text reads
  \<^verbatim>\<open>bool bChecked = false; if (check_endstops_x) bChecked = true;
  if (!bChecked) if (check_endstops_all) bChecked = true;\<close>
\<close>

definition bChecked :: "bool \<Rightarrow> stepper \<Rightarrow> bool" where
  "bChecked check_endstops_axis st =
    (let b = False;
         b = (if check_endstops_axis then True else b);
         b = (if \<not> b then (if check_endstops_all st then True else b) else b)
     in b)"

section \<open>Fixed-point multiplies\<close>

text \<open>
  The two inline-assembly macros, instruction by instruction. \<^verbatim>\<open>mul\<close> leaves the 16-bit
  product of two bytes in \<^verbatim>\<open>r1:r0\<close>; an \<^verbatim>\<open>add\<close> followed by \<^verbatim>\<open>adc\<close> on the next
  bytes is one addition on the register group, modulo its width; \<^verbatim>\<open>lsr\<close> moves bit 0 of
  its register into the carry, which the closing \<^verbatim>\<open>adc\<close> pair then adds.
\<close>

definition MultiU16X8toH16 :: "u8 \<Rightarrow> u16 \<Rightarrow> u16" where
  "MultiU16X8toH16 charIn1 intIn2 =
    (let a = (ucast charIn1 :: u16);
         b_lo = intIn2 AND 0xFF;
         b_hi = drop_bit 8 intIn2;
         res = a * b_hi;
         r1r0 = a * b_lo;
         res = res + drop_bit 8 r1r0;
         res = res + (r1r0 AND 1)
     in res)"

definition MultiU24X24toH16 :: "u32 \<Rightarrow> u32 \<Rightarrow> u16" where
  "MultiU24X24toH16 longIn1 longIn2 =
    (let a0 = longIn1 AND 0xFF;
         a1 = drop_bit 8 longIn1 AND 0xFF;
         a2 = drop_bit 16 longIn1 AND 0xFF;
         b0 = longIn2 AND 0xFF;
         b1 = drop_bit 8 longIn2 AND 0xFF;
         b2 = drop_bit 16 longIn2 AND 0xFF;
         r27 = drop_bit 8 (a0 * b1);
         res = a1 * b2;
         res = (res + push_bit 8 ((a2 * b2) AND 0xFF)) AND 0xFFFF;
         res = (res + a2 * b1) AND 0xFFFF;
         acc = push_bit 8 res + r27;
         acc = (acc + a0 * b2) AND 0xFFFFFF;
         acc = (acc + a1 * b1) AND 0xFFFFFF;
         acc = (acc + a2 * b0) AND 0xFFFFFF;
         acc = (acc + drop_bit 8 (a1 * b0)) AND 0xFFFFFF
     in (ucast (drop_bit 8 acc + (acc AND 1)) :: u16))"

section \<open>Step rate to timer period\<close>

text \<open>
  \<^verbatim>\<open>calc_timer\<close> up to its table lookup: the result is the timer value before the floor
  check, the value stored in \<^verbatim>\<open>step_loops\<close>, and the corrected \<^verbatim>\<open>step_rate\<close>. A row of
  either table is two 16-bit words, four bytes: the byte offset
  \<^verbatim>\<open>(step_rate >> 1) & 0xfffc\<close> into the slow table is row \<open>offset div 4\<close>. The product of an
  \<^verbatim>\<open>unsigned short\<close> and an \<^verbatim>\<open>unsigned char\<close> is computed in 16 bits.
\<close>

definition calc_timer_lookup :: "config \<Rightarrow> u16 \<Rightarrow> u16 \<times> u8 \<times> u16" where
  "calc_timer_lookup cfg step_rate0 =
    (let step_rate = (if MAX_STEP_FREQUENCY cfg < unat step_rate0
                      then of_nat (MAX_STEP_FREQUENCY cfg) else step_rate0);
         (step_rate, loops) =
           (if 20000 < step_rate then ((drop_bit 2 step_rate) AND 0x3fff, 4 :: u8)
            else if 10000 < step_rate then ((drop_bit 1 step_rate) AND 0x7fff, 2)
            else (step_rate, 1));
         step_rate = (if unat step_rate < F_CPU cfg div 500000
                      then of_nat (F_CPU cfg div 500000) else step_rate);
         step_rate = step_rate - of_nat (F_CPU cfg div 500000);
         timer =
           (if 8 * 256 \<le> step_rate then
              (let row = unat (ucast (drop_bit 8 step_rate) :: u8);
                   tmp_step_rate = (ucast (step_rate AND 0x00ff) :: u8);
                   gain = speed_lookuptable_fast cfg row 1;
                   timer = MultiU16X8toH16 tmp_step_rate gain
               in speed_lookuptable_fast cfg row 0 - timer)
            else
              (let row = unat ((drop_bit 1 step_rate) AND 0xfffc) div 4;
                   timer = speed_lookuptable_slow cfg row 0
               in timer - drop_bit 3 (speed_lookuptable_slow cfg row 1
                                        * ucast (ucast (step_rate AND 0x0007) :: u8))))
     in (timer, loops, step_rate))"

definition calc_timer :: "config \<Rightarrow> u16 \<Rightarrow> stepper \<Rightarrow> u16 \<times> stepper" where
  "calc_timer cfg step_rate0 st =
    (let (timer, loops, step_rate) = calc_timer_lookup cfg step_rate0;
         st = st\<lparr>step_loops := loops\<rparr>
     in if timer < 100
        then (100, st\<lparr>serial_log := MSG_STEPPER_TOO_HIGH step_rate # serial_log st\<rparr>)
        else (timer, st))"

text \<open>\<^verbatim>\<open>trapezoid_generator_reset\<close>, for the block \<open>b\<close> that \<^verbatim>\<open>current_block\<close> points to.\<close>

definition trapezoid_generator_reset :: "config \<Rightarrow> block_t \<Rightarrow> stepper \<Rightarrow> stepper" where
  "trapezoid_generator_reset cfg b st =
    (let st = st\<lparr>deceleration_time := 0\<rparr>;
         (t, st) = calc_timer cfg (ucast (nominal_rate b)) st;
         st = st\<lparr>OCR1A_nominal := t\<rparr>;
         st = st\<lparr>step_loops_nominal := ucast (step_loops st)\<rparr>;
         st = st\<lparr>acc_step_rate := ucast (initial_rate b)\<rparr>;
         (t, st) = calc_timer cfg (acc_step_rate st) st;
         st = st\<lparr>acceleration_time := ucast t\<rparr>
     in st\<lparr>OCR1A := ucast (acceleration_time st)\<rparr>)"

section \<open>The planner's buffer\<close>

text \<open>
  Modelled from the spec: \<^verbatim>\<open>planner.cpp\<close> is not part of the translated file. The spec
  gives \<^verbatim>\<open>plan_get_current_block\<close> as a peek at the head without removal,
  \<^verbatim>\<open>plan_discard_current_block\<close> as the advance of the head, and \<^verbatim>\<open>blocks_queued\<close> as
  the test for a queued block. The ring is the list of its queued blocks, the head first.
\<close>

definition plan_get_current_block :: "stepper \<Rightarrow> block_t option" where
  "plan_get_current_block st = (case block_buffer st of [] \<Rightarrow> None | b # _ \<Rightarrow> Some b)"

definition plan_discard_current_block :: "stepper \<Rightarrow> stepper" where
  "plan_discard_current_block st = st\<lparr>block_buffer := drop 1 (block_buffer st)\<rparr>"

definition blocks_queued :: "stepper \<Rightarrow> bool" where
  "blocks_queued st = (block_buffer st \<noteq> [])"

section \<open>The interrupt body \<^verbatim>\<open>Step_Controll\<close>\<close>

text \<open>
  The translation follows the text of the function section by section. Left out are the
  effects that no variable of the file depends on: the beeper and its two statics at the
  head of the function, the writes to the direction, enable and valve pins (with the valve's
  statics \<^verbatim>\<open>iECount\<close> and \<^verbatim>\<open>bError\<close>), the serial poll \<^verbatim>\<open>MSerial.checkRx()\<close>, and the
  busy-wait on \<^verbatim>\<open>TCNT0\<close> that stretches the extruder pulse.
\<close>

subsection \<open>Block pickup\<close>

text \<open>
  The first \<^verbatim>\<open>if (current_block == NULL)\<close>. The boolean of the result is \<open>True\<close> when the
  function returns at once (\<^verbatim>\<open>Z_LATE_ENABLE\<close>). \<^verbatim>\<open>current_block->busy = true\<close> writes
  through the pointer, into the head of the buffer.
\<close>

definition pickup :: "config \<Rightarrow> stepper \<Rightarrow> stepper \<times> bool" where
  "pickup cfg st =
    (if current_block st = None then
       (case plan_get_current_block st of
          Some b0 \<Rightarrow>
            (let b = b0\<lparr>busy := True\<rparr>;
                 st = st\<lparr>current_block := Some b, block_buffer := b # drop 1 (block_buffer st)\<rparr>;
                 st = trapezoid_generator_reset cfg b st;
                 st = st\<lparr>counter_x := - (drop_bit 1 (step_event_count b))\<rparr>;
                 st = st\<lparr>counter_y := counter_x st\<rparr>;
                 st = st\<lparr>counter_z := counter_x st\<rparr>;
                 st = st\<lparr>counter_e := counter_x st\<rparr>;
                 st = st\<lparr>step_events_completed := 0\<rparr>
             in if Z_LATE_ENABLE cfg \<and> 0 <s steps_z b
                then (st\<lparr>OCR1A := 2000\<rparr>, True)
                else (st, False))
        | None \<Rightarrow> (st\<lparr>OCR1A := 2000\<rparr>, False))
     else (st, False))"

subsection \<open>Directions and endstops\<close>

text \<open>\<^verbatim>\<open>(out_bits & (1 << axis)) != 0\<close>, with the axis numbers 0 to 3 of \<^verbatim>\<open>Marlin.h\<close>.\<close>

fun axis_number :: "axis \<Rightarrow> nat" where
  "axis_number X_AXIS = 0"
| "axis_number Y_AXIS = 1"
| "axis_number Z_AXIS = 2"
| "axis_number E_AXIS = 3"

definition negative_direction :: "block_t \<Rightarrow> axis \<Rightarrow> bool" where
  "negative_direction b a = (direction_bits b AND push_bit (axis_number a) 1 \<noteq> 0)"

definition set_direction :: "block_t \<Rightarrow> axis \<Rightarrow> stepper \<Rightarrow> stepper" where
  "set_direction b a st =
    st\<lparr>count_direction := (count_direction st)(a := (if negative_direction b a then - 1 else 1))\<rparr>"

text \<open>
  The samples: \<^verbatim>\<open>(READ(X_MIN_PIN) != X_ENDSTOPS_INVERTING)\<close> and its five siblings. A switch
  reads asserted when its sample is \<open>True\<close>. With \<^verbatim>\<open>TL_DUAL_Z\<close> the lower Y switch is read
  through \<^verbatim>\<open>digitalRead(tl_Y_MIN_PIN)\<close> against \<^verbatim>\<open>tl_Y_ENDSTOPS_INVERTING\<close>.
\<close>

definition read_x_min :: "config \<Rightarrow> inputs \<Rightarrow> bool" where
  "read_x_min cfg inp = (X_MIN_PIN inp \<noteq> X_ENDSTOPS_INVERTING cfg)"

definition read_x_max :: "config \<Rightarrow> inputs \<Rightarrow> bool" where
  "read_x_max cfg inp = (X_MAX_PIN inp \<noteq> X_ENDSTOPS_INVERTING cfg)"

definition read_y_min :: "config \<Rightarrow> inputs \<Rightarrow> bool" where
  "read_y_min cfg inp =
    (if TL_DUAL_Z cfg then tl_Y_MIN_PIN inp \<noteq> tl_Y_ENDSTOPS_INVERTING inp
     else Y_MIN_PIN inp \<noteq> Y_ENDSTOPS_INVERTING cfg)"

definition read_y_max :: "config \<Rightarrow> inputs \<Rightarrow> bool" where
  "read_y_max cfg inp = (Y_MAX_PIN inp \<noteq> Y_ENDSTOPS_INVERTING cfg)"

definition read_z_min :: "config \<Rightarrow> inputs \<Rightarrow> bool" where
  "read_z_min cfg inp = (Z_MIN_PIN inp \<noteq> Z_ENDSTOPS_INVERTING cfg)"

definition read_z_max :: "config \<Rightarrow> inputs \<Rightarrow> bool" where
  "read_z_max cfg inp = (Z_MAX_PIN inp \<noteq> Z_ENDSTOPS_INVERTING cfg)"

text \<open>
  The condition in front of the two X blocks under \<^verbatim>\<open>DUAL_X_CARRIAGE\<close>: endstops are
  only checked in the homing direction \<open>d\<close> of the active extruder.
\<close>

definition homing_direction :: "config \<Rightarrow> block_t \<Rightarrow> int \<Rightarrow> bool" where
  "homing_direction cfg b d =
    (if DUAL_X_CARRIAGE cfg
     then (active_extruder b = 0 \<and> X_HOME_DIR cfg = d)
        \<or> (active_extruder b \<noteq> 0 \<and> X2_HOME_DIR cfg = d)
     else True)"

text \<open>The six sampling-and-latch blocks, each the body of its \<^verbatim>\<open>if (bChecked)\<close>.\<close>

definition x_min_check :: "config \<Rightarrow> inputs \<Rightarrow> block_t \<Rightarrow> stepper \<Rightarrow> stepper" where
  "x_min_check cfg inp b st =
    (if homing_direction cfg b (- 1) then
       (if has_X_MIN_PIN cfg then
          (let x_min_endstop = read_x_min cfg inp;
               st = (if x_min_endstop \<and> old_x_min_endstop st \<and> 0 <s steps_x b
                     then st\<lparr>endstops_trigsteps :=
                                (endstops_trigsteps st)(X_AXIS := count_position st X_AXIS),
                             endstop_x_hit := True,
                             step_events_completed := step_event_count b\<rparr>
                     else st)
           in st\<lparr>old_x_min_endstop := x_min_endstop\<rparr>)
        else st)
     else st)"

definition x_max_check :: "config \<Rightarrow> inputs \<Rightarrow> block_t \<Rightarrow> stepper \<Rightarrow> stepper" where
  "x_max_check cfg inp b st =
    (if homing_direction cfg b 1 then
       (if has_X_MAX_PIN cfg then
          (let x_max_endstop = read_x_max cfg inp;
               st = (if x_max_endstop \<and> old_x_max_endstop st \<and> 0 <s steps_x b
                     then st\<lparr>endstops_trigsteps :=
                                (endstops_trigsteps st)(X_AXIS := count_position st X_AXIS),
                             endstop_x_hit := True,
                             step_events_completed := step_event_count b\<rparr>
                     else st)
           in st\<lparr>old_x_max_endstop := x_max_endstop\<rparr>)
        else st)
     else st)"

definition y_min_check :: "config \<Rightarrow> inputs \<Rightarrow> block_t \<Rightarrow> stepper \<Rightarrow> stepper" where
  "y_min_check cfg inp b st =
    (if has_Y_MIN_PIN cfg then
       (let y_min_endstop = read_y_min cfg inp;
            st = (if y_min_endstop \<and> old_y_min_endstop st \<and> 0 <s steps_y b
                  then st\<lparr>endstops_trigsteps :=
                             (endstops_trigsteps st)(Y_AXIS := count_position st Y_AXIS),
                          endstop_y_hit := True,
                          step_events_completed := step_event_count b\<rparr>
                  else st)
        in st\<lparr>old_y_min_endstop := y_min_endstop\<rparr>)
     else st)"

definition y_max_check :: "config \<Rightarrow> inputs \<Rightarrow> block_t \<Rightarrow> stepper \<Rightarrow> stepper" where
  "y_max_check cfg inp b st =
    (if has_Y_MAX_PIN cfg then
       (let y_max_endstop = read_y_max cfg inp;
            st = (if y_max_endstop \<and> old_y_max_endstop st \<and> 0 <s steps_y b
                  then st\<lparr>endstops_trigsteps :=
                             (endstops_trigsteps st)(Y_AXIS := count_position st Y_AXIS),
                          endstop_y_hit := True,
                          step_events_completed := step_event_count b\<rparr>
                  else st)
        in st\<lparr>old_y_max_endstop := y_max_endstop\<rparr>)
     else st)"

definition z_min_check :: "config \<Rightarrow> inputs \<Rightarrow> block_t \<Rightarrow> stepper \<Rightarrow> stepper" where
  "z_min_check cfg inp b st =
    (if has_Z_MIN_PIN cfg then
       (let z_min_endstop = read_z_min cfg inp;
            st = (if z_min_endstop \<and> old_z_min_endstop st \<and> 0 <s steps_z b
                  then st\<lparr>endstops_trigsteps :=
                             (endstops_trigsteps st)(Z_AXIS := count_position st Z_AXIS),
                          endstop_z_hit := True,
                          step_events_completed := step_event_count b\<rparr>
                  else st)
        in st\<lparr>old_z_min_endstop := z_min_endstop\<rparr>)
     else st)"

definition z_max_check :: "config \<Rightarrow> inputs \<Rightarrow> block_t \<Rightarrow> stepper \<Rightarrow> stepper" where
  "z_max_check cfg inp b st =
    (if has_Z_MAX_PIN cfg then
       (let z_max_endstop = read_z_max cfg inp;
            st = (if z_max_endstop \<and> old_z_max_endstop st \<and> 0 <s steps_z b
                  then st\<lparr>endstops_trigsteps :=
                             (endstops_trigsteps st)(Z_AXIS := count_position st Z_AXIS),
                          endstop_z_hit := True,
                          step_events_completed := step_event_count b\<rparr>
                  else st)
        in st\<lparr>old_z_max_endstop := z_max_endstop\<rparr>)
     else st)"

text \<open>
  The endstop branch of one axis: the direction bit chooses the switch, the gate decides
  whether its block runs.
\<close>

definition x_endstops :: "config \<Rightarrow> inputs \<Rightarrow> block_t \<Rightarrow> stepper \<Rightarrow> stepper" where
  "x_endstops cfg inp b st =
    (if negative_direction b X_AXIS
     then (if bChecked (check_endstops_x st) st then x_min_check cfg inp b st else st)
     else (if bChecked (check_endstops_x st) st then x_max_check cfg inp b st else st))"

definition y_endstops :: "config \<Rightarrow> inputs \<Rightarrow> block_t \<Rightarrow> stepper \<Rightarrow> stepper" where
  "y_endstops cfg inp b st =
    (if negative_direction b Y_AXIS
     then (if bChecked (check_endstops_y st) st then y_min_check cfg inp b st else st)
     else (if bChecked (check_endstops_y st) st then y_max_check cfg inp b st else st))"

definition z_endstops :: "config \<Rightarrow> inputs \<Rightarrow> block_t \<Rightarrow> stepper \<Rightarrow> stepper" where
  "z_endstops cfg inp b st =
    (if negative_direction b Z_AXIS
     then (if bChecked (check_endstops_z st) st then z_min_check cfg inp b st else st)
     else (if bChecked (check_endstops_z st) st then z_max_check cfg inp b st else st))"

text \<open>
  From \<^verbatim>\<open>out_bits = current_block->direction_bits\<close> to the extruder's direction, in the
  order of the text.
\<close>

definition directions_and_endstops ::
  "config \<Rightarrow> inputs \<Rightarrow> block_t \<Rightarrow> stepper \<Rightarrow> stepper" where
  "directions_and_endstops cfg inp b st =
    (let st = set_direction b X_AXIS st;
         st = set_direction b Y_AXIS st;
         st = x_endstops cfg inp b st;
         st = y_endstops cfg inp b st;
         st = set_direction b Z_AXIS st;
         st = z_endstops cfg inp b st
     in set_direction b E_AXIS st)"

subsection \<open>The Bresenham step events\<close>

text \<open>
  The pins that carry an X pulse: both drivers in the carriage modes 2 and 3, else the
  driver of the active extruder, and none when that is neither 0 nor 1.
\<close>

definition x_step_pins :: "config \<Rightarrow> inputs \<Rightarrow> block_t \<Rightarrow> step_pin list" where
  "x_step_pins cfg inp b =
    (if DUAL_X_CARRIAGE cfg then
       (if extruder_carriage_mode inp = 2 \<or> extruder_carriage_mode inp = 3
        then [X_STEP_PIN, X2_STEP_PIN]
        else if active_extruder b = 1 then [X2_STEP_PIN]
        else if active_extruder b = 0 then [X_STEP_PIN]
        else [])
     else [X_STEP_PIN])"

definition z_step_pins :: "config \<Rightarrow> inputs \<Rightarrow> step_pin list" where
  "z_step_pins cfg inp =
    [Z_STEP_PIN]
    @ (if Z_DUAL_STEPPER_DRIVERS cfg then [Z2_STEP_PIN] else [])
    @ (if TL_DUAL_Z cfg \<and> tl_RUN_STATUS inp \<noteq> 1 then [Z2_STEP_PIN] else [])"

text \<open>\<open>WRITE\<close> on each pin of a list in turn; the log has the newest write first.\<close>

definition write_pins :: "step_pin list \<Rightarrow> bool \<Rightarrow> stepper \<Rightarrow> stepper" where
  "write_pins ps v st = st\<lparr>pin_log := rev (map (\<lambda>p. (p, v)) ps) @ pin_log st\<rparr>"

text \<open>
  One axis of one step event. \<^verbatim>\<open>count_position\<close> is a \<^verbatim>\<open>long\<close> and
  \<^verbatim>\<open>count_direction\<close> a \<^verbatim>\<open>signed char\<close>, which is sign-extended before the addition.
\<close>

definition x_step :: "config \<Rightarrow> inputs \<Rightarrow> block_t \<Rightarrow> stepper \<Rightarrow> stepper" where
  "x_step cfg inp b st =
    (let st = st\<lparr>counter_x := counter_x st + steps_x b\<rparr>
     in if 0 <s counter_x st then
          (let st = write_pins (x_step_pins cfg inp b) True st;
               st = st\<lparr>counter_x := counter_x st - step_event_count b\<rparr>;
               st = st\<lparr>count_position := (count_position st)
                         (X_AXIS := count_position st X_AXIS + scast (count_direction st X_AXIS))\<rparr>
           in write_pins (x_step_pins cfg inp b) False st)
        else st)"

definition y_step :: "block_t \<Rightarrow> stepper \<Rightarrow> stepper" where
  "y_step b st =
    (let st = st\<lparr>counter_y := counter_y st + steps_y b\<rparr>
     in if 0 <s counter_y st then
          (let st = write_pins [Y_STEP_PIN] True st;
               st = st\<lparr>counter_y := counter_y st - step_event_count b\<rparr>;
               st = st\<lparr>count_position := (count_position st)
                         (Y_AXIS := count_position st Y_AXIS + scast (count_direction st Y_AXIS))\<rparr>
           in write_pins [Y_STEP_PIN] False st)
        else st)"

definition z_step :: "config \<Rightarrow> inputs \<Rightarrow> block_t \<Rightarrow> stepper \<Rightarrow> stepper" where
  "z_step cfg inp b st =
    (let st = st\<lparr>counter_z := counter_z st + steps_z b\<rparr>
     in if 0 <s counter_z st then
          (let st = write_pins (z_step_pins cfg inp) True st;
               st = st\<lparr>counter_z := counter_z st - step_event_count b\<rparr>;
               st = st\<lparr>count_position := (count_position st)
                         (Z_AXIS := count_position st Z_AXIS + scast (count_direction st Z_AXIS))\<rparr>
           in write_pins (z_step_pins cfg inp) False st)
        else st)"

definition e_step :: "block_t \<Rightarrow> stepper \<Rightarrow> stepper" where
  "e_step b st =
    (let st = st\<lparr>counter_e := counter_e st + steps_e b\<rparr>
     in if 0 <s counter_e st then
          (let st = write_pins [E_STEP_PIN] True st;
               st = st\<lparr>counter_e := counter_e st - step_event_count b\<rparr>;
               st = st\<lparr>count_position := (count_position st)
                         (E_AXIS := count_position st E_AXIS + scast (count_direction st E_AXIS))\<rparr>
           in write_pins [E_STEP_PIN] False st)
        else st)"

text \<open>The body of the \<^verbatim>\<open>for\<close> loop up to \<^verbatim>\<open>step_events_completed += 1\<close>.\<close>

definition step_event :: "config \<Rightarrow> inputs \<Rightarrow> block_t \<Rightarrow> stepper \<Rightarrow> stepper" where
  "step_event cfg inp b st =
    (let st = x_step cfg inp b st;
         st = y_step b st;
         st = z_step cfg inp b st;
         st = e_step b st
     in st\<lparr>step_events_completed := step_events_completed st + 1\<rparr>)"

text \<open>
  \<^verbatim>\<open>for (int8_t i = 0; i < step_loops; i++)\<close>, with \<open>n\<close> the iterations that remain. The
  loop is left as soon as \<^verbatim>\<open>step_events_completed >= step_event_count\<close>, with and without
  \<^verbatim>\<open>ELECTROMAGNETIC_VALVE\<close>. \<^verbatim>\<open>step_loops\<close> only ever holds 0, 1, 2 or 4, so the
  signedness of \<^verbatim>\<open>char\<close> plays no part in the bound.
\<close>

fun step_loop :: "config \<Rightarrow> inputs \<Rightarrow> block_t \<Rightarrow> nat \<Rightarrow> stepper \<Rightarrow> stepper" where
  "step_loop cfg inp b 0 st = st"
| "step_loop cfg inp b (Suc n) st =
    (let st = step_event cfg inp b st
     in if step_event_count b \<le> step_events_completed st then st
        else step_loop cfg inp b n st)"

subsection \<open>The trapezoid generator\<close>

text \<open>
  \<^verbatim>\<open>// Calculare new timer value\<close>. Beside the new state the function returns the step rate
  it handed to \<^verbatim>\<open>calc_timer\<close>: \<open>Some\<close> of \<^verbatim>\<open>acc_step_rate\<close> in the acceleration branch and
  of \<^verbatim>\<open>step_rate\<close> in the deceleration branch, \<open>None\<close> in the cruise branch, which computes
  no rate and loads the cached \<^verbatim>\<open>OCR1A_nominal\<close>.
\<close>

definition trapezoid_generator ::
  "config \<Rightarrow> block_t \<Rightarrow> stepper \<Rightarrow> u16 option \<times> stepper" where
  "trapezoid_generator cfg b st =
    (if step_events_completed st \<le> accelerate_until b then
       (let st = st\<lparr>acc_step_rate :=
                      MultiU24X24toH16 (acceleration_time st) (acceleration_rate b)\<rparr>;
            st = st\<lparr>acc_step_rate := acc_step_rate st + ucast (initial_rate b)\<rparr>;
            st = (if nominal_rate b < ucast (acc_step_rate st)
                  then st\<lparr>acc_step_rate := ucast (nominal_rate b)\<rparr> else st);
            (timer, st) = calc_timer cfg (acc_step_rate st) st;
            st = st\<lparr>OCR1A := timer\<rparr>
        in (Some (acc_step_rate st),
            st\<lparr>acceleration_time := acceleration_time st + ucast timer\<rparr>))
     else if decelerate_after b < step_events_completed st then
       (let step_rate = MultiU24X24toH16 (deceleration_time st) (acceleration_rate b);
            step_rate = (if acc_step_rate st < step_rate
                         then ucast (final_rate b)
                         else acc_step_rate st - step_rate);
            step_rate = (if ucast step_rate < final_rate b
                         then ucast (final_rate b) else step_rate);
            (timer, st) = calc_timer cfg step_rate st;
            st = st\<lparr>OCR1A := timer\<rparr>
        in (Some step_rate,
            st\<lparr>deceleration_time := deceleration_time st + ucast timer\<rparr>))
     else
       (None, st\<lparr>OCR1A := OCR1A_nominal st,
                  step_loops := ucast (step_loops_nominal st)\<rparr>))"

subsection \<open>End of the block, and the whole function\<close>

text \<open>\<^verbatim>\<open>// If current block is finished, reset pointer\<close>\<close>

definition finish_block :: "block_t \<Rightarrow> stepper \<Rightarrow> stepper" where
  "finish_block b st =
    (if step_event_count b \<le> step_events_completed st
     then plan_discard_current_block (st\<lparr>current_block := None\<rparr>)
     else st)"

text \<open>
  The function up to the end of its step loop: \<open>Inl\<close> when it leaves before (no block, or
  the early return of \<^verbatim>\<open>Z_LATE_ENABLE\<close>), \<open>Inr\<close> with the block and the state that reach
  the trapezoid generator.
\<close>

definition steps_section :: "config \<Rightarrow> inputs \<Rightarrow> stepper \<Rightarrow> stepper + block_t \<times> stepper" where
  "steps_section cfg inp st =
    (case pickup cfg st of
       (st, True) \<Rightarrow> Inl st
     | (st, False) \<Rightarrow>
         (case current_block st of
            None \<Rightarrow> Inl st
          | Some b \<Rightarrow>
              (let st = directions_and_endstops cfg inp b st
               in Inr (b, step_loop cfg inp b (unat (step_loops st)) st))))"

definition Step_Controll :: "config \<Rightarrow> inputs \<Rightarrow> stepper \<Rightarrow> stepper" where
  "Step_Controll cfg inp st =
    (case steps_section cfg inp st of
       Inl st \<Rightarrow> st
     | Inr (b, st) \<Rightarrow> finish_block b (snd (trapezoid_generator cfg b st)))"

text \<open>\<^verbatim>\<open>ISR(TIMER1_COMPA_vect)\<close>\<close>

definition TIMER1_COMPA_vect :: "config \<Rightarrow> inputs \<Rightarrow> stepper \<Rightarrow> stepper" where
  "TIMER1_COMPA_vect cfg inp st =
    (if bQuickStop st then st
     else if POWER_LOSS_TRIGGER_BY_PIN cfg
       then (if \<not> Check_Power_Loss inp then Step_Controll cfg inp st else st)
       else Step_Controll cfg inp st)"

section \<open>Quick stop\<close>

text \<open>\<^verbatim>\<open>while (blocks_queued()) plan_discard_current_block();\<close>\<close>

function discard_queued :: "stepper \<Rightarrow> stepper" where
  "discard_queued st =
    (if blocks_queued st then discard_queued (plan_discard_current_block st) else st)"
  by pat_completeness auto
termination
  by (relation "measure (\<lambda>st. length (block_buffer st))")
     (auto simp: blocks_queued_def plan_discard_current_block_def)

declare discard_queued.simps [simp del]

definition quickStop :: "stepper \<Rightarrow> stepper" where
  "quickStop st =
    (let st = st\<lparr>bQuickStop := True\<rparr>;
         st = st\<lparr>OCIE1A := False\<rparr>;
         st = discard_queued st;
         st = st\<lparr>current_block := None\<rparr>;
         st = st\<lparr>OCIE1A := True\<rparr>
     in st\<lparr>bQuickStop := False\<rparr>)"

section \<open>Reading the state by axis\<close>

text \<open>
  The claims speak of ``every axis and switch side''. The functions below select, for an
  axis and a side, the variable that the source names individually. The extruder has no
  endstop: its entries are constant.
\<close>

datatype side = Lower | Upper

fun counter :: "axis \<Rightarrow> stepper \<Rightarrow> u32" where
  "counter X_AXIS st = counter_x st"
| "counter Y_AXIS st = counter_y st"
| "counter Z_AXIS st = counter_z st"
| "counter E_AXIS st = counter_e st"

fun endstop_hit :: "axis \<Rightarrow> stepper \<Rightarrow> bool" where
  "endstop_hit X_AXIS st = endstop_x_hit st"
| "endstop_hit Y_AXIS st = endstop_y_hit st"
| "endstop_hit Z_AXIS st = endstop_z_hit st"
| "endstop_hit E_AXIS st = False"

fun old_endstop :: "axis \<Rightarrow> side \<Rightarrow> stepper \<Rightarrow> bool" where
  "old_endstop X_AXIS Lower st = old_x_min_endstop st"
| "old_endstop X_AXIS Upper st = old_x_max_endstop st"
| "old_endstop Y_AXIS Lower st = old_y_min_endstop st"
| "old_endstop Y_AXIS Upper st = old_y_max_endstop st"
| "old_endstop Z_AXIS Lower st = old_z_min_endstop st"
| "old_endstop Z_AXIS Upper st = old_z_max_endstop st"
| "old_endstop E_AXIS sd st = False"

fun read_endstop :: "config \<Rightarrow> inputs \<Rightarrow> axis \<Rightarrow> side \<Rightarrow> bool" where
  "read_endstop cfg inp X_AXIS Lower = read_x_min cfg inp"
| "read_endstop cfg inp X_AXIS Upper = read_x_max cfg inp"
| "read_endstop cfg inp Y_AXIS Lower = read_y_min cfg inp"
| "read_endstop cfg inp Y_AXIS Upper = read_y_max cfg inp"
| "read_endstop cfg inp Z_AXIS Lower = read_z_min cfg inp"
| "read_endstop cfg inp Z_AXIS Upper = read_z_max cfg inp"
| "read_endstop cfg inp E_AXIS sd = False"

fun check_endstops :: "axis \<Rightarrow> stepper \<Rightarrow> bool" where
  "check_endstops X_AXIS st = check_endstops_x st"
| "check_endstops Y_AXIS st = check_endstops_y st"
| "check_endstops Z_AXIS st = check_endstops_z st"
| "check_endstops E_AXIS st = False"

text \<open>The side that the direction bit of the block selects: the lower switch when it is set.\<close>

definition selected_side :: "block_t \<Rightarrow> axis \<Rightarrow> side" where
  "selected_side b a = (if negative_direction b a then Lower else Upper)"

text \<open>
  Whether the sampling block of a switch is compiled in and, for X, passes the carriage
  condition in front of it.
\<close>

fun switch_present :: "config \<Rightarrow> block_t \<Rightarrow> axis \<Rightarrow> side \<Rightarrow> bool" where
  "switch_present cfg b X_AXIS Lower = (homing_direction cfg b (- 1) \<and> has_X_MIN_PIN cfg)"
| "switch_present cfg b X_AXIS Upper = (homing_direction cfg b 1 \<and> has_X_MAX_PIN cfg)"
| "switch_present cfg b Y_AXIS Lower = has_Y_MIN_PIN cfg"
| "switch_present cfg b Y_AXIS Upper = has_Y_MAX_PIN cfg"
| "switch_present cfg b Z_AXIS Lower = has_Z_MIN_PIN cfg"
| "switch_present cfg b Z_AXIS Upper = has_Z_MAX_PIN cfg"
| "switch_present cfg b E_AXIS sd = False"

text \<open>The pins that carry a pulse of the axis.\<close>

fun axis_step_pins :: "config \<Rightarrow> inputs \<Rightarrow> block_t \<Rightarrow> axis \<Rightarrow> step_pin list" where
  "axis_step_pins cfg inp b X_AXIS = x_step_pins cfg inp b"
| "axis_step_pins cfg inp b Y_AXIS = [Y_STEP_PIN]"
| "axis_step_pins cfg inp b Z_AXIS = z_step_pins cfg inp"
| "axis_step_pins cfg inp b E_AXIS = [E_STEP_PIN]"

text \<open>
  The level of a pin after the writes of a log (at rest before the first write), and the
  number of pulses the log holds for it: the writes that take the pin from rest to active.
\<close>

fun level :: "step_pin \<Rightarrow> (step_pin \<times> bool) list \<Rightarrow> bool" where
  "level p [] = False"
| "level p ((q, v) # ws) = (if q = p then v else level p ws)"

fun pulses :: "step_pin \<Rightarrow> (step_pin \<times> bool) list \<Rightarrow> nat" where
  "pulses p [] = 0"
| "pulses p ((q, v) # ws) = pulses p ws + (if q = p \<and> v \<and> \<not> level p ws then 1 else 0)"

text \<open>
  The step rate that the trapezoid generator chooses in one run of \<^verbatim>\<open>Step_Controll\<close>:
  \<open>None\<close> when the run does not reach the generator or takes its cruise branch.
\<close>

definition tick_rate :: "config \<Rightarrow> inputs \<Rightarrow> stepper \<Rightarrow> u16 option" where
  "tick_rate cfg inp st =
    (case steps_section cfg inp st of
       Inl _ \<Rightarrow> None
     | Inr (b, st) \<Rightarrow> fst (trapezoid_generator cfg b st))"

text \<open>
  The block that one run of \<^verbatim>\<open>Step_Controll\<close> works on: the current block or the one it
  picks up, and \<open>None\<close> when the run ends before the direction section.
\<close>

definition tick_block :: "config \<Rightarrow> stepper \<Rightarrow> block_t option" where
  "tick_block cfg st = (case pickup cfg st of (st, True) \<Rightarrow> None | (st, False) \<Rightarrow> current_block st)"

text \<open>
  The path conditions of a sampling-and-latch block, read off the text: the block of switch
  \<open>(a, sd)\<close> runs when its gate is open, the direction selects \<open>sd\<close> and the switch is
  present; inside, the latch fires when the sample and the stored sample are both asserted
  and the block moves the axis.
\<close>

definition samples :: "config \<Rightarrow> block_t \<Rightarrow> stepper \<Rightarrow> axis \<Rightarrow> side \<Rightarrow> bool" where
  "samples cfg b st a sd =
    ((check_endstops a st \<or> check_endstops_all st) \<and> selected_side b a = sd
     \<and> switch_present cfg b a sd)"

definition latches :: "config \<Rightarrow> inputs \<Rightarrow> block_t \<Rightarrow> stepper \<Rightarrow> axis \<Rightarrow> bool" where
  "latches cfg inp b st a =
    (samples cfg b st a (selected_side b a)
     \<and> read_endstop cfg inp a (selected_side b a)
     \<and> old_endstop a (selected_side b a) st
     \<and> 0 <s steps b a)"

text \<open>
  The test \<^verbatim>\<open>counter > 0\<close> of an axis after the addition of its steps, and the writes of one
  pulse on a list of pins (leading edges, then trailing edges) in front of a log.
\<close>

definition fires :: "block_t \<Rightarrow> stepper \<Rightarrow> axis \<Rightarrow> bool" where
  "fires b st a = (0 <s counter a st + steps b a)"

definition pulse_log ::
  "step_pin list \<Rightarrow> bool \<Rightarrow> (step_pin \<times> bool) list \<Rightarrow> (step_pin \<times> bool) list" where
  "pulse_log ps f ws =
    (if f then rev (map (\<lambda>p. (p, False)) ps) @ rev (map (\<lambda>p. (p, True)) ps) @ ws else ws)"

text \<open>
  The state in which a run of \<^verbatim>\<open>Step_Controll\<close> on block \<open>b\<close> reaches the trapezoid
  generator: after pickup, directions, endstops and the step loop.
\<close>

definition generator_entry :: "config \<Rightarrow> inputs \<Rightarrow> block_t \<Rightarrow> stepper \<Rightarrow> stepper" where
  "generator_entry cfg inp b st =
    step_loop cfg inp b (unat (step_loops (fst (pickup cfg st))))
      (directions_and_endstops cfg inp b (fst (pickup cfg st)))"

section \<open>Successive runs on one block\<close>

text \<open>
  The timer interrupt calls \<^verbatim>\<open>Step_Controll\<close> again and again. \<open>run_block\<close> runs it once for
  each element of a list of inputs, one sample of the pins per run, and stops after the run
  that leaves no current block: the run that discards the block, when there is one.
\<close>

fun run_block :: "config \<Rightarrow> inputs list \<Rightarrow> stepper \<Rightarrow> stepper" where
  "run_block cfg [] st = st"
| "run_block cfg (inp # ins) st =
    (let st = Step_Controll cfg inp st
     in if current_block st = None then st else run_block cfg ins st)"

text \<open>
  No run of that sequence latches an endstop, so that the block is not cut short: in each
  run that reaches the endstop section, none of the three axes meets the latch condition.
\<close>

fun no_truncation :: "config \<Rightarrow> inputs list \<Rightarrow> stepper \<Rightarrow> bool" where
  "no_truncation cfg [] st = True"
| "no_truncation cfg (inp # ins) st =
    ((case tick_block cfg st of
        None \<Rightarrow> True
      | Some b \<Rightarrow> \<not> latches cfg inp b st X_AXIS \<and> \<not> latches cfg inp b st Y_AXIS
                  \<and> \<not> latches cfg inp b st Z_AXIS)
     \<and> (let st = Step_Controll cfg inp st
        in current_block st = None \<or> no_truncation cfg ins st))"

text \<open>
  The state of axis \<open>a\<close> of block \<open>b\<close> after \<open>k\<close> step events, counted from the state \<open>s0\<close>
  in which the block was queued: the event counter is \<open>k\<close>, the Bresenham counter is a
  remainder, the steps taken are the quotient, the pins are at rest, and each pin of \<open>ps\<close>
  has received one pulse per step.
\<close>

definition interpolated ::
  "block_t \<Rightarrow> axis \<Rightarrow> step_pin set \<Rightarrow> stepper \<Rightarrow> nat \<Rightarrow> stepper \<Rightarrow> bool" where
  "interpolated b a ps s0 k s =
    (let n = sint (step_event_count b);
         m = int k * sint (steps b a) + n - 1 - n div 2
     in step_events_completed s = of_nat k
        \<and> sint (counter a s) = m mod n - (n - 1)
        \<and> count_position s a =
            count_position s0 a
            + word_of_int (m div n) * (if negative_direction b a then - 1 else 1)
        \<and> (\<forall>p. \<not> level p (pin_log s))
        \<and> (\<forall>p\<in>ps. int (pulses p (pin_log s)) = int (pulses p (pin_log s0)) + m div n))"

section \<open>Concrete values\<close>

text \<open>
  A configuration for a 16 MHz board with two X carriages. Its tables have the shape of
  the generated ones: the timer of rate \<open>r\<close> is \<open>2000000 div r\<close>, a row holds the value at
  its first rate and the drop to the next row.
\<close>

definition example_config :: config where
  "example_config =
    \<lparr>F_CPU = 16000000, MAX_STEP_FREQUENCY = 40000,
     speed_lookuptable_fast =
       (\<lambda>i j. if j = 0 then of_nat (2000000 div (256 * i + 32))
              else of_nat (2000000 div (256 * i + 32) - 2000000 div (256 * (i + 1) + 32))),
     speed_lookuptable_slow =
       (\<lambda>i j. if j = 0 then of_nat (2000000 div (8 * i + 32))
              else of_nat (2000000 div (8 * i + 32) - 2000000 div (8 * (i + 1) + 32))),
     DUAL_X_CARRIAGE = True, X_HOME_DIR = - 1, X2_HOME_DIR = 1,
     Z_LATE_ENABLE = False, Z_DUAL_STEPPER_DRIVERS = False, TL_DUAL_Z = True,
     POWER_LOSS_TRIGGER_BY_PIN = False,
     has_X_MIN_PIN = True, has_X_MAX_PIN = True, has_Y_MIN_PIN = True,
     has_Y_MAX_PIN = True, has_Z_MIN_PIN = True, has_Z_MAX_PIN = True,
     X_ENDSTOPS_INVERTING = False, Y_ENDSTOPS_INVERTING = False,
     Z_ENDSTOPS_INVERTING = False\<rparr>"

text \<open>
  The variables as their initialisers leave them (without \<^verbatim>\<open>ENDSTOPS_ONLY_FOR_HOMING\<close>),
  and the same state once \<^verbatim>\<open>st_init\<close> has enabled the interrupt.
\<close>

definition power_on :: stepper where
  "power_on =
    \<lparr>current_block = None, block_buffer = [],
     counter_x = 0, counter_y = 0, counter_z = 0, counter_e = 0,
     step_events_completed = 0, acceleration_time = 0, deceleration_time = 0,
     acc_step_rate = 0, step_loops = 0, OCR1A_nominal = 0, step_loops_nominal = 0,
     endstops_trigsteps = (\<lambda>_. 0),
     endstop_x_hit = False, endstop_y_hit = False, endstop_z_hit = False,
     old_x_min_endstop = False, old_x_max_endstop = False,
     old_y_min_endstop = False, old_y_max_endstop = False,
     old_z_min_endstop = False, old_z_max_endstop = False,
     check_endstops_x = True, check_endstops_y = True,
     check_endstops_z = True, check_endstops_all = True,
     count_position = (\<lambda>_. 0), count_direction = (\<lambda>_. 1),
     bQuickStop = False, OCR1A = 0, OCIE1A = False,
     pin_log = [], serial_log = []\<rparr>"

definition running :: stepper where
  "running = power_on\<lparr>OCR1A := 0x4000, OCIE1A := True\<rparr>"

definition open_switches :: inputs where
  "open_switches =
    \<lparr>X_MIN_PIN = False, X_MAX_PIN = False, Y_MIN_PIN = False, tl_Y_MIN_PIN = False,
     Y_MAX_PIN = False, Z_MIN_PIN = False, Z_MAX_PIN = False,
     tl_Y_ENDSTOPS_INVERTING = False, extruder_carriage_mode = 1, tl_RUN_STATUS = 0,
     Check_Power_Loss = False\<rparr>"

text \<open>A short move of 3 steps towards \<open>-X\<close> and 4 towards \<open>+Y\<close> at a constant 1000 steps/s.\<close>

definition diagonal_block :: block_t where
  "diagonal_block =
    \<lparr>steps_x = 3, steps_y = 4, steps_z = 0, steps_e = 0, step_event_count = 4,
     accelerate_until = 0, decelerate_after = 4, acceleration_rate = 1000,
     direction_bits = 1, active_extruder = 0,
     nominal_rate = 1000, initial_rate = 1000, final_rate = 1000, busy = False\<rparr>"

text \<open>
  A homing move of 1000 steps towards \<open>-X\<close> with the first carriage, the inputs with the
  lower X switch closed, and the state of the core 400 events into that move.
\<close>

definition homing_block :: block_t where
  "homing_block =
    \<lparr>steps_x = 1000, steps_y = 0, steps_z = 0, steps_e = 0, step_event_count = 1000,
     accelerate_until = 0, decelerate_after = 1000, acceleration_rate = 1000,
     direction_bits = 1, active_extruder = 0,
     nominal_rate = 1000, initial_rate = 1000, final_rate = 1000, busy = True\<rparr>"

definition x_min_pressed :: inputs where
  "x_min_pressed = open_switches\<lparr>X_MIN_PIN := True\<rparr>"

definition homing_move :: stepper where
  "homing_move =
    running\<lparr>current_block := Some homing_block, block_buffer := [homing_block],
       counter_x := - 500, counter_y := - 500, counter_z := - 500, counter_e := - 500,
       step_events_completed := 400, acceleration_time := 2000, acc_step_rate := 1000,
       step_loops := 1, OCR1A_nominal := 2000, step_loops_nominal := 1,
       count_position := (\<lambda>_. 0)(X_AXIS := - 400),
       count_direction := (\<lambda>_. 1)(X_AXIS := - 1), OCR1A := 2000\<rparr>"

text \<open>
  The same move one run after the switch closed, so that the stored sample is set; and
  a core at rest that has the move queued while the stored sample of the lower X switch
  is still set from an earlier block.
\<close>

definition homing_move_seen :: stepper where
  "homing_move_seen = homing_move\<lparr>old_x_min_endstop := True\<rparr>"

definition stale_start :: stepper where
  "stale_start =
    running\<lparr>block_buffer := [homing_block\<lparr>busy := False\<rparr>], old_x_min_endstop := True\<rparr>"

text \<open>
  The core at rest with the short diagonal move queued, and the move of scenario S2:
  300 steps in X and 400 in Y, with the state of the core right after its pickup.
\<close>

definition diagonal_queue :: stepper where
  "diagonal_queue = running\<lparr>block_buffer := [diagonal_block]\<rparr>"

definition s2_block :: block_t where
  "s2_block =
    \<lparr>steps_x = 300, steps_y = 400, steps_z = 0, steps_e = 0, step_event_count = 400,
     accelerate_until = 0, decelerate_after = 400, acceleration_rate = 1000,
     direction_bits = 0, active_extruder = 0,
     nominal_rate = 1000, initial_rate = 1000, final_rate = 1000, busy = True\<rparr>"

definition s2_start :: stepper where
  "s2_start =
    running\<lparr>current_block := Some s2_block, block_buffer := [s2_block],
       counter_x := - 200, counter_y := - 200, counter_z := - 200, counter_e := - 200,
       step_events_completed := 0, acceleration_time := 2000, acc_step_rate := 1000,
       step_loops := 1, OCR1A_nominal := 2000, step_loops_nominal := 1, OCR1A := 2000\<rparr>"

text \<open>
  The same board built with \<^verbatim>\<open>Z_LATE_ENABLE\<close>, and the short diagonal move with two steps
  of Z added, queued on a core at rest: its pickup returns at once.
\<close>

definition late_config :: config where
  "late_config = example_config\<lparr>Z_LATE_ENABLE := True\<rparr>"

definition lifting_block :: block_t where
  "lifting_block =
    \<lparr>steps_x = 3, steps_y = 4, steps_z = 2, steps_e = 0, step_event_count = 4,
     accelerate_until = 0, decelerate_after = 4, acceleration_rate = 1000,
     direction_bits = 1, active_extruder = 0,
     nominal_rate = 1000, initial_rate = 1000, final_rate = 1000, busy = False\<rparr>"

definition lifting_queue :: stepper where
  "lifting_queue = running\<lparr>block_buffer := [lifting_block]\<rparr>"




text \<open>The same board with a fast table whose entries are all 60.\<close>

definition worn_config :: config where
  "worn_config = example_config\<lparr>speed_lookuptable_fast := (\<lambda>i j. 60)\<rparr>"

section \<open>The endstop enable flags\<close>

text \<open>
  Claim C9. For every value of \<open>check\<close>, \<^verbatim>\<open>enable_endstops(check, axis)\<close> with an axis of 0, 1
  or 2 writes the check flag of that axis and nothing else: the result is the state with
  that one field replaced, so the other two flags and \<^verbatim>\<open>check_endstops_all\<close> keep their
  values. \<^verbatim>\<open>check_endstops_all\<close> is written only for the axis \<open>-1\<close>, and then all four
  flags become \<open>check\<close>. Any other axis number changes nothing.
\<close>

theorem enable_endstops_frame:
  "enable_endstops check 0 st = st\<lparr>check_endstops_x := check\<rparr>
   \<and> enable_endstops check 1 st = st\<lparr>check_endstops_y := check\<rparr>
   \<and> enable_endstops check 2 st = st\<lparr>check_endstops_z := check\<rparr>
   \<and> enable_endstops check (- 1) st =
       st\<lparr>check_endstops_x := check, check_endstops_y := check,
          check_endstops_z := check, check_endstops_all := check\<rparr>
   \<and> (Axis \<noteq> - 1 \<longrightarrow>
        check_endstops_all (enable_endstops check Axis st) = check_endstops_all st)
   \<and> (Axis \<notin> {0, 1, 2, - 1} \<longrightarrow> enable_endstops check Axis st = st)"
  by (simp add: enable_endstops_def)

theorem enable_endstops_frame_witness:
  "check_endstops_all (enable_endstops False 1 running) = check_endstops_all running
   \<and> check_endstops_x (enable_endstops False 1 running) = check_endstops_x running
   \<and> check_endstops_z (enable_endstops False 1 running) = check_endstops_z running
   \<and> \<not> check_endstops_y (enable_endstops False 1 running)
   \<and> check_endstops_y running
   \<and> enable_endstops False 7 running = running"
  using enable_endstops_frame [of False running 1] enable_endstops_frame [of False running 7]
  by (simp add: running_def power_on_def)

text \<open>
  Claim C5. In each of the six direction branches the sampling-and-latch block runs exactly
  when the flag of the axis or \<^verbatim>\<open>check_endstops_all\<close> is set. The value of \<^verbatim>\<open>bChecked\<close>
  that the macro expansions compute is that disjunction: it is not always true, and it is
  false when both flags are. Hence the endstop branch of an axis is the block of the
  switch that the direction selects when the disjunction holds, and leaves the state as it
  is otherwise.
\<close>

theorem bChecked_is_disjunction:
  "bChecked (check_endstops_x st) st = (check_endstops_x st \<or> check_endstops_all st)
   \<and> bChecked (check_endstops_y st) st = (check_endstops_y st \<or> check_endstops_all st)
   \<and> bChecked (check_endstops_z st) st = (check_endstops_z st \<or> check_endstops_all st)
   \<and> x_endstops cfg inp b st =
       (if check_endstops_x st \<or> check_endstops_all st
        then (if negative_direction b X_AXIS then x_min_check cfg inp b st
              else x_max_check cfg inp b st)
        else st)
   \<and> y_endstops cfg inp b st =
       (if check_endstops_y st \<or> check_endstops_all st
        then (if negative_direction b Y_AXIS then y_min_check cfg inp b st
              else y_max_check cfg inp b st)
        else st)
   \<and> z_endstops cfg inp b st =
       (if check_endstops_z st \<or> check_endstops_all st
        then (if negative_direction b Z_AXIS then z_min_check cfg inp b st
              else z_max_check cfg inp b st)
        else st)"
  by (simp add: bChecked_def x_endstops_def y_endstops_def z_endstops_def)

theorem bChecked_is_disjunction_witness:
  "\<not> bChecked (check_endstops_x (enable_endstops False (- 1) running))
        (enable_endstops False (- 1) running)
   \<and> x_endstops example_config open_switches diagonal_block
        (enable_endstops False (- 1) running) = enable_endstops False (- 1) running
   \<and> bChecked (check_endstops_y (enable_endstops False 1 running))
        (enable_endstops False 1 running)
   \<and> bChecked (check_endstops_x (enable_endstops False 1 running))
        (enable_endstops False 1 running)"
  using bChecked_is_disjunction
    [of "enable_endstops False (- 1) running" example_config open_switches diagonal_block]
    bChecked_is_disjunction
    [of "enable_endstops False 1 running" example_config open_switches diagonal_block]
  by (simp add: enable_endstops_def running_def power_on_def)

section \<open>The timer floor\<close>

text \<open>
  Claim C3. For every 16-bit step rate (and every configuration and table)
  \<^verbatim>\<open>calc_timer\<close> returns a timer of at least 100. When the value from the table lookup is
  below 100 the result is 100 and one warning, carrying the corrected step rate, is added
  to the serial output; otherwise the result is the looked-up value and nothing is
  printed. In both cases the function returns, and its only other effect is the new value
  of \<^verbatim>\<open>step_loops\<close>.
\<close>

theorem calc_timer_floor:
  "100 \<le> fst (calc_timer cfg step_rate st)
   \<and> (fst (calc_timer_lookup cfg step_rate) < 100 \<longrightarrow>
        fst (calc_timer cfg step_rate st) = 100
        \<and> serial_log (snd (calc_timer cfg step_rate st)) =
            MSG_STEPPER_TOO_HIGH (snd (snd (calc_timer_lookup cfg step_rate))) # serial_log st)
   \<and> (100 \<le> fst (calc_timer_lookup cfg step_rate) \<longrightarrow>
        fst (calc_timer cfg step_rate st) = fst (calc_timer_lookup cfg step_rate)
        \<and> serial_log (snd (calc_timer cfg step_rate st)) = serial_log st)
   \<and> snd (calc_timer cfg step_rate st)\<lparr>serial_log := serial_log st\<rparr> =
       st\<lparr>step_loops := fst (snd (calc_timer_lookup cfg step_rate))\<rparr>"
  by (cases "calc_timer_lookup cfg step_rate")
     (auto simp: calc_timer_def Let_def split: prod.splits)

lemma lookup_example: "calc_timer_lookup example_config 1000 = (2000, 1, 968)"
  by (simp add: calc_timer_lookup_def example_config_def MultiU16X8toH16_def)

lemma lookup_worn: "calc_timer_lookup worn_config 40000 = (4, 4, 9968)"
  by (simp add: calc_timer_lookup_def example_config_def worn_config_def MultiU16X8toH16_def)

theorem calc_timer_floor_witness:
  "fst (calc_timer_lookup worn_config 40000) < 100
   \<and> calc_timer worn_config 40000 running =
       (100, running\<lparr>step_loops := 4, serial_log := [MSG_STEPPER_TOO_HIGH 9968]\<rparr>)
   \<and> 100 \<le> fst (calc_timer_lookup example_config 1000)
   \<and> calc_timer example_config 1000 running = (2000, running\<lparr>step_loops := 1\<rparr>)"
  using calc_timer_floor [of worn_config 40000 running]
    calc_timer_floor [of example_config 1000 running]
  by (simp add: lookup_worn lookup_example calc_timer_def running_def power_on_def)

section \<open>Quick stop\<close>

lemma discard_queued_empties: "discard_queued st = st\<lparr>block_buffer := []\<rparr>"
proof (induction st rule: discard_queued.induct)
  case (1 st)
  show ?case
  proof (cases "block_buffer st")
    case Nil
    then show ?thesis by (subst discard_queued.simps) (simp add: blocks_queued_def)
  next
    case (Cons b bs)
    then have "discard_queued st = discard_queued (plan_discard_current_block st)"
      by (subst discard_queued.simps) (simp add: blocks_queued_def)
    also have "\<dots> = (plan_discard_current_block st)\<lparr>block_buffer := []\<rparr>"
      using Cons by (intro "1.IH") (simp add: blocks_queued_def)
    finally show ?thesis by (simp add: plan_discard_current_block_def)
  qed
qed

text \<open>
  Claim C7. \<^verbatim>\<open>quickStop\<close> returns for every state, and on return the planner's buffer is
  empty, \<^verbatim>\<open>current_block\<close> is \<^verbatim>\<open>NULL\<close>, the quick-stop flag is clear and the stepper
  interrupt is enabled; these four are all it changes. Called with an empty buffer and no
  active block, from a state in which the flag is clear and the interrupt enabled (as they
  are whenever the main loop runs after \<^verbatim>\<open>st_init\<close>: only \<^verbatim>\<open>quickStop\<close> itself raises the
  one and masks the other), it returns the state it was given.
\<close>

theorem quickStop_result:
  "quickStop st = st\<lparr>block_buffer := [], current_block := None,
                     bQuickStop := False, OCIE1A := True\<rparr>
   \<and> \<not> blocks_queued (quickStop st)
   \<and> current_block (quickStop st) = None
   \<and> \<not> bQuickStop (quickStop st)
   \<and> OCIE1A (quickStop st)
   \<and> (\<not> blocks_queued st \<and> current_block st = None \<and> \<not> bQuickStop st \<and> OCIE1A st
        \<longrightarrow> quickStop st = st)"
  by (simp add: quickStop_def discard_queued_empties blocks_queued_def)

theorem quickStop_result_witness:
  "\<not> blocks_queued running \<and> current_block running = None \<and> \<not> bQuickStop running
   \<and> OCIE1A running \<and> quickStop running = running
   \<and> blocks_queued (running\<lparr>block_buffer := [diagonal_block, diagonal_block],
                            current_block := Some diagonal_block\<rparr>)
   \<and> quickStop (running\<lparr>block_buffer := [diagonal_block, diagonal_block],
                        current_block := Some diagonal_block\<rparr>) = running"
  using quickStop_result [of running]
    quickStop_result [of "running\<lparr>block_buffer := [diagonal_block, diagonal_block],
                                 current_block := Some diagonal_block\<rparr>"]
  by (simp add: running_def power_on_def blocks_queued_def)

section \<open>What each part of the interrupt body leaves alone\<close>

text \<open>
  For every function of the translation, the variables it does not write.
\<close>

lemma set_direction_frame [simp]:
  "current_block (set_direction b a s) = current_block s"
  "block_buffer (set_direction b a s) = block_buffer s"
  "counter_x (set_direction b a s) = counter_x s"
  "counter_y (set_direction b a s) = counter_y s"
  "counter_z (set_direction b a s) = counter_z s"
  "counter_e (set_direction b a s) = counter_e s"
  "step_events_completed (set_direction b a s) = step_events_completed s"
  "acceleration_time (set_direction b a s) = acceleration_time s"
  "deceleration_time (set_direction b a s) = deceleration_time s"
  "acc_step_rate (set_direction b a s) = acc_step_rate s"
  "step_loops (set_direction b a s) = step_loops s"
  "OCR1A_nominal (set_direction b a s) = OCR1A_nominal s"
  "step_loops_nominal (set_direction b a s) = step_loops_nominal s"
  "endstops_trigsteps (set_direction b a s) = endstops_trigsteps s"
  "endstop_x_hit (set_direction b a s) = endstop_x_hit s"
  "endstop_y_hit (set_direction b a s) = endstop_y_hit s"
  "endstop_z_hit (set_direction b a s) = endstop_z_hit s"
  "old_x_min_endstop (set_direction b a s) = old_x_min_endstop s"
  "old_x_max_endstop (set_direction b a s) = old_x_max_endstop s"
  "old_y_min_endstop (set_direction b a s) = old_y_min_endstop s"
  "old_y_max_endstop (set_direction b a s) = old_y_max_endstop s"
  "old_z_min_endstop (set_direction b a s) = old_z_min_endstop s"
  "old_z_max_endstop (set_direction b a s) = old_z_max_endstop s"
  "check_endstops_x (set_direction b a s) = check_endstops_x s"
  "check_endstops_y (set_direction b a s) = check_endstops_y s"
  "check_endstops_z (set_direction b a s) = check_endstops_z s"
  "check_endstops_all (set_direction b a s) = check_endstops_all s"
  "count_position (set_direction b a s) = count_position s"
  "bQuickStop (set_direction b a s) = bQuickStop s"
  "OCR1A (set_direction b a s) = OCR1A s"
  "OCIE1A (set_direction b a s) = OCIE1A s"
  "pin_log (set_direction b a s) = pin_log s"
  "serial_log (set_direction b a s) = serial_log s"
  by (simp_all add: set_direction_def)

lemma x_endstops_frame [simp]:
  "current_block (x_endstops cfg inp b s) = current_block s"
  "block_buffer (x_endstops cfg inp b s) = block_buffer s"
  "counter_x (x_endstops cfg inp b s) = counter_x s"
  "counter_y (x_endstops cfg inp b s) = counter_y s"
  "counter_z (x_endstops cfg inp b s) = counter_z s"
  "counter_e (x_endstops cfg inp b s) = counter_e s"
  "acceleration_time (x_endstops cfg inp b s) = acceleration_time s"
  "deceleration_time (x_endstops cfg inp b s) = deceleration_time s"
  "acc_step_rate (x_endstops cfg inp b s) = acc_step_rate s"
  "step_loops (x_endstops cfg inp b s) = step_loops s"
  "OCR1A_nominal (x_endstops cfg inp b s) = OCR1A_nominal s"
  "step_loops_nominal (x_endstops cfg inp b s) = step_loops_nominal s"
  "endstop_y_hit (x_endstops cfg inp b s) = endstop_y_hit s"
  "endstop_z_hit (x_endstops cfg inp b s) = endstop_z_hit s"
  "old_y_min_endstop (x_endstops cfg inp b s) = old_y_min_endstop s"
  "old_y_max_endstop (x_endstops cfg inp b s) = old_y_max_endstop s"
  "old_z_min_endstop (x_endstops cfg inp b s) = old_z_min_endstop s"
  "old_z_max_endstop (x_endstops cfg inp b s) = old_z_max_endstop s"
  "check_endstops_x (x_endstops cfg inp b s) = check_endstops_x s"
  "check_endstops_y (x_endstops cfg inp b s) = check_endstops_y s"
  "check_endstops_z (x_endstops cfg inp b s) = check_endstops_z s"
  "check_endstops_all (x_endstops cfg inp b s) = check_endstops_all s"
  "count_position (x_endstops cfg inp b s) = count_position s"
  "count_direction (x_endstops cfg inp b s) = count_direction s"
  "bQuickStop (x_endstops cfg inp b s) = bQuickStop s"
  "OCR1A (x_endstops cfg inp b s) = OCR1A s"
  "OCIE1A (x_endstops cfg inp b s) = OCIE1A s"
  "pin_log (x_endstops cfg inp b s) = pin_log s"
  "serial_log (x_endstops cfg inp b s) = serial_log s"
  by (simp_all add: x_endstops_def x_min_check_def x_max_check_def Let_def)

lemma y_endstops_frame [simp]:
  "current_block (y_endstops cfg inp b s) = current_block s"
  "block_buffer (y_endstops cfg inp b s) = block_buffer s"
  "counter_x (y_endstops cfg inp b s) = counter_x s"
  "counter_y (y_endstops cfg inp b s) = counter_y s"
  "counter_z (y_endstops cfg inp b s) = counter_z s"
  "counter_e (y_endstops cfg inp b s) = counter_e s"
  "acceleration_time (y_endstops cfg inp b s) = acceleration_time s"
  "deceleration_time (y_endstops cfg inp b s) = deceleration_time s"
  "acc_step_rate (y_endstops cfg inp b s) = acc_step_rate s"
  "step_loops (y_endstops cfg inp b s) = step_loops s"
  "OCR1A_nominal (y_endstops cfg inp b s) = OCR1A_nominal s"
  "step_loops_nominal (y_endstops cfg inp b s) = step_loops_nominal s"
  "endstop_x_hit (y_endstops cfg inp b s) = endstop_x_hit s"
  "endstop_z_hit (y_endstops cfg inp b s) = endstop_z_hit s"
  "old_x_min_endstop (y_endstops cfg inp b s) = old_x_min_endstop s"
  "old_x_max_endstop (y_endstops cfg inp b s) = old_x_max_endstop s"
  "old_z_min_endstop (y_endstops cfg inp b s) = old_z_min_endstop s"
  "old_z_max_endstop (y_endstops cfg inp b s) = old_z_max_endstop s"
  "check_endstops_x (y_endstops cfg inp b s) = check_endstops_x s"
  "check_endstops_y (y_endstops cfg inp b s) = check_endstops_y s"
  "check_endstops_z (y_endstops cfg inp b s) = check_endstops_z s"
  "check_endstops_all (y_endstops cfg inp b s) = check_endstops_all s"
  "count_position (y_endstops cfg inp b s) = count_position s"
  "count_direction (y_endstops cfg inp b s) = count_direction s"
  "bQuickStop (y_endstops cfg inp b s) = bQuickStop s"
  "OCR1A (y_endstops cfg inp b s) = OCR1A s"
  "OCIE1A (y_endstops cfg inp b s) = OCIE1A s"
  "pin_log (y_endstops cfg inp b s) = pin_log s"
  "serial_log (y_endstops cfg inp b s) = serial_log s"
  by (simp_all add: y_endstops_def y_min_check_def y_max_check_def Let_def)

lemma z_endstops_frame [simp]:
  "current_block (z_endstops cfg inp b s) = current_block s"
  "block_buffer (z_endstops cfg inp b s) = block_buffer s"
  "counter_x (z_endstops cfg inp b s) = counter_x s"
  "counter_y (z_endstops cfg inp b s) = counter_y s"
  "counter_z (z_endstops cfg inp b s) = counter_z s"
  "counter_e (z_endstops cfg inp b s) = counter_e s"
  "acceleration_time (z_endstops cfg inp b s) = acceleration_time s"
  "deceleration_time (z_endstops cfg inp b s) = deceleration_time s"
  "acc_step_rate (z_endstops cfg inp b s) = acc_step_rate s"
  "step_loops (z_endstops cfg inp b s) = step_loops s"
  "OCR1A_nominal (z_endstops cfg inp b s) = OCR1A_nominal s"
  "step_loops_nominal (z_endstops cfg inp b s) = step_loops_nominal s"
  "endstop_x_hit (z_endstops cfg inp b s) = endstop_x_hit s"
  "endstop_y_hit (z_endstops cfg inp b s) = endstop_y_hit s"
  "old_x_min_endstop (z_endstops cfg inp b s) = old_x_min_endstop s"
  "old_x_max_endstop (z_endstops cfg inp b s) = old_x_max_endstop s"
  "old_y_min_endstop (z_endstops cfg inp b s) = old_y_min_endstop s"
  "old_y_max_endstop (z_endstops cfg inp b s) = old_y_max_endstop s"
  "check_endstops_x (z_endstops cfg inp b s) = check_endstops_x s"
  "check_endstops_y (z_endstops cfg inp b s) = check_endstops_y s"
  "check_endstops_z (z_endstops cfg inp b s) = check_endstops_z s"
  "check_endstops_all (z_endstops cfg inp b s) = check_endstops_all s"
  "count_position (z_endstops cfg inp b s) = count_position s"
  "count_direction (z_endstops cfg inp b s) = count_direction s"
  "bQuickStop (z_endstops cfg inp b s) = bQuickStop s"
  "OCR1A (z_endstops cfg inp b s) = OCR1A s"
  "OCIE1A (z_endstops cfg inp b s) = OCIE1A s"
  "pin_log (z_endstops cfg inp b s) = pin_log s"
  "serial_log (z_endstops cfg inp b s) = serial_log s"
  by (simp_all add: z_endstops_def z_min_check_def z_max_check_def Let_def)

lemma calc_timer_frame [simp]:
  "current_block (snd (calc_timer cfg r s)) = current_block s"
  "block_buffer (snd (calc_timer cfg r s)) = block_buffer s"
  "counter_x (snd (calc_timer cfg r s)) = counter_x s"
  "counter_y (snd (calc_timer cfg r s)) = counter_y s"
  "counter_z (snd (calc_timer cfg r s)) = counter_z s"
  "counter_e (snd (calc_timer cfg r s)) = counter_e s"
  "step_events_completed (snd (calc_timer cfg r s)) = step_events_completed s"
  "acceleration_time (snd (calc_timer cfg r s)) = acceleration_time s"
  "deceleration_time (snd (calc_timer cfg r s)) = deceleration_time s"
  "acc_step_rate (snd (calc_timer cfg r s)) = acc_step_rate s"
  "OCR1A_nominal (snd (calc_timer cfg r s)) = OCR1A_nominal s"
  "step_loops_nominal (snd (calc_timer cfg r s)) = step_loops_nominal s"
  "endstops_trigsteps (snd (calc_timer cfg r s)) = endstops_trigsteps s"
  "endstop_x_hit (snd (calc_timer cfg r s)) = endstop_x_hit s"
  "endstop_y_hit (snd (calc_timer cfg r s)) = endstop_y_hit s"
  "endstop_z_hit (snd (calc_timer cfg r s)) = endstop_z_hit s"
  "old_x_min_endstop (snd (calc_timer cfg r s)) = old_x_min_endstop s"
  "old_x_max_endstop (snd (calc_timer cfg r s)) = old_x_max_endstop s"
  "old_y_min_endstop (snd (calc_timer cfg r s)) = old_y_min_endstop s"
  "old_y_max_endstop (snd (calc_timer cfg r s)) = old_y_max_endstop s"
  "old_z_min_endstop (snd (calc_timer cfg r s)) = old_z_min_endstop s"
  "old_z_max_endstop (snd (calc_timer cfg r s)) = old_z_max_endstop s"
  "check_endstops_x (snd (calc_timer cfg r s)) = check_endstops_x s"
  "check_endstops_y (snd (calc_timer cfg r s)) = check_endstops_y s"
  "check_endstops_z (snd (calc_timer cfg r s)) = check_endstops_z s"
  "check_endstops_all (snd (calc_timer cfg r s)) = check_endstops_all s"
  "count_position (snd (calc_timer cfg r s)) = count_position s"
  "count_direction (snd (calc_timer cfg r s)) = count_direction s"
  "bQuickStop (snd (calc_timer cfg r s)) = bQuickStop s"
  "OCR1A (snd (calc_timer cfg r s)) = OCR1A s"
  "OCIE1A (snd (calc_timer cfg r s)) = OCIE1A s"
  "pin_log (snd (calc_timer cfg r s)) = pin_log s"
  by (simp_all add: calc_timer_def Let_def split_beta)

lemma trapezoid_generator_reset_frame [simp]:
  "current_block (trapezoid_generator_reset cfg b s) = current_block s"
  "block_buffer (trapezoid_generator_reset cfg b s) = block_buffer s"
  "counter_x (trapezoid_generator_reset cfg b s) = counter_x s"
  "counter_y (trapezoid_generator_reset cfg b s) = counter_y s"
  "counter_z (trapezoid_generator_reset cfg b s) = counter_z s"
  "counter_e (trapezoid_generator_reset cfg b s) = counter_e s"
  "step_events_completed (trapezoid_generator_reset cfg b s) = step_events_completed s"
  "endstops_trigsteps (trapezoid_generator_reset cfg b s) = endstops_trigsteps s"
  "endstop_x_hit (trapezoid_generator_reset cfg b s) = endstop_x_hit s"
  "endstop_y_hit (trapezoid_generator_reset cfg b s) = endstop_y_hit s"
  "endstop_z_hit (trapezoid_generator_reset cfg b s) = endstop_z_hit s"
  "old_x_min_endstop (trapezoid_generator_reset cfg b s) = old_x_min_endstop s"
  "old_x_max_endstop (trapezoid_generator_reset cfg b s) = old_x_max_endstop s"
  "old_y_min_endstop (trapezoid_generator_reset cfg b s) = old_y_min_endstop s"
  "old_y_max_endstop (trapezoid_generator_reset cfg b s) = old_y_max_endstop s"
  "old_z_min_endstop (trapezoid_generator_reset cfg b s) = old_z_min_endstop s"
  "old_z_max_endstop (trapezoid_generator_reset cfg b s) = old_z_max_endstop s"
  "check_endstops_x (trapezoid_generator_reset cfg b s) = check_endstops_x s"
  "check_endstops_y (trapezoid_generator_reset cfg b s) = check_endstops_y s"
  "check_endstops_z (trapezoid_generator_reset cfg b s) = check_endstops_z s"
  "check_endstops_all (trapezoid_generator_reset cfg b s) = check_endstops_all s"
  "count_position (trapezoid_generator_reset cfg b s) = count_position s"
  "count_direction (trapezoid_generator_reset cfg b s) = count_direction s"
  "bQuickStop (trapezoid_generator_reset cfg b s) = bQuickStop s"
  "OCIE1A (trapezoid_generator_reset cfg b s) = OCIE1A s"
  "pin_log (trapezoid_generator_reset cfg b s) = pin_log s"
  by (simp_all add: trapezoid_generator_reset_def Let_def split_beta)

lemma pickup_frame [simp]:
  "endstops_trigsteps (fst (pickup cfg s)) = endstops_trigsteps s"
  "endstop_x_hit (fst (pickup cfg s)) = endstop_x_hit s"
  "endstop_y_hit (fst (pickup cfg s)) = endstop_y_hit s"
  "endstop_z_hit (fst (pickup cfg s)) = endstop_z_hit s"
  "old_x_min_endstop (fst (pickup cfg s)) = old_x_min_endstop s"
  "old_x_max_endstop (fst (pickup cfg s)) = old_x_max_endstop s"
  "old_y_min_endstop (fst (pickup cfg s)) = old_y_min_endstop s"
  "old_y_max_endstop (fst (pickup cfg s)) = old_y_max_endstop s"
  "old_z_min_endstop (fst (pickup cfg s)) = old_z_min_endstop s"
  "old_z_max_endstop (fst (pickup cfg s)) = old_z_max_endstop s"
  "check_endstops_x (fst (pickup cfg s)) = check_endstops_x s"
  "check_endstops_y (fst (pickup cfg s)) = check_endstops_y s"
  "check_endstops_z (fst (pickup cfg s)) = check_endstops_z s"
  "check_endstops_all (fst (pickup cfg s)) = check_endstops_all s"
  "count_position (fst (pickup cfg s)) = count_position s"
  "count_direction (fst (pickup cfg s)) = count_direction s"
  "bQuickStop (fst (pickup cfg s)) = bQuickStop s"
  "OCIE1A (fst (pickup cfg s)) = OCIE1A s"
  "pin_log (fst (pickup cfg s)) = pin_log s"
  by (simp_all add: pickup_def plan_get_current_block_def Let_def split: list.splits)

lemma write_pins_frame [simp]:
  "current_block (write_pins ps v s) = current_block s"
  "block_buffer (write_pins ps v s) = block_buffer s"
  "counter_x (write_pins ps v s) = counter_x s"
  "counter_y (write_pins ps v s) = counter_y s"
  "counter_z (write_pins ps v s) = counter_z s"
  "counter_e (write_pins ps v s) = counter_e s"
  "step_events_completed (write_pins ps v s) = step_events_completed s"
  "acceleration_time (write_pins ps v s) = acceleration_time s"
  "deceleration_time (write_pins ps v s) = deceleration_time s"
  "acc_step_rate (write_pins ps v s) = acc_step_rate s"
  "step_loops (write_pins ps v s) = step_loops s"
  "OCR1A_nominal (write_pins ps v s) = OCR1A_nominal s"
  "step_loops_nominal (write_pins ps v s) = step_loops_nominal s"
  "endstops_trigsteps (write_pins ps v s) = endstops_trigsteps s"
  "endstop_x_hit (write_pins ps v s) = endstop_x_hit s"
  "endstop_y_hit (write_pins ps v s) = endstop_y_hit s"
  "endstop_z_hit (write_pins ps v s) = endstop_z_hit s"
  "old_x_min_endstop (write_pins ps v s) = old_x_min_endstop s"
  "old_x_max_endstop (write_pins ps v s) = old_x_max_endstop s"
  "old_y_min_endstop (write_pins ps v s) = old_y_min_endstop s"
  "old_y_max_endstop (write_pins ps v s) = old_y_max_endstop s"
  "old_z_min_endstop (write_pins ps v s) = old_z_min_endstop s"
  "old_z_max_endstop (write_pins ps v s) = old_z_max_endstop s"
  "check_endstops_x (write_pins ps v s) = check_endstops_x s"
  "check_endstops_y (write_pins ps v s) = check_endstops_y s"
  "check_endstops_z (write_pins ps v s) = check_endstops_z s"
  "check_endstops_all (write_pins ps v s) = check_endstops_all s"
  "count_position (write_pins ps v s) = count_position s"
  "count_direction (write_pins ps v s) = count_direction s"
  "bQuickStop (write_pins ps v s) = bQuickStop s"
  "OCR1A (write_pins ps v s) = OCR1A s"
  "OCIE1A (write_pins ps v s) = OCIE1A s"
  "serial_log (write_pins ps v s) = serial_log s"
  by (simp_all add: write_pins_def)

lemma x_step_frame [simp]:
  "current_block (x_step cfg inp b s) = current_block s"
  "block_buffer (x_step cfg inp b s) = block_buffer s"
  "counter_y (x_step cfg inp b s) = counter_y s"
  "counter_z (x_step cfg inp b s) = counter_z s"
  "counter_e (x_step cfg inp b s) = counter_e s"
  "step_events_completed (x_step cfg inp b s) = step_events_completed s"
  "acceleration_time (x_step cfg inp b s) = acceleration_time s"
  "deceleration_time (x_step cfg inp b s) = deceleration_time s"
  "acc_step_rate (x_step cfg inp b s) = acc_step_rate s"
  "step_loops (x_step cfg inp b s) = step_loops s"
  "OCR1A_nominal (x_step cfg inp b s) = OCR1A_nominal s"
  "step_loops_nominal (x_step cfg inp b s) = step_loops_nominal s"
  "endstops_trigsteps (x_step cfg inp b s) = endstops_trigsteps s"
  "endstop_x_hit (x_step cfg inp b s) = endstop_x_hit s"
  "endstop_y_hit (x_step cfg inp b s) = endstop_y_hit s"
  "endstop_z_hit (x_step cfg inp b s) = endstop_z_hit s"
  "old_x_min_endstop (x_step cfg inp b s) = old_x_min_endstop s"
  "old_x_max_endstop (x_step cfg inp b s) = old_x_max_endstop s"
  "old_y_min_endstop (x_step cfg inp b s) = old_y_min_endstop s"
  "old_y_max_endstop (x_step cfg inp b s) = old_y_max_endstop s"
  "old_z_min_endstop (x_step cfg inp b s) = old_z_min_endstop s"
  "old_z_max_endstop (x_step cfg inp b s) = old_z_max_endstop s"
  "check_endstops_x (x_step cfg inp b s) = check_endstops_x s"
  "check_endstops_y (x_step cfg inp b s) = check_endstops_y s"
  "check_endstops_z (x_step cfg inp b s) = check_endstops_z s"
  "check_endstops_all (x_step cfg inp b s) = check_endstops_all s"
  "count_direction (x_step cfg inp b s) = count_direction s"
  "bQuickStop (x_step cfg inp b s) = bQuickStop s"
  "OCR1A (x_step cfg inp b s) = OCR1A s"
  "OCIE1A (x_step cfg inp b s) = OCIE1A s"
  "serial_log (x_step cfg inp b s) = serial_log s"
  by (simp_all add: x_step_def Let_def)

lemma y_step_frame [simp]:
  "current_block (y_step b s) = current_block s"
  "block_buffer (y_step b s) = block_buffer s"
  "counter_x (y_step b s) = counter_x s"
  "counter_z (y_step b s) = counter_z s"
  "counter_e (y_step b s) = counter_e s"
  "step_events_completed (y_step b s) = step_events_completed s"
  "acceleration_time (y_step b s) = acceleration_time s"
  "deceleration_time (y_step b s) = deceleration_time s"
  "acc_step_rate (y_step b s) = acc_step_rate s"
  "step_loops (y_step b s) = step_loops s"
  "OCR1A_nominal (y_step b s) = OCR1A_nominal s"
  "step_loops_nominal (y_step b s) = step_loops_nominal s"
  "endstops_trigsteps (y_step b s) = endstops_trigsteps s"
  "endstop_x_hit (y_step b s) = endstop_x_hit s"
  "endstop_y_hit (y_step b s) = endstop_y_hit s"
  "endstop_z_hit (y_step b s) = endstop_z_hit s"
  "old_x_min_endstop (y_step b s) = old_x_min_endstop s"
  "old_x_max_endstop (y_step b s) = old_x_max_endstop s"
  "old_y_min_endstop (y_step b s) = old_y_min_endstop s"
  "old_y_max_endstop (y_step b s) = old_y_max_endstop s"
  "old_z_min_endstop (y_step b s) = old_z_min_endstop s"
  "old_z_max_endstop (y_step b s) = old_z_max_endstop s"
  "check_endstops_x (y_step b s) = check_endstops_x s"
  "check_endstops_y (y_step b s) = check_endstops_y s"
  "check_endstops_z (y_step b s) = check_endstops_z s"
  "check_endstops_all (y_step b s) = check_endstops_all s"
  "count_direction (y_step b s) = count_direction s"
  "bQuickStop (y_step b s) = bQuickStop s"
  "OCR1A (y_step b s) = OCR1A s"
  "OCIE1A (y_step b s) = OCIE1A s"
  "serial_log (y_step b s) = serial_log s"
  by (simp_all add: y_step_def Let_def)

lemma z_step_frame [simp]:
  "current_block (z_step cfg inp b s) = current_block s"
  "block_buffer (z_step cfg inp b s) = block_buffer s"
  "counter_x (z_step cfg inp b s) = counter_x s"
  "counter_y (z_step cfg inp b s) = counter_y s"
  "counter_e (z_step cfg inp b s) = counter_e s"
  "step_events_completed (z_step cfg inp b s) = step_events_completed s"
  "acceleration_time (z_step cfg inp b s) = acceleration_time s"
  "deceleration_time (z_step cfg inp b s) = deceleration_time s"
  "acc_step_rate (z_step cfg inp b s) = acc_step_rate s"
  "step_loops (z_step cfg inp b s) = step_loops s"
  "OCR1A_nominal (z_step cfg inp b s) = OCR1A_nominal s"
  "step_loops_nominal (z_step cfg inp b s) = step_loops_nominal s"
  "endstops_trigsteps (z_step cfg inp b s) = endstops_trigsteps s"
  "endstop_x_hit (z_step cfg inp b s) = endstop_x_hit s"
  "endstop_y_hit (z_step cfg inp b s) = endstop_y_hit s"
  "endstop_z_hit (z_step cfg inp b s) = endstop_z_hit s"
  "old_x_min_endstop (z_step cfg inp b s) = old_x_min_endstop s"
  "old_x_max_endstop (z_step cfg inp b s) = old_x_max_endstop s"
  "old_y_min_endstop (z_step cfg inp b s) = old_y_min_endstop s"
  "old_y_max_endstop (z_step cfg inp b s) = old_y_max_endstop s"
  "old_z_min_endstop (z_step cfg inp b s) = old_z_min_endstop s"
  "old_z_max_endstop (z_step cfg inp b s) = old_z_max_endstop s"
  "check_endstops_x (z_step cfg inp b s) = check_endstops_x s"
  "check_endstops_y (z_step cfg inp b s) = check_endstops_y s"
  "check_endstops_z (z_step cfg inp b s) = check_endstops_z s"
  "check_endstops_all (z_step cfg inp b s) = check_endstops_all s"
  "count_direction (z_step cfg inp b s) = count_direction s"
  "bQuickStop (z_step cfg inp b s) = bQuickStop s"
  "OCR1A (z_step cfg inp b s) = OCR1A s"
  "OCIE1A (z_step cfg inp b s) = OCIE1A s"
  "serial_log (z_step cfg inp b s) = serial_log s"
  by (simp_all add: z_step_def Let_def)

lemma e_step_frame [simp]:
  "current_block (e_step b s) = current_block s"
  "block_buffer (e_step b s) = block_buffer s"
  "counter_x (e_step b s) = counter_x s"
  "counter_y (e_step b s) = counter_y s"
  "counter_z (e_step b s) = counter_z s"
  "step_events_completed (e_step b s) = step_events_completed s"
  "acceleration_time (e_step b s) = acceleration_time s"
  "deceleration_time (e_step b s) = deceleration_time s"
  "acc_step_rate (e_step b s) = acc_step_rate s"
  "step_loops (e_step b s) = step_loops s"
  "OCR1A_nominal (e_step b s) = OCR1A_nominal s"
  "step_loops_nominal (e_step b s) = step_loops_nominal s"
  "endstops_trigsteps (e_step b s) = endstops_trigsteps s"
  "endstop_x_hit (e_step b s) = endstop_x_hit s"
  "endstop_y_hit (e_step b s) = endstop_y_hit s"
  "endstop_z_hit (e_step b s) = endstop_z_hit s"
  "old_x_min_endstop (e_step b s) = old_x_min_endstop s"
  "old_x_max_endstop (e_step b s) = old_x_max_endstop s"
  "old_y_min_endstop (e_step b s) = old_y_min_endstop s"
  "old_y_max_endstop (e_step b s) = old_y_max_endstop s"
  "old_z_min_endstop (e_step b s) = old_z_min_endstop s"
  "old_z_max_endstop (e_step b s) = old_z_max_endstop s"
  "check_endstops_x (e_step b s) = check_endstops_x s"
  "check_endstops_y (e_step b s) = check_endstops_y s"
  "check_endstops_z (e_step b s) = check_endstops_z s"
  "check_endstops_all (e_step b s) = check_endstops_all s"
  "count_direction (e_step b s) = count_direction s"
  "bQuickStop (e_step b s) = bQuickStop s"
  "OCR1A (e_step b s) = OCR1A s"
  "OCIE1A (e_step b s) = OCIE1A s"
  "serial_log (e_step b s) = serial_log s"
  by (simp_all add: e_step_def Let_def)

lemma step_event_frame [simp]:
  "current_block (step_event cfg inp b s) = current_block s"
  "block_buffer (step_event cfg inp b s) = block_buffer s"
  "acceleration_time (step_event cfg inp b s) = acceleration_time s"
  "deceleration_time (step_event cfg inp b s) = deceleration_time s"
  "acc_step_rate (step_event cfg inp b s) = acc_step_rate s"
  "step_loops (step_event cfg inp b s) = step_loops s"
  "OCR1A_nominal (step_event cfg inp b s) = OCR1A_nominal s"
  "step_loops_nominal (step_event cfg inp b s) = step_loops_nominal s"
  "endstops_trigsteps (step_event cfg inp b s) = endstops_trigsteps s"
  "endstop_x_hit (step_event cfg inp b s) = endstop_x_hit s"
  "endstop_y_hit (step_event cfg inp b s) = endstop_y_hit s"
  "endstop_z_hit (step_event cfg inp b s) = endstop_z_hit s"
  "old_x_min_endstop (step_event cfg inp b s) = old_x_min_endstop s"
  "old_x_max_endstop (step_event cfg inp b s) = old_x_max_endstop s"
  "old_y_min_endstop (step_event cfg inp b s) = old_y_min_endstop s"
  "old_y_max_endstop (step_event cfg inp b s) = old_y_max_endstop s"
  "old_z_min_endstop (step_event cfg inp b s) = old_z_min_endstop s"
  "old_z_max_endstop (step_event cfg inp b s) = old_z_max_endstop s"
  "check_endstops_x (step_event cfg inp b s) = check_endstops_x s"
  "check_endstops_y (step_event cfg inp b s) = check_endstops_y s"
  "check_endstops_z (step_event cfg inp b s) = check_endstops_z s"
  "check_endstops_all (step_event cfg inp b s) = check_endstops_all s"
  "count_direction (step_event cfg inp b s) = count_direction s"
  "bQuickStop (step_event cfg inp b s) = bQuickStop s"
  "OCR1A (step_event cfg inp b s) = OCR1A s"
  "OCIE1A (step_event cfg inp b s) = OCIE1A s"
  "serial_log (step_event cfg inp b s) = serial_log s"
  by (simp_all add: step_event_def Let_def)

lemma step_loop_frame [simp]:
  "current_block (step_loop cfg inp b n s) = current_block s"
  "block_buffer (step_loop cfg inp b n s) = block_buffer s"
  "acceleration_time (step_loop cfg inp b n s) = acceleration_time s"
  "deceleration_time (step_loop cfg inp b n s) = deceleration_time s"
  "acc_step_rate (step_loop cfg inp b n s) = acc_step_rate s"
  "step_loops (step_loop cfg inp b n s) = step_loops s"
  "OCR1A_nominal (step_loop cfg inp b n s) = OCR1A_nominal s"
  "step_loops_nominal (step_loop cfg inp b n s) = step_loops_nominal s"
  "endstops_trigsteps (step_loop cfg inp b n s) = endstops_trigsteps s"
  "endstop_x_hit (step_loop cfg inp b n s) = endstop_x_hit s"
  "endstop_y_hit (step_loop cfg inp b n s) = endstop_y_hit s"
  "endstop_z_hit (step_loop cfg inp b n s) = endstop_z_hit s"
  "old_x_min_endstop (step_loop cfg inp b n s) = old_x_min_endstop s"
  "old_x_max_endstop (step_loop cfg inp b n s) = old_x_max_endstop s"
  "old_y_min_endstop (step_loop cfg inp b n s) = old_y_min_endstop s"
  "old_y_max_endstop (step_loop cfg inp b n s) = old_y_max_endstop s"
  "old_z_min_endstop (step_loop cfg inp b n s) = old_z_min_endstop s"
  "old_z_max_endstop (step_loop cfg inp b n s) = old_z_max_endstop s"
  "check_endstops_x (step_loop cfg inp b n s) = check_endstops_x s"
  "check_endstops_y (step_loop cfg inp b n s) = check_endstops_y s"
  "check_endstops_z (step_loop cfg inp b n s) = check_endstops_z s"
  "check_endstops_all (step_loop cfg inp b n s) = check_endstops_all s"
  "count_direction (step_loop cfg inp b n s) = count_direction s"
  "bQuickStop (step_loop cfg inp b n s) = bQuickStop s"
  "OCR1A (step_loop cfg inp b n s) = OCR1A s"
  "OCIE1A (step_loop cfg inp b n s) = OCIE1A s"
  "serial_log (step_loop cfg inp b n s) = serial_log s"
  by (induction n arbitrary: s; simp add: Let_def)+

lemma trapezoid_generator_frame [simp]:
  "current_block (snd (trapezoid_generator cfg b s)) = current_block s"
  "block_buffer (snd (trapezoid_generator cfg b s)) = block_buffer s"
  "counter_x (snd (trapezoid_generator cfg b s)) = counter_x s"
  "counter_y (snd (trapezoid_generator cfg b s)) = counter_y s"
  "counter_z (snd (trapezoid_generator cfg b s)) = counter_z s"
  "counter_e (snd (trapezoid_generator cfg b s)) = counter_e s"
  "step_events_completed (snd (trapezoid_generator cfg b s)) = step_events_completed s"
  "OCR1A_nominal (snd (trapezoid_generator cfg b s)) = OCR1A_nominal s"
  "step_loops_nominal (snd (trapezoid_generator cfg b s)) = step_loops_nominal s"
  "endstops_trigsteps (snd (trapezoid_generator cfg b s)) = endstops_trigsteps s"
  "endstop_x_hit (snd (trapezoid_generator cfg b s)) = endstop_x_hit s"
  "endstop_y_hit (snd (trapezoid_generator cfg b s)) = endstop_y_hit s"
  "endstop_z_hit (snd (trapezoid_generator cfg b s)) = endstop_z_hit s"
  "old_x_min_endstop (snd (trapezoid_generator cfg b s)) = old_x_min_endstop s"
  "old_x_max_endstop (snd (trapezoid_generator cfg b s)) = old_x_max_endstop s"
  "old_y_min_endstop (snd (trapezoid_generator cfg b s)) = old_y_min_endstop s"
  "old_y_max_endstop (snd (trapezoid_generator cfg b s)) = old_y_max_endstop s"
  "old_z_min_endstop (snd (trapezoid_generator cfg b s)) = old_z_min_endstop s"
  "old_z_max_endstop (snd (trapezoid_generator cfg b s)) = old_z_max_endstop s"
  "check_endstops_x (snd (trapezoid_generator cfg b s)) = check_endstops_x s"
  "check_endstops_y (snd (trapezoid_generator cfg b s)) = check_endstops_y s"
  "check_endstops_z (snd (trapezoid_generator cfg b s)) = check_endstops_z s"
  "check_endstops_all (snd (trapezoid_generator cfg b s)) = check_endstops_all s"
  "count_position (snd (trapezoid_generator cfg b s)) = count_position s"
  "count_direction (snd (trapezoid_generator cfg b s)) = count_direction s"
  "bQuickStop (snd (trapezoid_generator cfg b s)) = bQuickStop s"
  "OCIE1A (snd (trapezoid_generator cfg b s)) = OCIE1A s"
  "pin_log (snd (trapezoid_generator cfg b s)) = pin_log s"
  by (simp_all add: trapezoid_generator_def Let_def split_beta)

lemma finish_block_frame [simp]:
  "counter_x (finish_block b s) = counter_x s"
  "counter_y (finish_block b s) = counter_y s"
  "counter_z (finish_block b s) = counter_z s"
  "counter_e (finish_block b s) = counter_e s"
  "step_events_completed (finish_block b s) = step_events_completed s"
  "acceleration_time (finish_block b s) = acceleration_time s"
  "deceleration_time (finish_block b s) = deceleration_time s"
  "acc_step_rate (finish_block b s) = acc_step_rate s"
  "step_loops (finish_block b s) = step_loops s"
  "OCR1A_nominal (finish_block b s) = OCR1A_nominal s"
  "step_loops_nominal (finish_block b s) = step_loops_nominal s"
  "endstops_trigsteps (finish_block b s) = endstops_trigsteps s"
  "endstop_x_hit (finish_block b s) = endstop_x_hit s"
  "endstop_y_hit (finish_block b s) = endstop_y_hit s"
  "endstop_z_hit (finish_block b s) = endstop_z_hit s"
  "old_x_min_endstop (finish_block b s) = old_x_min_endstop s"
  "old_x_max_endstop (finish_block b s) = old_x_max_endstop s"
  "old_y_min_endstop (finish_block b s) = old_y_min_endstop s"
  "old_y_max_endstop (finish_block b s) = old_y_max_endstop s"
  "old_z_min_endstop (finish_block b s) = old_z_min_endstop s"
  "old_z_max_endstop (finish_block b s) = old_z_max_endstop s"
  "check_endstops_x (finish_block b s) = check_endstops_x s"
  "check_endstops_y (finish_block b s) = check_endstops_y s"
  "check_endstops_z (finish_block b s) = check_endstops_z s"
  "check_endstops_all (finish_block b s) = check_endstops_all s"
  "count_position (finish_block b s) = count_position s"
  "count_direction (finish_block b s) = count_direction s"
  "bQuickStop (finish_block b s) = bQuickStop s"
  "OCR1A (finish_block b s) = OCR1A s"
  "OCIE1A (finish_block b s) = OCIE1A s"
  "pin_log (finish_block b s) = pin_log s"
  "serial_log (finish_block b s) = serial_log s"
  by (simp_all add: finish_block_def plan_discard_current_block_def)

section \<open>The endstop monitor\<close>

lemmas endstop_branch_defs =
  x_endstops_def y_endstops_def z_endstops_def
  x_min_check_def x_max_check_def y_min_check_def y_max_check_def
  z_min_check_def z_max_check_def bChecked_def selected_side_def
  latches_def samples_def Let_def

lemma x_endstops_effect:
  "endstop_x_hit (x_endstops cfg inp b s) = (endstop_x_hit s \<or> latches cfg inp b s X_AXIS)"
  "old_x_min_endstop (x_endstops cfg inp b s) =
    (if samples cfg b s X_AXIS Lower then read_x_min cfg inp else old_x_min_endstop s)"
  "old_x_max_endstop (x_endstops cfg inp b s) =
    (if samples cfg b s X_AXIS Upper then read_x_max cfg inp else old_x_max_endstop s)"
  "endstops_trigsteps (x_endstops cfg inp b s) =
    (if latches cfg inp b s X_AXIS
     then (endstops_trigsteps s)(X_AXIS := count_position s X_AXIS)
     else endstops_trigsteps s)"
  "step_events_completed (x_endstops cfg inp b s) =
    (if latches cfg inp b s X_AXIS then step_event_count b else step_events_completed s)"
  by (auto simp add: endstop_branch_defs)

lemma y_endstops_effect:
  "endstop_y_hit (y_endstops cfg inp b s) = (endstop_y_hit s \<or> latches cfg inp b s Y_AXIS)"
  "old_y_min_endstop (y_endstops cfg inp b s) =
    (if samples cfg b s Y_AXIS Lower then read_y_min cfg inp else old_y_min_endstop s)"
  "old_y_max_endstop (y_endstops cfg inp b s) =
    (if samples cfg b s Y_AXIS Upper then read_y_max cfg inp else old_y_max_endstop s)"
  "endstops_trigsteps (y_endstops cfg inp b s) =
    (if latches cfg inp b s Y_AXIS
     then (endstops_trigsteps s)(Y_AXIS := count_position s Y_AXIS)
     else endstops_trigsteps s)"
  "step_events_completed (y_endstops cfg inp b s) =
    (if latches cfg inp b s Y_AXIS then step_event_count b else step_events_completed s)"
  by (auto simp add: endstop_branch_defs)

lemma z_endstops_effect:
  "endstop_z_hit (z_endstops cfg inp b s) = (endstop_z_hit s \<or> latches cfg inp b s Z_AXIS)"
  "old_z_min_endstop (z_endstops cfg inp b s) =
    (if samples cfg b s Z_AXIS Lower then read_z_min cfg inp else old_z_min_endstop s)"
  "old_z_max_endstop (z_endstops cfg inp b s) =
    (if samples cfg b s Z_AXIS Upper then read_z_max cfg inp else old_z_max_endstop s)"
  "endstops_trigsteps (z_endstops cfg inp b s) =
    (if latches cfg inp b s Z_AXIS
     then (endstops_trigsteps s)(Z_AXIS := count_position s Z_AXIS)
     else endstops_trigsteps s)"
  "step_events_completed (z_endstops cfg inp b s) =
    (if latches cfg inp b s Z_AXIS then step_event_count b else step_events_completed s)"
  by (auto simp add: endstop_branch_defs)

text \<open>The gate and latch conditions read only the check flags and the stored samples.\<close>

lemma samples_cong:
  "check_endstops a s' = check_endstops a s \<Longrightarrow> check_endstops_all s' = check_endstops_all s
   \<Longrightarrow> samples cfg b s' a sd = samples cfg b s a sd"
  by (simp add: samples_def)

lemma latches_cong:
  "check_endstops a s' = check_endstops a s \<Longrightarrow> check_endstops_all s' = check_endstops_all s
   \<Longrightarrow> old_endstop a (selected_side b a) s' = old_endstop a (selected_side b a) s
   \<Longrightarrow> latches cfg inp b s' a = latches cfg inp b s a"
  using samples_cong [of a s' s cfg b "selected_side b a"] by (simp add: latches_def)

lemma latches_E [simp]: "\<not> latches cfg inp b s E_AXIS"
  by (simp add: latches_def samples_def)

lemma samples_E [simp]: "\<not> samples cfg b s E_AXIS sd"
  by (simp add: samples_def)

lemma check_endstops_frame [simp]:
  "check_endstops a (set_direction b a' s) = check_endstops a s"
  "check_endstops a (x_endstops cfg inp b s) = check_endstops a s"
  "check_endstops a (y_endstops cfg inp b s) = check_endstops a s"
  "check_endstops a (z_endstops cfg inp b s) = check_endstops a s"
  by (cases a; simp)+

lemma old_endstop_branches:
  "old_endstop a sd (set_direction b a' s) = old_endstop a sd s"
  "old_endstop a sd (x_endstops cfg inp b s) =
    (if a = X_AXIS \<and> samples cfg b s a sd then read_endstop cfg inp a sd else old_endstop a sd s)"
  "old_endstop a sd (y_endstops cfg inp b s) =
    (if a = Y_AXIS \<and> samples cfg b s a sd then read_endstop cfg inp a sd else old_endstop a sd s)"
  "old_endstop a sd (z_endstops cfg inp b s) =
    (if a = Z_AXIS \<and> samples cfg b s a sd then read_endstop cfg inp a sd else old_endstop a sd s)"
  by (cases a; cases sd; simp add: x_endstops_effect y_endstops_effect z_endstops_effect)+

lemma endstop_hit_branches:
  "endstop_hit a (set_direction b a' s) = endstop_hit a s"
  "endstop_hit a (x_endstops cfg inp b s) = (endstop_hit a s \<or> a = X_AXIS \<and> latches cfg inp b s a)"
  "endstop_hit a (y_endstops cfg inp b s) = (endstop_hit a s \<or> a = Y_AXIS \<and> latches cfg inp b s a)"
  "endstop_hit a (z_endstops cfg inp b s) = (endstop_hit a s \<or> a = Z_AXIS \<and> latches cfg inp b s a)"
  by (cases a; simp add: x_endstops_effect y_endstops_effect z_endstops_effect)+

lemma samples_branches [simp]:
  "samples cfg b (set_direction b a' s) a sd = samples cfg b s a sd"
  "samples cfg b (x_endstops cfg inp b s) a sd = samples cfg b s a sd"
  "samples cfg b (y_endstops cfg inp b s) a sd = samples cfg b s a sd"
  "samples cfg b (z_endstops cfg inp b s) a sd = samples cfg b s a sd"
  by (rule samples_cong; simp)+

lemma latches_branches [simp]:
  "latches cfg inp b (set_direction b a' s) a = latches cfg inp b s a"
  "a \<noteq> X_AXIS \<Longrightarrow> latches cfg inp b (x_endstops cfg inp b s) a = latches cfg inp b s a"
  "a \<noteq> Y_AXIS \<Longrightarrow> latches cfg inp b (y_endstops cfg inp b s) a = latches cfg inp b s a"
  by (rule latches_cong; simp add: old_endstop_branches)+

text \<open>The whole direction and endstop section.\<close>

lemma old_after_endstops:
  "old_endstop a sd (directions_and_endstops cfg inp b s) =
    (if samples cfg b s a sd then read_endstop cfg inp a sd else old_endstop a sd s)"
  by (cases a) (simp_all add: directions_and_endstops_def Let_def old_endstop_branches)

lemma hit_after_endstops:
  "endstop_hit a (directions_and_endstops cfg inp b s) =
    (endstop_hit a s \<or> latches cfg inp b s a)"
  by (cases a) (simp_all add: directions_and_endstops_def Let_def endstop_hit_branches)

lemma trigsteps_after_endstops:
  "endstops_trigsteps (directions_and_endstops cfg inp b s) a =
    (if latches cfg inp b s a then count_position s a else endstops_trigsteps s a)"
  by (cases a)
     (simp_all add: directions_and_endstops_def Let_def
        x_endstops_effect y_endstops_effect z_endstops_effect)

lemma completed_after_endstops:
  "step_events_completed (directions_and_endstops cfg inp b s) =
    (if latches cfg inp b s X_AXIS \<or> latches cfg inp b s Y_AXIS \<or> latches cfg inp b s Z_AXIS
     then step_event_count b else step_events_completed s)"
  by (simp add: directions_and_endstops_def Let_def
        x_endstops_effect y_endstops_effect z_endstops_effect)

lemma count_direction_after_endstops:
  "count_direction (directions_and_endstops cfg inp b s) a =
    (if negative_direction b a then - 1 else 1)"
  by (cases a) (simp_all add: directions_and_endstops_def Let_def set_direction_def)


text \<open>One run of the interrupt body, by the block it works on.\<close>

lemma Step_Controll_idle:
  "tick_block cfg st = None \<Longrightarrow> Step_Controll cfg inp st = fst (pickup cfg st)"
  by (simp add: Step_Controll_def steps_section_def tick_block_def
        split: prod.splits bool.splits option.splits)

lemma steps_section_block:
  "tick_block cfg st = Some b \<Longrightarrow>
   steps_section cfg inp st =
     Inr (b, step_loop cfg inp b (unat (step_loops (fst (pickup cfg st))))
               (directions_and_endstops cfg inp b (fst (pickup cfg st))))"
  by (simp add: steps_section_def tick_block_def Let_def directions_and_endstops_def
        split: prod.splits bool.splits option.splits)

lemma Step_Controll_block:
  "tick_block cfg st = Some b \<Longrightarrow>
   Step_Controll cfg inp st =
     finish_block b (snd (trapezoid_generator cfg b
       (step_loop cfg inp b (unat (step_loops (fst (pickup cfg st))))
          (directions_and_endstops cfg inp b (fst (pickup cfg st))))))"
  by (simp add: Step_Controll_def steps_section_block)

lemma endstop_views_frame [simp]:
  "old_endstop a sd (fst (pickup cfg s)) = old_endstop a sd s"
  "old_endstop a sd (step_loop cfg inp b n s) = old_endstop a sd s"
  "old_endstop a sd (snd (trapezoid_generator cfg b s)) = old_endstop a sd s"
  "old_endstop a sd (finish_block b s) = old_endstop a sd s"
  "endstop_hit a (fst (pickup cfg s)) = endstop_hit a s"
  "endstop_hit a (step_loop cfg inp b n s) = endstop_hit a s"
  "endstop_hit a (snd (trapezoid_generator cfg b s)) = endstop_hit a s"
  "endstop_hit a (finish_block b s) = endstop_hit a s"
  "check_endstops a (fst (pickup cfg s)) = check_endstops a s"
  "check_endstops a (step_loop cfg inp b n s) = check_endstops a s"
  "check_endstops a (snd (trapezoid_generator cfg b s)) = check_endstops a s"
  "check_endstops a (finish_block b s) = check_endstops a s"
  "check_endstops a (directions_and_endstops cfg inp b s) = check_endstops a s"
  "check_endstops_all (directions_and_endstops cfg inp b s) = check_endstops_all s"
  by (cases a; cases sd; simp add: directions_and_endstops_def Let_def)+

lemma pickup_samples [simp]:
  "samples cfg b (fst (pickup cfg s)) a sd = samples cfg b s a sd"
  by (rule samples_cong; simp)

lemma pickup_latches [simp]:
  "latches cfg inp b (fst (pickup cfg s)) a = latches cfg inp b s a"
  by (rule latches_cong; simp)

lemma old_after_tick:
  "old_endstop a sd (Step_Controll cfg inp st) =
    (case tick_block cfg st of
       None \<Rightarrow> old_endstop a sd st
     | Some b \<Rightarrow> if samples cfg b st a sd then read_endstop cfg inp a sd
                 else old_endstop a sd st)"
  by (cases "tick_block cfg st")
     (simp_all add: Step_Controll_idle Step_Controll_block old_after_endstops)

lemma hit_after_tick:
  "endstop_hit a (Step_Controll cfg inp st) =
    (case tick_block cfg st of
       None \<Rightarrow> endstop_hit a st
     | Some b \<Rightarrow> endstop_hit a st \<or> latches cfg inp b st a)"
  by (cases "tick_block cfg st")
     (simp_all add: Step_Controll_idle Step_Controll_block hit_after_endstops)

lemma trigsteps_after_tick:
  "endstops_trigsteps (Step_Controll cfg inp st) a =
    (case tick_block cfg st of
       None \<Rightarrow> endstops_trigsteps st a
     | Some b \<Rightarrow> if latches cfg inp b st a then count_position st a
                 else endstops_trigsteps st a)"
  by (cases "tick_block cfg st")
     (simp_all add: Step_Controll_idle Step_Controll_block trigsteps_after_endstops)

lemma flags_after_tick:
  "check_endstops a (Step_Controll cfg inp st) = check_endstops a st"
  "check_endstops_all (Step_Controll cfg inp st) = check_endstops_all st"
  by (cases "tick_block cfg st"; simp add: Step_Controll_idle Step_Controll_block)+

lemma samples_after_tick:
  "samples cfg b (Step_Controll cfg inp st) a sd = samples cfg b st a sd"
  by (rule samples_cong) (simp_all add: flags_after_tick)


text \<open>Pickup.\<close>

lemma pickup_active:
  "current_block st = Some b \<Longrightarrow> pickup cfg st = (st, False)"
  by (simp add: pickup_def)

lemma tick_block_active:
  "current_block st = Some b \<Longrightarrow> tick_block cfg st = Some b"
  by (simp add: tick_block_def pickup_active)

lemma tick_block_None_iff:
  "tick_block cfg st = None \<longleftrightarrow>
    current_block st = None \<and>
    (case block_buffer st of [] \<Rightarrow> True | b # bs \<Rightarrow> Z_LATE_ENABLE cfg \<and> 0 <s steps_z b)"
  by (cases "current_block st")
     (auto simp add: tick_block_def pickup_def plan_get_current_block_def Let_def
        split: list.splits)

lemma tick_block_pickup:
  "current_block st = None \<Longrightarrow> tick_block cfg st = Some b \<Longrightarrow>
   (\<exists>b0 bs. block_buffer st = b0 # bs \<and> b = b0\<lparr>busy := True\<rparr>
      \<and> block_buffer (fst (pickup cfg st)) = b # bs)
   \<and> current_block (fst (pickup cfg st)) = Some b
   \<and> step_events_completed (fst (pickup cfg st)) = 0
   \<and> counter_x (fst (pickup cfg st)) = - (drop_bit 1 (step_event_count b))
   \<and> counter_y (fst (pickup cfg st)) = - (drop_bit 1 (step_event_count b))
   \<and> counter_z (fst (pickup cfg st)) = - (drop_bit 1 (step_event_count b))
   \<and> counter_e (fst (pickup cfg st)) = - (drop_bit 1 (step_event_count b))"
  by (auto simp add: tick_block_def pickup_def plan_get_current_block_def Let_def
        split: list.splits if_splits)

lemma tick_block_current:
  "tick_block cfg st = Some b \<Longrightarrow> current_block (fst (pickup cfg st)) = Some b"
  by (auto simp add: tick_block_def split: prod.splits bool.splits)

text \<open>The event counter.\<close>

lemma step_event_completed [simp]:
  "step_events_completed (step_event cfg inp b s) = step_events_completed s + 1"
  by (simp add: step_event_def Let_def)

lemma succ_le_self:
  fixes x y :: u32
  assumes "x \<le> y" "y \<noteq> - 1"
  shows "x \<le> x + 1"
  using assms
  by (metis inc_less_eq_self_iff_eq inc_less_eq_self_imp_top linorder_linear
    order_antisym_conv)

lemma step_loop_completed:
  assumes "step_event_count b \<noteq> - 1"
    and "step_events_completed s \<le> step_event_count b"
  shows "step_events_completed s \<le> step_events_completed (step_loop cfg inp b n s)"
  using assms(2)
proof (induction n arbitrary: s)
  case 0
  then show ?case by simp
next
  case (Suc n)
  have step: "step_events_completed s \<le> step_events_completed s + 1"
    using Suc.prems assms(1) by (rule succ_le_self)
  show ?case
  proof (cases "step_event_count b \<le> step_events_completed s + 1")
    case True
    then show ?thesis using step by (simp add: Let_def)
  next
    case False
    then have "step_events_completed (step_event cfg inp b s) \<le> step_event_count b"
      by simp
    from Suc.IH [OF this] step False show ?thesis
      by (simp add: Let_def)
  qed
qed

lemma completed_after_tick:
  "tick_block cfg st = Some b \<Longrightarrow>
   step_events_completed (Step_Controll cfg inp st) =
     step_events_completed
       (step_loop cfg inp b (unat (step_loops (fst (pickup cfg st))))
          (directions_and_endstops cfg inp b (fst (pickup cfg st))))"
  by (simp add: Step_Controll_block)

lemma current_block_after_endstops [simp]:
  "current_block (directions_and_endstops cfg inp b s) = current_block s"
  "block_buffer (directions_and_endstops cfg inp b s) = block_buffer s"
  by (simp_all add: directions_and_endstops_def Let_def)

lemma block_after_tick:
  "tick_block cfg st = Some b \<Longrightarrow>
   current_block (Step_Controll cfg inp st) =
     (if step_event_count b \<le> step_events_completed (Step_Controll cfg inp st)
      then None else Some b)
   \<and> block_buffer (Step_Controll cfg inp st) =
     (if step_event_count b \<le> step_events_completed (Step_Controll cfg inp st)
      then drop 1 (block_buffer (fst (pickup cfg st)))
      else block_buffer (fst (pickup cfg st)))"
  by (simp add: Step_Controll_block finish_block_def plan_discard_current_block_def
        tick_block_current)

lemma completed_mono_tick:
  assumes "current_block st = Some b" "step_event_count b \<noteq> - 1"
    and "step_events_completed st \<le> step_event_count b"
  shows "step_events_completed st \<le> step_events_completed (Step_Controll cfg inp st)"
proof -
  let ?d = "directions_and_endstops cfg inp b st"
  have tb: "tick_block cfg st = Some b" using assms(1) by (rule tick_block_active)
  have pk: "fst (pickup cfg st) = st" using assms(1) by (simp add: pickup_active)
  have d: "step_events_completed st \<le> step_events_completed ?d"
    "step_events_completed ?d \<le> step_event_count b"
    using assms(3) by (simp_all add: completed_after_endstops)
  have "step_events_completed ?d \<le>
      step_events_completed (step_loop cfg inp b (unat (step_loops st)) ?d)"
    using assms(2) d(2) by (rule step_loop_completed)
  then show ?thesis
    using d(1) by (simp add: completed_after_tick [OF tb] pk)
qed

text \<open>
  Claim C4. Take any axis \<open>a\<close> and side \<open>sd\<close>, and one run of \<^verbatim>\<open>Step_Controll\<close> from the
  state \<open>st\<close>. A run that works on no block leaves the hit flag and the trigger position
  alone. A run on block \<open>b\<close> sets the sticky flag of \<open>a\<close> exactly when the condition
  \<open>latches\<close> holds, besides keeping a flag already set; it then stores the
  \<^verbatim>\<open>count_position\<close> of \<open>a\<close> in \<^verbatim>\<open>endstops_trigsteps\<close>, and its endstop section leaves
  \<^verbatim>\<open>step_events_completed\<close> equal to \<^verbatim>\<open>step_event_count\<close>; without the condition
  these are unchanged. The condition is: the check of the axis is enabled, the switch on
  the side that the direction bit selects is present, that switch reads asserted now and
  did so at the last run that sampled it (the stored sample), and the block has
  \<open>steps > 0\<close> on the axis. After a sampling run the stored sample is the one just read.
  Across two runs in a row that look at the same switch: if the stored sample is clear
  before the first and the switch reads open in the second, no hit is latched, whatever
  the first run reads (an assertion of one sample does not latch); if both runs sample
  the switch asserted and the second block moves the axis, the hit is latched in the
  second run, with the position at its entry as trigger position.
\<close>

theorem endstop_latch_debounced:
  "(tick_block cfg st = None \<longrightarrow>
      endstop_hit a (Step_Controll cfg inp st) = endstop_hit a st
      \<and> endstops_trigsteps (Step_Controll cfg inp st) a = endstops_trigsteps st a)
   \<and> (tick_block cfg st = Some b \<longrightarrow>
      endstop_hit a (Step_Controll cfg inp st) = (endstop_hit a st \<or> latches cfg inp b st a)
      \<and> endstops_trigsteps (Step_Controll cfg inp st) a =
          (if latches cfg inp b st a then count_position st a else endstops_trigsteps st a)
      \<and> step_events_completed (directions_and_endstops cfg inp b (fst (pickup cfg st))) =
          (if latches cfg inp b st X_AXIS \<or> latches cfg inp b st Y_AXIS
              \<or> latches cfg inp b st Z_AXIS
           then step_event_count b else step_events_completed (fst (pickup cfg st)))
      \<and> old_endstop a sd (Step_Controll cfg inp st) =
          (if samples cfg b st a sd then read_endstop cfg inp a sd else old_endstop a sd st))
   \<and> (latches cfg inp b st a \<longleftrightarrow>
        (check_endstops a st \<or> check_endstops_all st)
        \<and> switch_present cfg b a (selected_side b a)
        \<and> read_endstop cfg inp a (selected_side b a)
        \<and> old_endstop a (selected_side b a) st
        \<and> 0 <s steps b a)
   \<and> (tick_block cfg st = Some b1 \<and> tick_block cfg (Step_Controll cfg i1 st) = Some b2
        \<and> selected_side b1 a = sd \<and> selected_side b2 a = sd
        \<and> \<not> old_endstop a sd st \<and> \<not> read_endstop cfg i2 a sd \<longrightarrow>
        endstop_hit a (Step_Controll cfg i2 (Step_Controll cfg i1 st)) = endstop_hit a st)
   \<and> (tick_block cfg st = Some b1 \<and> tick_block cfg (Step_Controll cfg i1 st) = Some b2
        \<and> samples cfg b1 st a sd \<and> samples cfg b2 st a sd
        \<and> read_endstop cfg i1 a sd \<and> read_endstop cfg i2 a sd \<and> 0 <s steps b2 a \<longrightarrow>
        endstop_hit a (Step_Controll cfg i2 (Step_Controll cfg i1 st))
        \<and> endstops_trigsteps (Step_Controll cfg i2 (Step_Controll cfg i1 st)) a =
            count_position (Step_Controll cfg i1 st) a)"
proof (intro conjI impI)
  assume "tick_block cfg st = None"
  then show "endstop_hit a (Step_Controll cfg inp st) = endstop_hit a st"
    and "endstops_trigsteps (Step_Controll cfg inp st) a = endstops_trigsteps st a"
    by (simp_all add: hit_after_tick trigsteps_after_tick)
next
  assume tb: "tick_block cfg st = Some b"
  then show "endstop_hit a (Step_Controll cfg inp st) = (endstop_hit a st \<or> latches cfg inp b st a)"
    by (simp add: hit_after_tick)
  from tb show "endstops_trigsteps (Step_Controll cfg inp st) a =
      (if latches cfg inp b st a then count_position st a else endstops_trigsteps st a)"
    by (simp add: trigsteps_after_tick)
  show "step_events_completed (directions_and_endstops cfg inp b (fst (pickup cfg st))) =
      (if latches cfg inp b st X_AXIS \<or> latches cfg inp b st Y_AXIS \<or> latches cfg inp b st Z_AXIS
       then step_event_count b else step_events_completed (fst (pickup cfg st)))"
    by (simp add: completed_after_endstops)
  from tb show "old_endstop a sd (Step_Controll cfg inp st) =
      (if samples cfg b st a sd then read_endstop cfg inp a sd else old_endstop a sd st)"
    by (simp add: old_after_tick)
next
  show "latches cfg inp b st a \<longleftrightarrow>
        (check_endstops a st \<or> check_endstops_all st)
        \<and> switch_present cfg b a (selected_side b a)
        \<and> read_endstop cfg inp a (selected_side b a)
        \<and> old_endstop a (selected_side b a) st
        \<and> 0 <s steps b a"
    by (simp add: latches_def samples_def)
next
  assume h: "tick_block cfg st = Some b1 \<and> tick_block cfg (Step_Controll cfg i1 st) = Some b2
        \<and> selected_side b1 a = sd \<and> selected_side b2 a = sd
        \<and> \<not> old_endstop a sd st \<and> \<not> read_endstop cfg i2 a sd"
  then have "\<not> latches cfg i1 b1 st a" "\<not> latches cfg i2 b2 (Step_Controll cfg i1 st) a"
    by (simp_all add: latches_def)
  with h show "endstop_hit a (Step_Controll cfg i2 (Step_Controll cfg i1 st)) = endstop_hit a st"
    by (simp add: hit_after_tick)
next
  assume h: "tick_block cfg st = Some b1 \<and> tick_block cfg (Step_Controll cfg i1 st) = Some b2
        \<and> samples cfg b1 st a sd \<and> samples cfg b2 st a sd
        \<and> read_endstop cfg i1 a sd \<and> read_endstop cfg i2 a sd \<and> 0 <s steps b2 a"
  then have sd: "selected_side b2 a = sd" by (simp add: samples_def)
  from h have "old_endstop a sd (Step_Controll cfg i1 st)"
    by (simp add: old_after_tick)
  with h sd have l: "latches cfg i2 b2 (Step_Controll cfg i1 st) a"
    by (simp add: latches_def samples_after_tick)
  with h show "endstop_hit a (Step_Controll cfg i2 (Step_Controll cfg i1 st))"
    by (simp add: hit_after_tick)
  from h l show "endstops_trigsteps (Step_Controll cfg i2 (Step_Controll cfg i1 st)) a =
      count_position (Step_Controll cfg i1 st) a"
    by (simp add: trigsteps_after_tick)
qed

text \<open>The homing move, evaluated: its first run with the switch closed.\<close>

lemma homing_move_block:
  "current_block homing_move = Some homing_block"
  "tick_block example_config homing_move = Some homing_block"
  "pickup example_config homing_move = (homing_move, False)"
  by (simp_all add: tick_block_def pickup_def homing_move_def)

lemma homing_move_fields:
  "step_loops homing_move = 1"
  "step_events_completed homing_move = 400"
  "\<not> old_endstop a sd homing_move"
  "\<not> endstop_hit a homing_move"
  "\<not> old_x_min_endstop homing_move"
  "\<not> endstop_x_hit homing_move"
  by (cases a; cases sd; simp add: homing_move_def running_def power_on_def)+

lemma homing_block_fields:
  "step_event_count homing_block = 1000"
  "selected_side homing_block X_AXIS = Lower"
  "0 <s steps_x homing_block"
  by (simp_all add: selected_side_def negative_direction_def homing_block_def word_sless_alt)

lemma homing_move_samples: "samples example_config homing_block homing_move X_AXIS Lower"
  by (simp add: samples_def homing_block_fields)
     (simp add: homing_direction_def homing_block_def homing_move_def running_def
        power_on_def example_config_def)

lemma homing_reads:
  "read_x_min example_config x_min_pressed"
  "\<not> read_x_min example_config open_switches"
  by (simp_all add: read_x_min_def x_min_pressed_def open_switches_def example_config_def)

lemma homing_tick_continues:
  "step_events_completed (Step_Controll example_config inp homing_move) = 401"
  "tick_block example_config (Step_Controll example_config inp homing_move) = Some homing_block"
proof -
  have "\<not> latches example_config inp homing_block homing_move a" for a
    by (simp add: latches_def homing_move_fields)
  then show c: "step_events_completed (Step_Controll example_config inp homing_move) = 401"
    by (simp add: completed_after_tick [OF homing_move_block(2)] homing_move_block(3)
          completed_after_endstops Let_def homing_move_fields homing_block_fields)
  have "current_block (Step_Controll example_config inp homing_move) = Some homing_block"
    using block_after_tick [OF homing_move_block(2), of inp]
    by (simp add: c homing_block_fields)
  then show "tick_block example_config (Step_Controll example_config inp homing_move)
      = Some homing_block"
    by (rule tick_block_active)
qed

theorem endstop_latch_debounced_witness:
  "tick_block example_config homing_move = Some homing_block
   \<and> tick_block example_config (Step_Controll example_config x_min_pressed homing_move)
       = Some homing_block
   \<and> samples example_config homing_block homing_move X_AXIS Lower
   \<and> \<not> old_endstop X_AXIS Lower homing_move
   \<and> \<not> endstop_hit X_AXIS homing_move
   \<and> read_endstop example_config x_min_pressed X_AXIS Lower
   \<and> \<not> read_endstop example_config open_switches X_AXIS Lower
   \<and> 0 <s steps homing_block X_AXIS
   \<and> \<not> endstop_hit X_AXIS (Step_Controll example_config x_min_pressed homing_move)
   \<and> \<not> endstop_hit X_AXIS (Step_Controll example_config open_switches
           (Step_Controll example_config x_min_pressed homing_move))
   \<and> endstop_hit X_AXIS (Step_Controll example_config x_min_pressed
         (Step_Controll example_config x_min_pressed homing_move))
   \<and> endstops_trigsteps (Step_Controll example_config x_min_pressed
         (Step_Controll example_config x_min_pressed homing_move)) X_AXIS
       = count_position (Step_Controll example_config x_min_pressed homing_move) X_AXIS"
proof -
  note facts = homing_move_block homing_tick_continues homing_move_samples
    homing_move_fields homing_reads homing_block_fields
  have "\<not> endstop_hit X_AXIS (Step_Controll example_config x_min_pressed homing_move)"
    using endstop_latch_debounced [of example_config homing_move X_AXIS x_min_pressed
      homing_block Lower homing_block x_min_pressed homing_block open_switches]
    by (simp add: facts)
  moreover have "\<not> endstop_hit X_AXIS (Step_Controll example_config open_switches
           (Step_Controll example_config x_min_pressed homing_move))"
    using endstop_latch_debounced [of example_config homing_move X_AXIS x_min_pressed
      homing_block Lower homing_block x_min_pressed homing_block open_switches]
    by (simp add: facts)
  moreover have "endstop_hit X_AXIS (Step_Controll example_config x_min_pressed
         (Step_Controll example_config x_min_pressed homing_move))
     \<and> endstops_trigsteps (Step_Controll example_config x_min_pressed
         (Step_Controll example_config x_min_pressed homing_move)) X_AXIS
       = count_position (Step_Controll example_config x_min_pressed homing_move) X_AXIS"
    using endstop_latch_debounced [of example_config homing_move X_AXIS x_min_pressed
      homing_block Lower homing_block x_min_pressed homing_block x_min_pressed]
    by (simp add: facts)
  ultimately show ?thesis by (simp add: facts)
qed

section \<open>The stored samples and the life of a block\<close>

lemma pickup_buffer_length:
  "length (block_buffer (fst (pickup cfg st))) = length (block_buffer st)"
  by (simp add: pickup_def plan_get_current_block_def Let_def split: list.splits)

lemma idle_tick: "tick_block example_config running = None"
  by (simp add: tick_block_None_iff running_def power_on_def)

lemma tick_block_queued:
  "current_block st = None \<Longrightarrow> block_buffer st = b0 # bs
   \<Longrightarrow> \<not> (Z_LATE_ENABLE cfg \<and> 0 <s steps_z b0)
   \<Longrightarrow> tick_block cfg st = Some (b0\<lparr>busy := True\<rparr>)"
  by (simp add: tick_block_def pickup_def plan_get_current_block_def Let_def)

lemma example_config_fields:
  "\<not> Z_LATE_ENABLE example_config"
  "has_X_MIN_PIN example_config"
  "homing_direction example_config homing_block (- 1)"
  by (simp_all add: homing_direction_def homing_block_def example_config_def)

lemma stale_start_fields:
  "current_block stale_start = None"
  "block_buffer stale_start = [homing_block\<lparr>busy := False\<rparr>]"
  "endstop_x_hit stale_start = False"
  "old_x_min_endstop stale_start"
  "check_endstops_x stale_start"
  by (simp_all add: stale_start_def running_def power_on_def)

lemma stale_start_block:
  "tick_block example_config stale_start = Some homing_block"
proof -
  have "homing_block\<lparr>busy := False, busy := True\<rparr> = homing_block"
    by (simp add: homing_block_def)
  then show ?thesis
    using tick_block_queued [OF stale_start_fields(1,2), of example_config]
    by (simp add: example_config_fields)
qed

lemma homing_move_flags:
  "check_endstops_x homing_move"
  "check_endstops_all homing_move"
  by (simp_all add: homing_move_def running_def power_on_def)

lemma homing_block_count: "step_event_count homing_block \<noteq> - 1"
  by (simp add: homing_block_def)

lemma homing_move_seen_fields:
  "current_block homing_move_seen = Some homing_block"
  "step_events_completed homing_move_seen = 400"
  "old_x_min_endstop homing_move_seen"
  "check_endstops_x homing_move_seen"
  by (simp_all add: homing_move_seen_def homing_move_def running_def power_on_def)

lemma homing_move_seen_block:
  "tick_block example_config homing_move_seen = Some homing_block"
  "latches example_config x_min_pressed homing_block homing_move_seen X_AXIS"
  by (simp_all add: tick_block_active latches_def samples_def homing_block_fields
        example_config_fields homing_reads homing_move_seen_fields)

lemma homing_tick_block:
  "current_block (Step_Controll example_config inp homing_move) = Some homing_block"
  using block_after_tick [OF homing_move_block(2), of inp]
  by (simp add: homing_tick_continues homing_block_fields)

text \<open>
  Claim C10. The stored sample of a switch after one run of \<^verbatim>\<open>Step_Controll\<close> is the sample
  just read when the run works on a block, the check of the axis or the check of all axes
  is enabled, the direction bit of the block selects the side of the switch, and the
  switch is present; in every other run it is the value it had before. So a stored sample
  changes only in a run with an active block, an open gate and a matching direction: it
  is unchanged when the run has no block (nothing queued, or the early return of
  \<^verbatim>\<open>Z_LATE_ENABLE\<close>), when the direction selects the other side, and when both flags are
  clear. Picking up a block does not touch it either, so the first run of a new block
  compares its sample with the one stored before the pickup, possibly during an earlier
  block.
\<close>

theorem debounce_latches_frame:
  "old_endstop a sd (Step_Controll cfg inp st) =
     (case tick_block cfg st of
        None \<Rightarrow> old_endstop a sd st
      | Some b \<Rightarrow>
          if (check_endstops a st \<or> check_endstops_all st) \<and> selected_side b a = sd
             \<and> switch_present cfg b a sd
          then read_endstop cfg inp a sd else old_endstop a sd st)
   \<and> (old_endstop a sd (Step_Controll cfg inp st) \<noteq> old_endstop a sd st \<longrightarrow>
        (\<exists>b. tick_block cfg st = Some b
           \<and> (check_endstops a st \<or> check_endstops_all st)
           \<and> selected_side b a = sd))
   \<and> (tick_block cfg st = None \<longrightarrow>
        old_endstop a sd (Step_Controll cfg inp st) = old_endstop a sd st)
   \<and> (tick_block cfg st = Some b \<and> selected_side b a \<noteq> sd \<longrightarrow>
        old_endstop a sd (Step_Controll cfg inp st) = old_endstop a sd st)
   \<and> (\<not> check_endstops a st \<and> \<not> check_endstops_all st \<longrightarrow>
        old_endstop a sd (Step_Controll cfg inp st) = old_endstop a sd st)
   \<and> (tick_block cfg st = None \<longleftrightarrow>
        current_block st = None \<and>
        (case block_buffer st of [] \<Rightarrow> True
         | b # bs \<Rightarrow> Z_LATE_ENABLE cfg \<and> 0 <s steps_z b))
   \<and> old_endstop a sd (fst (pickup cfg st)) = old_endstop a sd st
   \<and> (current_block st = None \<and> tick_block cfg st = Some b \<longrightarrow>
        endstop_hit a (Step_Controll cfg inp st) =
          (endstop_hit a st \<or>
           (check_endstops a st \<or> check_endstops_all st)
           \<and> switch_present cfg b a (selected_side b a)
           \<and> read_endstop cfg inp a (selected_side b a)
           \<and> old_endstop a (selected_side b a) st
           \<and> 0 <s steps b a))"
proof -
  have old: "old_endstop a sd (Step_Controll cfg inp st) =
     (case tick_block cfg st of
        None \<Rightarrow> old_endstop a sd st
      | Some b \<Rightarrow>
          if (check_endstops a st \<or> check_endstops_all st) \<and> selected_side b a = sd
             \<and> switch_present cfg b a sd
          then read_endstop cfg inp a sd else old_endstop a sd st)"
    by (simp add: old_after_tick samples_def split: option.splits)
  have changed: "\<exists>b. tick_block cfg st = Some b
           \<and> (check_endstops a st \<or> check_endstops_all st) \<and> selected_side b a = sd"
    if "old_endstop a sd (Step_Controll cfg inp st) \<noteq> old_endstop a sd st"
    using that unfolding old by (cases "tick_block cfg st") (auto split: if_splits)
  have hit: "endstop_hit a (Step_Controll cfg inp st) =
          (endstop_hit a st \<or>
           (check_endstops a st \<or> check_endstops_all st)
           \<and> switch_present cfg b a (selected_side b a)
           \<and> read_endstop cfg inp a (selected_side b a)
           \<and> old_endstop a (selected_side b a) st
           \<and> 0 <s steps b a)"
    if "tick_block cfg st = Some b"
    using that by (simp add: hit_after_tick latches_def samples_def)
  have same: "old_endstop a sd (Step_Controll cfg inp st) = old_endstop a sd st"
    if "tick_block cfg st = None \<or> (tick_block cfg st = Some b \<and> selected_side b a \<noteq> sd)
        \<or> (\<not> check_endstops a st \<and> \<not> check_endstops_all st)"
    using that unfolding old by (cases "tick_block cfg st") auto
  show ?thesis
    apply (intro conjI impI)
           apply (rule old)
          apply (erule changed)
         apply (simp add: same)
        apply (simp add: same)
       apply (simp add: same)
      apply (rule tick_block_None_iff)
     apply simp
    apply (simp add: hit)
    done
qed

theorem debounce_latches_frame_witness:
  "tick_block example_config running = None
   \<and> old_endstop X_AXIS Lower (Step_Controll example_config x_min_pressed running)
       = old_endstop X_AXIS Lower running
   \<and> tick_block example_config homing_move = Some homing_block
   \<and> selected_side homing_block X_AXIS \<noteq> Upper
   \<and> old_endstop X_AXIS Upper (Step_Controll example_config x_min_pressed homing_move)
       = old_endstop X_AXIS Upper homing_move
   \<and> \<not> old_endstop X_AXIS Lower homing_move
   \<and> old_endstop X_AXIS Lower (Step_Controll example_config x_min_pressed homing_move)
   \<and> current_block stale_start = None
   \<and> tick_block example_config stale_start = Some homing_block
   \<and> old_endstop X_AXIS Lower stale_start
   \<and> \<not> endstop_hit X_AXIS stale_start
   \<and> endstop_hit X_AXIS (Step_Controll example_config x_min_pressed stale_start)"
proof -
  note facts = idle_tick homing_move_block homing_move_fields homing_block_fields
    homing_reads example_config_fields stale_start_fields stale_start_block
  have "old_endstop X_AXIS Lower (Step_Controll example_config x_min_pressed running)
       = old_endstop X_AXIS Lower running"
    using debounce_latches_frame
      [of X_AXIS Lower example_config x_min_pressed running homing_block]
    by (simp add: facts)
  moreover have "old_endstop X_AXIS Upper (Step_Controll example_config x_min_pressed homing_move)
       = old_endstop X_AXIS Upper homing_move"
    using debounce_latches_frame
      [of X_AXIS Upper example_config x_min_pressed homing_move homing_block]
    by (simp add: facts)
  moreover have "old_endstop X_AXIS Lower (Step_Controll example_config x_min_pressed homing_move)"
    using debounce_latches_frame
      [of X_AXIS Lower example_config x_min_pressed homing_move homing_block]
    by (simp add: facts homing_move_flags)
  moreover have "endstop_hit X_AXIS (Step_Controll example_config x_min_pressed stale_start)"
    using debounce_latches_frame
      [of X_AXIS Lower example_config x_min_pressed stale_start homing_block]
    by (simp add: facts)
  ultimately show ?thesis by (simp add: facts)
qed

text \<open>
  Claim C6. A run of \<^verbatim>\<open>Step_Controll\<close> on block \<open>b\<close> ends with \<^verbatim>\<open>current_block\<close> cleared and
  the head of the buffer discarded exactly when \<^verbatim>\<open>step_events_completed\<close> has reached
  \<^verbatim>\<open>step_event_count\<close>; otherwise the block stays current and the buffer is as the
  pickup left it. A run without a block discards nothing. The counter starts at 0 at
  pickup. When it is at most \<^verbatim>\<open>step_event_count\<close> at entry, and that count is below the
  largest \<^verbatim>\<open>unsigned long\<close> (as every maximum of non-negative \<^verbatim>\<open>long\<close> step counts
  is), the run does not decrease it, and a block that stays current has it strictly below
  \<^verbatim>\<open>step_event_count\<close>, so that the condition holds again at the next entry. An endstop
  latch sets the counter to \<^verbatim>\<open>step_event_count\<close>, and the run that latches ends with
  the block discarded. (The statement is about \<^verbatim>\<open>Step_Controll\<close>; \<^verbatim>\<open>quickStop\<close> drops
  blocks whatever the counter.)
\<close>

theorem block_lifetime:
  "(tick_block cfg st = None \<longrightarrow>
      Step_Controll cfg inp st = fst (pickup cfg st)
      \<and> length (block_buffer (Step_Controll cfg inp st)) = length (block_buffer st))
   \<and> (tick_block cfg st = Some b \<longrightarrow>
      current_block (Step_Controll cfg inp st) =
        (if step_event_count b \<le> step_events_completed (Step_Controll cfg inp st)
         then None else Some b)
      \<and> block_buffer (Step_Controll cfg inp st) =
        (if step_event_count b \<le> step_events_completed (Step_Controll cfg inp st)
         then drop 1 (block_buffer (fst (pickup cfg st)))
         else block_buffer (fst (pickup cfg st))))
   \<and> (current_block st = None \<and> tick_block cfg st = Some b \<longrightarrow>
      step_events_completed (fst (pickup cfg st)) = 0)
   \<and> (current_block st = Some b \<and> step_event_count b \<noteq> - 1
        \<and> step_events_completed st \<le> step_event_count b \<longrightarrow>
      step_events_completed st \<le> step_events_completed (Step_Controll cfg inp st)
      \<and> (current_block (Step_Controll cfg inp st) = Some b \<longrightarrow>
          step_events_completed (Step_Controll cfg inp st) < step_event_count b))
   \<and> (latches cfg inp b s a \<longrightarrow>
      step_events_completed (directions_and_endstops cfg inp b s) = step_event_count b)
   \<and> (tick_block cfg st = Some b \<and> latches cfg inp b st a \<and> step_event_count b \<noteq> - 1 \<longrightarrow>
      current_block (Step_Controll cfg inp st) = None)"
proof (intro conjI impI)
  assume tb: "tick_block cfg st = None"
  then show "Step_Controll cfg inp st = fst (pickup cfg st)"
    by (rule Step_Controll_idle)
  from tb show "length (block_buffer (Step_Controll cfg inp st)) = length (block_buffer st)"
    by (simp add: Step_Controll_idle pickup_buffer_length)
next
  assume "tick_block cfg st = Some b"
  from block_after_tick [OF this]
  show "current_block (Step_Controll cfg inp st) =
        (if step_event_count b \<le> step_events_completed (Step_Controll cfg inp st)
         then None else Some b)"
    and "block_buffer (Step_Controll cfg inp st) =
        (if step_event_count b \<le> step_events_completed (Step_Controll cfg inp st)
         then drop 1 (block_buffer (fst (pickup cfg st)))
         else block_buffer (fst (pickup cfg st)))"
    by simp_all
next
  assume "current_block st = None \<and> tick_block cfg st = Some b"
  then show "step_events_completed (fst (pickup cfg st)) = 0"
    using tick_block_pickup [of st cfg b] by simp
next
  assume h: "current_block st = Some b \<and> step_event_count b \<noteq> - 1
        \<and> step_events_completed st \<le> step_event_count b"
  then show "step_events_completed st \<le> step_events_completed (Step_Controll cfg inp st)"
    using completed_mono_tick [of st b cfg inp] by simp
next
  assume h: "current_block st = Some b \<and> step_event_count b \<noteq> - 1
        \<and> step_events_completed st \<le> step_event_count b"
    and c: "current_block (Step_Controll cfg inp st) = Some b"
  from h have "tick_block cfg st = Some b" by (simp add: tick_block_active)
  from block_after_tick [OF this, of inp] c
  show "step_events_completed (Step_Controll cfg inp st) < step_event_count b"
    by (simp split: if_splits)
next
  assume "latches cfg inp b s a"
  then show "step_events_completed (directions_and_endstops cfg inp b s) = step_event_count b"
    by (cases a) (simp_all add: completed_after_endstops)
next
  assume h: "tick_block cfg st = Some b \<and> latches cfg inp b st a \<and> step_event_count b \<noteq> - 1"
  let ?d = "directions_and_endstops cfg inp b (fst (pickup cfg st))"
  from h have "step_events_completed ?d = step_event_count b"
    by (cases a) (simp_all add: completed_after_endstops)
  then have "step_event_count b \<le>
      step_events_completed (step_loop cfg inp b (unat (step_loops (fst (pickup cfg st)))) ?d)"
    using step_loop_completed [of b ?d cfg inp] h by simp
  with h show "current_block (Step_Controll cfg inp st) = None"
    using block_after_tick [of cfg st b inp] by (simp add: completed_after_tick)
qed

theorem block_lifetime_witness:
  "tick_block example_config running = None
   \<and> Step_Controll example_config open_switches running
       = fst (pickup example_config running)
   \<and> current_block stale_start = None
   \<and> tick_block example_config stale_start = Some homing_block
   \<and> step_events_completed (fst (pickup example_config stale_start)) = 0
   \<and> current_block homing_move = Some homing_block
   \<and> step_event_count homing_block \<noteq> - 1
   \<and> step_events_completed homing_move \<le> step_event_count homing_block
   \<and> step_events_completed homing_move
       \<le> step_events_completed (Step_Controll example_config open_switches homing_move)
   \<and> current_block (Step_Controll example_config open_switches homing_move)
       = Some homing_block
   \<and> step_events_completed (Step_Controll example_config open_switches homing_move)
       < step_event_count homing_block
   \<and> tick_block example_config homing_move_seen = Some homing_block
   \<and> latches example_config x_min_pressed homing_block homing_move_seen X_AXIS
   \<and> step_events_completed
        (directions_and_endstops example_config x_min_pressed homing_block homing_move_seen)
       = step_event_count homing_block
   \<and> current_block (Step_Controll example_config x_min_pressed homing_move_seen) = None"
proof -
  note facts = idle_tick homing_move_block homing_move_fields homing_block_fields
    stale_start_fields stale_start_block homing_move_seen_fields homing_move_seen_block
    homing_tick_block
  have "Step_Controll example_config open_switches running = fst (pickup example_config running)"
    using block_lifetime [of example_config running open_switches homing_block
      homing_move_seen X_AXIS]
    by (simp add: facts)
  moreover have "step_events_completed (fst (pickup example_config stale_start)) = 0"
    using block_lifetime [of example_config stale_start open_switches homing_block
      homing_move_seen X_AXIS]
    by (simp add: facts)
  moreover have "step_events_completed homing_move
       \<le> step_events_completed (Step_Controll example_config open_switches homing_move)
     \<and> step_events_completed (Step_Controll example_config open_switches homing_move)
       < step_event_count homing_block"
    using block_lifetime [of example_config homing_move open_switches homing_block
      homing_move_seen X_AXIS]
    by (simp add: facts)
  moreover have "step_events_completed
        (directions_and_endstops example_config x_min_pressed homing_block homing_move_seen)
       = step_event_count homing_block
     \<and> current_block (Step_Controll example_config x_min_pressed homing_move_seen) = None"
  proof -
    note T = block_lifetime [of example_config homing_move_seen x_min_pressed homing_block
      homing_move_seen X_AXIS]
    from T have "latches example_config x_min_pressed homing_block homing_move_seen X_AXIS \<longrightarrow>
        step_events_completed
          (directions_and_endstops example_config x_min_pressed homing_block homing_move_seen)
        = step_event_count homing_block"
      by (elim conjE)
    moreover from T have
      "tick_block example_config homing_move_seen = Some homing_block
       \<and> latches example_config x_min_pressed homing_block homing_move_seen X_AXIS
       \<and> step_event_count homing_block \<noteq> - 1 \<longrightarrow>
       current_block (Step_Controll example_config x_min_pressed homing_move_seen) = None"
      by (elim conjE)
    ultimately show ?thesis
      using homing_block_count homing_move_seen_block by blast
  qed
  ultimately show ?thesis using homing_block_count by (simp add: facts)
qed

section \<open>The Bresenham interpolator\<close>

text \<open>Signed readings of 32-bit words that stay in range.\<close>

lemma sint_in_range:
  "- (2 ^ 31) \<le> k \<Longrightarrow> k < 2 ^ 31 \<Longrightarrow> sint (word_of_int k :: u32) = k"
  by (simp add: sint_sbintrunc' signed_take_bit_int_eq_self)

lemma sint_bounds32: "- (2 ^ 31) \<le> sint (w :: u32)" "sint (w :: u32) < 2 ^ 31"
  using sint_ge [of w] sint_lt [of w] by simp_all

lemma uint_nonneg_sint:
  fixes n :: u32
  assumes "0 \<le> sint n"
  shows "uint n = sint n"
proof -
  have "sint n = signed_take_bit 31 (uint n)" by (simp add: sint_uint)
  moreover have "uint n = take_bit 32 (sint n)" by (simp add: uint_sint)
  ultimately show ?thesis
    using assms sint_bounds32 [of n] by (simp add: take_bit_int_eq_self)
qed

lemma sint_add_small:
  fixes c s :: u32
  assumes "- (2 ^ 31) \<le> sint c + sint s" "sint c + sint s < 2 ^ 31"
  shows "sint (c + s) = sint c + sint s"
proof -
  have "c + s = word_of_int (sint c + sint s)" by simp
  with assms show ?thesis by (simp only: sint_in_range)
qed

lemma sint_add_sub_small:
  fixes c s n :: u32
  assumes "- (2 ^ 31) \<le> sint c + sint s - sint n" "sint c + sint s - sint n < 2 ^ 31"
  shows "sint (c + s - n) = sint c + sint s - sint n"
proof -
  have "c + s - n = word_of_int (sint c + sint s - sint n)" by simp
  with assms show ?thesis by (simp only: sint_in_range)
qed

lemma sint_initial_counter:
  fixes n :: u32
  assumes "0 \<le> sint n"
  shows "sint (- (drop_bit 1 n)) = - (sint n div 2)"
proof -
  have u: "uint n = sint n" using assms by (rule uint_nonneg_sint)
  have "uint (drop_bit 1 n) = uint n div 2"
    by (simp add: unsigned_drop_bit_eq drop_bit_eq_div uint_div_distrib)
  then have "- (drop_bit 1 n) = word_of_int (- (sint n div 2))"
    using u by (metis of_int_minus word_of_int_uint)
  moreover have "- (2 ^ 31) \<le> - (sint n div 2)" "- (sint n div 2) < 2 ^ 31"
    using assms sint_bounds32 [of n] by linarith+
  ultimately show ?thesis by (simp only: sint_in_range)
qed

text \<open>One Bresenham step on integers.\<close>

lemma bres_int_step:
  fixes m s n :: int
  assumes "0 < n" "0 \<le> s" "s \<le> n"
  shows "(m + s) div n = m div n + (if n \<le> m mod n + s then 1 else 0)"
    and "(m + s) mod n = (if n \<le> m mod n + s then m mod n + s - n else m mod n + s)"
proof -
  let ?r = "m mod n" and ?q = "m div n"
  have r: "0 \<le> ?r" "?r < n" using assms(1) by simp_all
  have m: "m = n * ?q + ?r" by simp
  show "(m + s) div n = m div n + (if n \<le> m mod n + s then 1 else 0)"
  proof (cases "n \<le> ?r + s")
    case True
    have "m + s = n * (?q + 1) + (?r + s - n)" using m by (simp add: algebra_simps)
    moreover have "0 \<le> ?r + s - n" "?r + s - n < n" using True r assms by linarith+
    ultimately have "(m + s) div n = ?q + 1" by (rule int_div_pos_eq)
    with True show ?thesis by simp
  next
    case False
    have "m + s = n * ?q + (?r + s)" using m by (simp add: algebra_simps)
    moreover have "0 \<le> ?r + s" "?r + s < n" using False r assms by linarith+
    ultimately have "(m + s) div n = ?q" by (rule int_div_pos_eq)
    with False show ?thesis by simp
  qed
  show "(m + s) mod n = (if n \<le> m mod n + s then m mod n + s - n else m mod n + s)"
  proof (cases "n \<le> ?r + s")
    case True
    have "m + s = n * (?q + 1) + (?r + s - n)" using m by (simp add: algebra_simps)
    moreover have "0 \<le> ?r + s - n" "?r + s - n < n" using True r assms by linarith+
    ultimately have "(m + s) mod n = ?r + s - n" by (rule int_mod_pos_eq)
    with True show ?thesis by simp
  next
    case False
    have "m + s = n * ?q + (?r + s)" using m by (simp add: algebra_simps)
    moreover have "0 \<le> ?r + s" "?r + s < n" using False r assms by linarith+
    ultimately have "(m + s) mod n = ?r + s" by (rule int_mod_pos_eq)
    with False show ?thesis by simp
  qed
qed

text \<open>The same step on the 32-bit counter.\<close>

lemma bres_word_step:
  fixes c st sec :: u32 and m :: int
  assumes n: "0 < sint sec" and s: "0 \<le> sint st" "sint st \<le> sint sec"
    and c: "sint c = m mod sint sec - (sint sec - 1)"
  shows "0 <s c + st \<longleftrightarrow> sint sec \<le> m mod sint sec + sint st"
    and "sint (if 0 <s c + st then c + st - sec else c + st) =
          (m + sint st) mod sint sec - (sint sec - 1)"
proof -
  let ?n = "sint sec"
  have r: "0 \<le> m mod ?n" "m mod ?n < ?n" using n by simp_all
  have b: "?n < 2 ^ 31" by (rule sint_bounds32)
  have add: "sint (c + st) = sint c + sint st"
    using r b c s by (intro sint_add_small) linarith+
  show f: "0 <s c + st \<longleftrightarrow> ?n \<le> m mod ?n + sint st"
    unfolding word_sless_alt add c by auto
  show "sint (if 0 <s c + st then c + st - sec else c + st) =
          (m + sint st) mod ?n - (?n - 1)"
  proof (cases "0 <s c + st")
    case True
    then have le: "?n \<le> m mod ?n + sint st" using f by simp
    have "sint (c + st - sec) = sint c + sint st - ?n"
      using r b c s le by (intro sint_add_sub_small) linarith+
    with True le show ?thesis
      using bres_int_step(2) [OF n s, of m] c by simp
  next
    case False
    then have "\<not> ?n \<le> m mod ?n + sint st" using f by simp
    with False show ?thesis
      using bres_int_step(2) [OF n s, of m] c add by simp
  qed
qed


text \<open>Levels and pulses under a block of writes.\<close>

lemma level_writes:
  "level p (rev (map (\<lambda>q. (q, v)) ps) @ ws) = (if p \<in> set ps then v else level p ws)"
  by (induction ps arbitrary: ws) auto

lemma pulses_trailing:
  "pulses p (rev (map (\<lambda>q. (q, False)) ps) @ ws) = pulses p ws"
  by (induction ps arbitrary: ws) auto

lemma pulses_leading:
  "pulses p (rev (map (\<lambda>q. (q, True)) ps) @ ws) =
    pulses p ws + (if p \<in> set ps \<and> \<not> level p ws then 1 else 0)"
  by (induction ps arbitrary: ws) auto

lemma level_pulse_log:
  "level p (pulse_log ps f ws) = (if f \<and> p \<in> set ps then False else level p ws)"
  by (simp add: pulse_log_def level_writes)

lemma pulses_pulse_log:
  "pulses p (pulse_log ps f ws) =
    pulses p ws + (if f \<and> p \<in> set ps \<and> \<not> level p ws then 1 else 0)"
  by (simp add: pulse_log_def pulses_trailing pulses_leading)

text \<open>One axis of one step event.\<close>

lemma x_step_effect:
  "counter_x (x_step cfg inp b s) =
    (if fires b s X_AXIS then counter_x s + steps_x b - step_event_count b
     else counter_x s + steps_x b)"
  "count_position (x_step cfg inp b s) =
    (if fires b s X_AXIS
     then (count_position s)(X_AXIS := count_position s X_AXIS + scast (count_direction s X_AXIS))
     else count_position s)"
  "pin_log (x_step cfg inp b s) =
    pulse_log (x_step_pins cfg inp b) (fires b s X_AXIS) (pin_log s)"
  by (simp_all add: x_step_def fires_def pulse_log_def write_pins_def Let_def)

lemma y_step_effect:
  "counter_y (y_step b s) =
    (if fires b s Y_AXIS then counter_y s + steps_y b - step_event_count b
     else counter_y s + steps_y b)"
  "count_position (y_step b s) =
    (if fires b s Y_AXIS
     then (count_position s)(Y_AXIS := count_position s Y_AXIS + scast (count_direction s Y_AXIS))
     else count_position s)"
  "pin_log (y_step b s) = pulse_log [Y_STEP_PIN] (fires b s Y_AXIS) (pin_log s)"
  by (simp_all add: y_step_def fires_def pulse_log_def write_pins_def Let_def)

lemma z_step_effect:
  "counter_z (z_step cfg inp b s) =
    (if fires b s Z_AXIS then counter_z s + steps_z b - step_event_count b
     else counter_z s + steps_z b)"
  "count_position (z_step cfg inp b s) =
    (if fires b s Z_AXIS
     then (count_position s)(Z_AXIS := count_position s Z_AXIS + scast (count_direction s Z_AXIS))
     else count_position s)"
  "pin_log (z_step cfg inp b s) =
    pulse_log (z_step_pins cfg inp) (fires b s Z_AXIS) (pin_log s)"
  by (simp_all add: z_step_def fires_def pulse_log_def write_pins_def Let_def)

lemma e_step_effect:
  "counter_e (e_step b s) =
    (if fires b s E_AXIS then counter_e s + steps_e b - step_event_count b
     else counter_e s + steps_e b)"
  "count_position (e_step b s) =
    (if fires b s E_AXIS
     then (count_position s)(E_AXIS := count_position s E_AXIS + scast (count_direction s E_AXIS))
     else count_position s)"
  "pin_log (e_step b s) = pulse_log [E_STEP_PIN] (fires b s E_AXIS) (pin_log s)"
  by (simp_all add: e_step_def fires_def pulse_log_def write_pins_def Let_def)

lemma fires_frame [simp]:
  "a \<noteq> X_AXIS \<Longrightarrow> fires b (x_step cfg inp b s) a = fires b s a"
  "a \<noteq> Y_AXIS \<Longrightarrow> fires b (y_step b s) a = fires b s a"
  "a \<noteq> Z_AXIS \<Longrightarrow> fires b (z_step cfg inp b s) a = fires b s a"
  by (cases a; simp add: fires_def)+

lemmas step_effects = x_step_effect y_step_effect z_step_effect e_step_effect

text \<open>One step event, axis by axis.\<close>

lemma step_event_counter:
  "counter a (step_event cfg inp b s) =
    (if fires b s a then counter a s + steps b a - step_event_count b
     else counter a s + steps b a)"
  by (cases a) (simp_all add: step_event_def Let_def step_effects)

lemma step_event_position:
  "count_position (step_event cfg inp b s) a =
    (if fires b s a then count_position s a + scast (count_direction s a)
     else count_position s a)"
  by (cases a) (simp_all add: step_event_def Let_def step_effects)

lemma step_event_log:
  "pin_log (step_event cfg inp b s) =
    pulse_log [E_STEP_PIN] (fires b s E_AXIS)
      (pulse_log (z_step_pins cfg inp) (fires b s Z_AXIS)
        (pulse_log [Y_STEP_PIN] (fires b s Y_AXIS)
          (pulse_log (x_step_pins cfg inp b) (fires b s X_AXIS) (pin_log s))))"
  by (simp add: step_event_def Let_def step_effects)

lemma step_event_rest:
  "\<forall>p. \<not> level p (pin_log s) \<Longrightarrow> \<not> level p (pin_log (step_event cfg inp b s))"
  by (simp add: step_event_log level_pulse_log)

lemma axis_pins_disjoint:
  "p \<in> set (axis_step_pins cfg inp b a) \<Longrightarrow> a' \<noteq> a \<Longrightarrow>
   p \<notin> set (axis_step_pins cfg inp b a')"
  by (cases a; cases a')
     (auto simp add: x_step_pins_def z_step_pins_def split: if_splits)

lemma step_event_pulses:
  assumes "\<forall>p. \<not> level p (pin_log s)" "p \<in> set (axis_step_pins cfg inp b a)"
  shows "pulses p (pin_log (step_event cfg inp b s)) =
    pulses p (pin_log s) + (if fires b s a then 1 else 0)"
proof -
  have other: "p \<notin> set (axis_step_pins cfg inp b a')" if "a' \<noteq> a" for a'
    using assms(2) that by (rule axis_pins_disjoint)
  show ?thesis
    using assms other [of X_AXIS] other [of Y_AXIS] other [of Z_AXIS] other [of E_AXIS]
    by (cases a) (simp_all add: step_event_log pulses_pulse_log level_pulse_log)
qed


text \<open>
  The state of one axis after \<open>k\<close> step events from the pickup values: the counter is a
  remainder, the number of pulses a quotient.
\<close>

lemma bresenham_invariant:
  fixes b :: block_t and a :: axis and k :: nat
  defines "n \<equiv> sint (step_event_count b)"
    and "sa \<equiv> sint (steps b a)"
  defines "m \<equiv> int k * sa + n - 1 - n div 2"
  assumes n: "0 < n" and sa: "0 \<le> sa" "sa \<le> n"
    and c0: "counter a s0 = - (drop_bit 1 (step_event_count b))"
    and rest: "\<forall>p. \<not> level p (pin_log s0)"
  shows "sint (counter a ((step_event cfg inp b ^^ k) s0)) = m mod n - (n - 1)
    \<and> count_position ((step_event cfg inp b ^^ k) s0) a =
        count_position s0 a + word_of_int (m div n) * scast (count_direction s0 a)
    \<and> count_direction ((step_event cfg inp b ^^ k) s0) = count_direction s0
    \<and> (\<forall>p. \<not> level p (pin_log ((step_event cfg inp b ^^ k) s0)))
    \<and> (\<forall>p \<in> set (axis_step_pins cfg inp b a).
          int (pulses p (pin_log ((step_event cfg inp b ^^ k) s0))) =
          int (pulses p (pin_log s0)) + m div n)"
  unfolding m_def
proof (induction k)
  case 0
  have m0: "0 \<le> n - 1 - n div 2" "n - 1 - n div 2 < n" using n by linarith+
  have "sint (counter a s0) = - (n div 2)"
    unfolding c0 n_def using n by (intro sint_initial_counter) (simp add: n_def)
  then show ?case using m0 rest by simp
next
  case (Suc k)
  let ?s = "(step_event cfg inp b ^^ k) s0"
  let ?m = "int k * sa + n - 1 - n div 2"
  have m': "int (Suc k) * sa + n - 1 - n div 2 = ?m + sa" by (simp add: algebra_simps)
  from Suc.IH have c: "sint (counter a ?s) = ?m mod sint (step_event_count b)
      - (sint (step_event_count b) - 1)"
    and pos: "count_position ?s a =
        count_position s0 a + word_of_int (?m div n) * scast (count_direction s0 a)"
    and dir: "count_direction ?s = count_direction s0"
    and lev: "\<forall>p. \<not> level p (pin_log ?s)"
    and pul: "\<forall>p \<in> set (axis_step_pins cfg inp b a).
          int (pulses p (pin_log ?s)) = int (pulses p (pin_log s0)) + ?m div n"
    by (simp_all add: n_def)
  have n': "0 < sint (step_event_count b)" using n by (simp add: n_def)
  have s': "0 \<le> sint (steps b a)" "sint (steps b a) \<le> sint (step_event_count b)"
    using sa by (simp_all add: n_def sa_def)
  have f: "fires b ?s a \<longleftrightarrow> n \<le> ?m mod n + sa"
    using bres_word_step(1) [OF n' s' c] by (simp add: fires_def n_def sa_def)
  have cnt: "sint (counter a (step_event cfg inp b ?s)) = (?m + sa) mod n - (n - 1)"
    using bres_word_step(2) [OF n' s' c]
    by (simp add: step_event_counter fires_def n_def sa_def)
  have dv: "(?m + sa) div n = ?m div n + (if fires b ?s a then 1 else 0)"
    using bres_int_step(1) [OF n sa, of ?m] f by simp
  define q where "q = ?m div n"
  define q' where "q' = (?m + sa) div n"
  have qq: "q' = q + (if fires b ?s a then 1 else 0)"
    using dv by (simp add: q_def q'_def)
  have "count_position (step_event cfg inp b ?s) a =
      count_position s0 a + word_of_int q' * scast (count_direction s0 a)"
    using pos unfolding q_def [symmetric]
    by (simp add: step_event_position dir qq algebra_simps)
  then have "count_position (step_event cfg inp b ?s) a =
      count_position s0 a + word_of_int ((?m + sa) div n) * scast (count_direction s0 a)"
    by (simp add: q'_def)
  moreover have "\<forall>p \<in> set (axis_step_pins cfg inp b a).
      int (pulses p (pin_log (step_event cfg inp b ?s))) =
      int (pulses p (pin_log s0)) + (?m + sa) div n"
    using pul by (simp add: step_event_pulses [OF lev] dv)
  moreover have "\<forall>p. \<not> level p (pin_log (step_event cfg inp b ?s))"
    using lev by (simp add: step_event_rest)
  ultimately show ?case
    unfolding m' using cnt dir by simp
qed


lemma counter_frame [simp]:
  "counter a (directions_and_endstops cfg inp b s) = counter a s"
  "counter a (snd (trapezoid_generator cfg b s)) = counter a s"
  "counter a (finish_block b s) = counter a s"
  by (cases a; simp add: directions_and_endstops_def Let_def)+

lemma position_frame [simp]:
  "count_position (directions_and_endstops cfg inp b s) = count_position s"
  "pin_log (directions_and_endstops cfg inp b s) = pin_log s"
  by (simp_all add: directions_and_endstops_def Let_def)

text \<open>One step event, the step loop and one run of the interrupt body on the state of an axis.\<close>

lemma interpolated_event:
  assumes n: "0 < sint (step_event_count b)"
    and sa: "0 \<le> sint (steps b a)" "sint (steps b a) \<le> sint (step_event_count b)"
    and inv: "interpolated b a ps s0 k s"
    and dir: "count_direction s a = (if negative_direction b a then - 1 else 1)"
    and pins: "ps \<subseteq> set (axis_step_pins cfg inp b a)"
  shows "interpolated b a ps s0 (Suc k) (step_event cfg inp b s)"
proof -
  let ?n = "sint (step_event_count b)" and ?sa = "sint (steps b a)"
  let ?m = "int k * ?sa + ?n - 1 - ?n div 2"
  let ?D = "if negative_direction b a then - 1 else 1 :: u32"
  have m': "int (Suc k) * ?sa + ?n - 1 - ?n div 2 = ?m + ?sa" by (simp add: algebra_simps)
  from inv have ev: "step_events_completed s = of_nat k"
    and c: "sint (counter a s) = ?m mod ?n - (?n - 1)"
    and pos: "count_position s a = count_position s0 a + word_of_int (?m div ?n) * ?D"
    and lev: "\<forall>p. \<not> level p (pin_log s)"
    and pul: "\<forall>p\<in>ps. int (pulses p (pin_log s)) = int (pulses p (pin_log s0)) + ?m div ?n"
    by (simp_all add: interpolated_def Let_def)
  have f: "fires b s a \<longleftrightarrow> ?n \<le> ?m mod ?n + ?sa"
    using bres_word_step(1) [OF n sa c] by (simp add: fires_def)
  have cnt: "sint (counter a (step_event cfg inp b s)) = (?m + ?sa) mod ?n - (?n - 1)"
    using bres_word_step(2) [OF n sa c] by (simp add: step_event_counter fires_def)
  have dv: "(?m + ?sa) div ?n = ?m div ?n + (if fires b s a then 1 else 0)"
    using bres_int_step(1) [OF n sa, of ?m] f by simp
  define q where "q = ?m div ?n"
  define q' where "q' = (?m + ?sa) div ?n"
  have qq: "q' = q + (if fires b s a then 1 else 0)"
    using dv by (simp add: q_def q'_def)
  have sc: "scast (count_direction s a) = ?D"
    unfolding dir by simp
  have "count_position (step_event cfg inp b s) a = count_position s0 a + word_of_int q' * ?D"
    using pos unfolding q_def [symmetric]
    by (simp add: step_event_position sc qq algebra_simps)
  then have p': "count_position (step_event cfg inp b s) a =
      count_position s0 a + word_of_int ((?m + ?sa) div ?n) * ?D"
    by (simp add: q'_def)
  have pu': "\<forall>p\<in>ps. int (pulses p (pin_log (step_event cfg inp b s))) =
      int (pulses p (pin_log s0)) + (?m + ?sa) div ?n"
  proof
    fix p assume p: "p \<in> ps"
    then have "p \<in> set (axis_step_pins cfg inp b a)" using pins by blast
    from step_event_pulses [OF lev this] pul p show
      "int (pulses p (pin_log (step_event cfg inp b s))) =
        int (pulses p (pin_log s0)) + (?m + ?sa) div ?n"
      by (simp add: dv)
  qed
  have le': "\<forall>p. \<not> level p (pin_log (step_event cfg inp b s))"
    using lev by (simp add: step_event_rest)
  have ev': "step_events_completed (step_event cfg inp b s) = of_nat (Suc k)"
    using ev by simp
  show ?thesis
    unfolding interpolated_def Let_def m'
    using ev' cnt p' le' pu' by blast
qed

lemma count_le_iff:
  fixes sec :: u32
  assumes "0 \<le> sint sec" "int k \<le> sint sec"
  shows "sec \<le> of_nat k \<longleftrightarrow> sint sec \<le> int k"
proof -
  have u: "uint sec = sint sec" using assms(1) by (rule uint_nonneg_sint)
  have "(2::int) ^ 31 < 2 ^ 32" by simp
  then have "int k < 2 ^ 32" using assms(2) sint_bounds32(2) [of sec] by linarith
  then have "uint (of_nat k :: u32) = int k"
    by (simp add: unsigned_of_nat take_bit_nat_eq_self)
  then show ?thesis using u by (simp add: word_le_def)
qed

lemma interpolated_loop:
  assumes n: "0 < sint (step_event_count b)"
    and sa: "0 \<le> sint (steps b a)" "sint (steps b a) \<le> sint (step_event_count b)"
    and pins: "ps \<subseteq> set (axis_step_pins cfg inp b a)"
  shows "interpolated b a ps s0 k s \<Longrightarrow> int k < sint (step_event_count b)
    \<Longrightarrow> count_direction s a = (if negative_direction b a then - 1 else 1)
    \<Longrightarrow> interpolated b a ps s0 (min (k + j) (nat (sint (step_event_count b))))
          (step_loop cfg inp b j s)"
proof (induction j arbitrary: k s)
  case 0
  then have "k \<le> nat (sint (step_event_count b))" by linarith
  with 0 show ?case by (simp add: min_def)
next
  case (Suc j)
  let ?s = "step_event cfg inp b s"
  have inv: "interpolated b a ps s0 (Suc k) ?s"
    using n sa Suc.prems(1,3) pins by (rule interpolated_event)
  then have ev: "step_events_completed ?s = of_nat (Suc k)"
    by (simp add: interpolated_def Let_def)
  have le: "step_event_count b \<le> step_events_completed ?s
      \<longleftrightarrow> sint (step_event_count b) \<le> int (Suc k)"
    unfolding ev using n Suc.prems(2) by (intro count_le_iff) simp_all
  show ?case
  proof (cases "sint (step_event_count b) \<le> int (Suc k)")
    case True
    then have "nat (sint (step_event_count b)) = Suc k"
      using Suc.prems(2) by linarith
    then have "min (k + Suc j) (nat (sint (step_event_count b))) = Suc k"
      by (simp add: min_def)
    with True inv le show ?thesis by (simp add: Let_def)
  next
    case False
    then have lt: "int (Suc k) < sint (step_event_count b)" by simp
    have "interpolated b a ps s0 (min (Suc k + j) (nat (sint (step_event_count b))))
        (step_loop cfg inp b j ?s)"
      using inv lt Suc.prems(3) by (intro Suc.IH) simp_all
    with False le show ?thesis by (simp add: Let_def)
  qed
qed

lemma calc_timer_loops:
  "step_loops (snd (calc_timer cfg r s)) \<noteq> 0"
  by (simp add: calc_timer_def calc_timer_lookup_def Let_def split_beta)

lemma loops_nominal_cast: "(ucast (ucast (x :: u8) :: u16) :: u8) = x"
  by (simp add: ucast_down_ucast_id is_down)

lemma pickup_loops:
  assumes "current_block st = None" "block_buffer st = b0 # bs"
  shows "step_loops (fst (pickup cfg st)) \<noteq> 0"
    and "(ucast (step_loops_nominal (fst (pickup cfg st))) :: u8) \<noteq> 0"
  using assms
  by (simp_all add: pickup_def plan_get_current_block_def trapezoid_generator_reset_def
        Let_def split_beta calc_timer_loops loops_nominal_cast)

lemma generator_loops:
  assumes "(ucast (step_loops_nominal s) :: u8) \<noteq> 0"
  shows "step_loops (snd (trapezoid_generator cfg b s)) \<noteq> 0"
  using assms
  by (simp add: trapezoid_generator_def Let_def split_beta calc_timer_loops)


lemma loops_after_endstops:
  "step_loops_nominal (directions_and_endstops cfg inp b s) = step_loops_nominal s"
  by (simp add: directions_and_endstops_def Let_def)

lemma interpolated_cong:
  assumes "step_events_completed s' = step_events_completed s" "counter a s' = counter a s"
    and "count_position s' = count_position s" "pin_log s' = pin_log s"
  shows "interpolated b a ps s0 k s' = interpolated b a ps s0 k s"
  using assms by (simp add: interpolated_def)

lemma interpolated_tick:
  assumes n: "0 < sint (step_event_count b)"
    and sa: "0 \<le> sint (steps b a)" "sint (steps b a) \<le> sint (step_event_count b)"
    and tb: "tick_block cfg st = Some b"
    and inv: "interpolated b a ps s0 k (fst (pickup cfg st))"
    and k: "int k < sint (step_event_count b)"
    and free: "\<not> latches cfg inp b st X_AXIS" "\<not> latches cfg inp b st Y_AXIS"
      "\<not> latches cfg inp b st Z_AXIS"
    and pins: "ps \<subseteq> set (axis_step_pins cfg inp b a)"
  defines "k' \<equiv> min (k + unat (step_loops (fst (pickup cfg st))))
                   (nat (sint (step_event_count b)))"
  shows "interpolated b a ps s0 k' (Step_Controll cfg inp st)"
    and "count_direction (Step_Controll cfg inp st) a =
          (if negative_direction b a then - 1 else 1)"
    and "current_block (Step_Controll cfg inp st) =
          (if int k' < sint (step_event_count b) then Some b else None)"
    and "block_buffer (Step_Controll cfg inp st) =
          (if int k' < sint (step_event_count b) then block_buffer (fst (pickup cfg st))
           else drop 1 (block_buffer (fst (pickup cfg st))))"
    and "step_loops_nominal (Step_Controll cfg inp st) =
          step_loops_nominal (fst (pickup cfg st))"
    and "(ucast (step_loops_nominal (fst (pickup cfg st))) :: u8) \<noteq> 0
          \<Longrightarrow> step_loops (Step_Controll cfg inp st) \<noteq> 0"
  supply loops_after_endstops [simp]
proof -
  let ?p = "fst (pickup cfg st)"
  let ?d = "directions_and_endstops cfg inp b ?p"
  let ?l = "step_loop cfg inp b (unat (step_loops ?p)) ?d"
  have SC: "Step_Controll cfg inp st = finish_block b (snd (trapezoid_generator cfg b ?l))"
    using tb by (rule Step_Controll_block)
  have "interpolated b a ps s0 k ?d = interpolated b a ps s0 k ?p"
    using free by (intro interpolated_cong) (simp_all add: completed_after_endstops)
  with inv have d: "interpolated b a ps s0 k ?d" by simp
  have dd: "count_direction ?d a = (if negative_direction b a then - 1 else 1)"
    by (rule count_direction_after_endstops)
  have l: "interpolated b a ps s0 k' ?l"
    unfolding k'_def using n sa pins d k dd by (rule interpolated_loop)
  have "interpolated b a ps s0 k' (Step_Controll cfg inp st) = interpolated b a ps s0 k' ?l"
    unfolding SC by (intro interpolated_cong) simp_all
  with l show inv': "interpolated b a ps s0 k' (Step_Controll cfg inp st)" by simp
  show "count_direction (Step_Controll cfg inp st) a =
      (if negative_direction b a then - 1 else 1)"
    unfolding SC using dd by simp
  have ev: "step_events_completed (Step_Controll cfg inp st) = of_nat k'"
    using inv' by (simp add: interpolated_def Let_def)
  have "k' \<le> nat (sint (step_event_count b))" by (simp add: k'_def)
  then have "int k' \<le> sint (step_event_count b)"
    using n by linarith
  then have le: "step_event_count b \<le> of_nat k' \<longleftrightarrow> sint (step_event_count b) \<le> int k'"
    using n by (intro count_le_iff) simp_all
  from block_after_tick [OF tb, of inp]
  show "current_block (Step_Controll cfg inp st) =
          (if int k' < sint (step_event_count b) then Some b else None)"
    and "block_buffer (Step_Controll cfg inp st) =
          (if int k' < sint (step_event_count b) then block_buffer (fst (pickup cfg st))
           else drop 1 (block_buffer (fst (pickup cfg st))))"
    unfolding ev le by auto
  show "step_loops_nominal (Step_Controll cfg inp st) = step_loops_nominal ?p"
    unfolding SC by simp
  show "step_loops (Step_Controll cfg inp st) \<noteq> 0"
    if "(ucast (step_loops_nominal ?p) :: u8) \<noteq> 0"
    unfolding SC using that by (simp add: generator_loops)
qed

lemma interpolated_run:
  assumes n: "0 < sint (step_event_count b)"
    and sa: "0 \<le> sint (steps b a)" "sint (steps b a) \<le> sint (step_event_count b)"
  shows "current_block (fst (pickup cfg st)) = Some b
    \<Longrightarrow> interpolated b a ps s0 k (fst (pickup cfg st))
    \<Longrightarrow> int k < sint (step_event_count b)
    \<Longrightarrow> step_loops (fst (pickup cfg st)) \<noteq> 0
    \<Longrightarrow> (ucast (step_loops_nominal (fst (pickup cfg st))) :: u8) \<noteq> 0
    \<Longrightarrow> no_truncation cfg ins st
    \<Longrightarrow> \<forall>inp\<in>set ins. ps \<subseteq> set (axis_step_pins cfg inp b a)
    \<Longrightarrow> nat (sint (step_event_count b)) + (if tick_block cfg st = None then 1 else 0)
          \<le> k + length ins
    \<Longrightarrow> current_block (run_block cfg ins st) = None
        \<and> block_buffer (run_block cfg ins st) = drop 1 (block_buffer (fst (pickup cfg st)))
        \<and> interpolated b a ps s0 (nat (sint (step_event_count b))) (run_block cfg ins st)
        \<and> count_direction (run_block cfg ins st) a =
            (if negative_direction b a then - 1 else 1)"
proof (induction ins arbitrary: st k)
  case Nil
  then show ?case by simp
next
  case (Cons inp ins)
  let ?p = "fst (pickup cfg st)"
  let ?N = "nat (sint (step_event_count b))"
  let ?st = "Step_Controll cfg inp st"
  show ?case
  proof (cases "tick_block cfg st")
    case None
    then have eq: "?st = ?p" by (rule Step_Controll_idle)
    have pk: "pickup cfg ?p = (?p, False)"
      using Cons.prems(1) by (rule pickup_active)
    have tb: "tick_block cfg ?p = Some b"
      using Cons.prems(1) by (rule tick_block_active)
    have free: "no_truncation cfg ins ?p"
      using Cons.prems(6) Cons.prems(1) by (simp add: None eq)
    have "current_block (run_block cfg ins ?p) = None
        \<and> block_buffer (run_block cfg ins ?p) = drop 1 (block_buffer (fst (pickup cfg ?p)))
        \<and> interpolated b a ps s0 ?N (run_block cfg ins ?p)
        \<and> count_direction (run_block cfg ins ?p) a =
            (if negative_direction b a then - 1 else 1)"
      using Cons.prems(1-5) free Cons.prems(7,8)
      by (intro Cons.IH [where k = k]) (simp_all add: pk tb None)
    then show ?thesis
      using Cons.prems(1) by (simp add: eq pk)
  next
    case (Some b')
    then have "current_block ?p = Some b'" by (rule tick_block_current)
    with Cons.prems(1) have tb: "tick_block cfg st = Some b" using Some by simp
    from Cons.prems(6) have lat: "\<not> latches cfg inp b st X_AXIS"
      "\<not> latches cfg inp b st Y_AXIS" "\<not> latches cfg inp b st Z_AXIS"
      and cont: "current_block ?st = None \<or> no_truncation cfg ins ?st"
      by (simp_all add: tb Let_def)
    have pins: "ps \<subseteq> set (axis_step_pins cfg inp b a)"
      using Cons.prems(7) by simp
    define k' where "k' = min (k + unat (step_loops ?p)) ?N"
    note T = interpolated_tick [OF n sa tb Cons.prems(2,3) lat pins, folded k'_def]
    have "0 < unat (step_loops ?p)"
      using Cons.prems(4) by (simp add: unat_gt_0)
    moreover have "k < ?N" using Cons.prems(3) by linarith
    ultimately have kk: "k < k'" "k' \<le> ?N"
      by (simp_all add: k'_def)
    show ?thesis
    proof (cases "int k' < sint (step_event_count b)")
      case True
      then have cur: "current_block ?st = Some b"
        and buf: "block_buffer ?st = block_buffer ?p"
        using T(3,4) by simp_all
      have pk: "pickup cfg ?st = (?st, False)" using cur by (rule pickup_active)
      have tb': "tick_block cfg ?st = Some b" using cur by (rule tick_block_active)
      have free: "no_truncation cfg ins ?st" using cont cur by simp
      have "current_block (run_block cfg ins ?st) = None
          \<and> block_buffer (run_block cfg ins ?st) = drop 1 (block_buffer (fst (pickup cfg ?st)))
          \<and> interpolated b a ps s0 ?N (run_block cfg ins ?st)
          \<and> count_direction (run_block cfg ins ?st) a =
              (if negative_direction b a then - 1 else 1)"
        using cur T(1) True T(6) [OF Cons.prems(5)] T(5) Cons.prems(5) free Cons.prems(7,8) kk
        by (intro Cons.IH [where k = k']) (simp_all add: pk tb' tb)
      then show ?thesis using cur buf by (simp add: pk Let_def)
    next
      case False
      then have "k' = ?N" using kk(2) by linarith
      with False T show ?thesis by (simp add: Let_def)
    qed
  qed
qed

lemma pickup_queued:
  assumes "current_block st = None" "block_buffer st = b # bs"
  shows "current_block (fst (pickup cfg st)) = Some (b\<lparr>busy := True\<rparr>)"
    and "block_buffer (fst (pickup cfg st)) = b\<lparr>busy := True\<rparr> # bs"
    and "step_events_completed (fst (pickup cfg st)) = 0"
    and "counter a (fst (pickup cfg st)) = - (drop_bit 1 (step_event_count b))"
  using assms
  by (cases a; simp add: pickup_def plan_get_current_block_def Let_def)+

text \<open>A block of no events: its first run executes one event, which steps nothing.\<close>

lemma busy_views:
  "steps (b\<lparr>busy := v\<rparr>) a = steps b a"
  "negative_direction (b\<lparr>busy := v\<rparr>) a = negative_direction b a"
  "axis_step_pins cfg inp (b\<lparr>busy := v\<rparr>) a = axis_step_pins cfg inp b a"
  by (cases a; simp add: negative_direction_def x_step_pins_def)+

lemma pulse_log_none: "pulse_log ps False ws = ws"
  by (simp add: pulse_log_def)

lemma empty_block_run:
  assumes idle: "current_block st = None" and queue: "block_buffer st = b # bs"
    and cnt: "step_event_count b = 0" and stp: "\<forall>a. steps b a = 0"
  shows "current_block (run_block cfg (inp # ins) st) = None"
    and "block_buffer (run_block cfg (inp # ins) st) = bs"
    and "count_position (run_block cfg (inp # ins) st) a = count_position st a"
    and "pin_log (run_block cfg (inp # ins) st) = pin_log st"
    and "count_direction (run_block cfg (inp # ins) st) a =
          (if negative_direction b a then - 1 else 1)"
    and "step_events_completed (run_block cfg (inp # ins) st) = 1"
  supply busy_views [simp] pulse_log_none [simp]
proof -
  let ?b = "b\<lparr>busy := True\<rparr>"
  let ?p = "fst (pickup cfg st)"
  let ?d = "directions_and_endstops cfg inp ?b ?p"
  let ?st = "Step_Controll cfg inp st"
  have z: "steps_z b = 0" using stp [rule_format, of Z_AXIS] by simp
  have tb: "tick_block cfg st = Some ?b"
    using idle queue by (rule tick_block_queued) (simp add: z)
  have pk: "step_events_completed ?p = 0" "\<And>a. counter a ?p = 0"
    "block_buffer ?p = ?b # bs"
    using pickup_queued [OF idle queue, where cfg = cfg] by (simp_all add: cnt)
  have "step_loops ?p \<noteq> 0" using idle queue by (rule pickup_loops)
  then have "0 < unat (step_loops ?p)" by (simp add: unat_gt_0)
  then obtain j where j: "unat (step_loops ?p) = Suc j"
    by (cases "unat (step_loops ?p)") simp_all
  have loop: "step_loop cfg inp ?b (unat (step_loops ?p)) ?d = step_event cfg inp ?b ?d"
    unfolding j by (simp add: Let_def cnt)
  have SC: "?st = finish_block ?b (snd (trapezoid_generator cfg ?b (step_event cfg inp ?b ?d)))"
    using Step_Controll_block [OF tb, of inp] by (simp only: loop)
  have nf: "\<not> fires ?b ?d a'" for a'
    using stp by (simp add: fires_def pk)
  have ev: "step_events_completed ?st = 1"
    unfolding SC using tb by (simp add: completed_after_endstops pk cnt)
  have cur: "current_block ?st = None" "block_buffer ?st = bs"
    using block_after_tick [OF tb, of inp] by (simp_all add: cnt pk)
  have run: "run_block cfg (inp # ins) st = ?st"
    using cur by (simp add: Let_def)
  show "current_block (run_block cfg (inp # ins) st) = None"
    and "block_buffer (run_block cfg (inp # ins) st) = bs"
    and "step_events_completed (run_block cfg (inp # ins) st) = 1"
    unfolding run using cur ev by simp_all
  show "count_position (run_block cfg (inp # ins) st) a = count_position st a"
    unfolding run SC by (simp add: step_event_position nf)
  show "pin_log (run_block cfg (inp # ins) st) = pin_log st"
    unfolding run SC by (simp add: step_event_log nf)
  show "count_direction (run_block cfg (inp # ins) st) a =
          (if negative_direction b a then - 1 else 1)"
    unfolding run SC by (simp add: count_direction_after_endstops)
qed

lemma open_inputs_no_truncation:
  "\<forall>inp\<in>set ins. \<forall>a sd. \<not> read_endstop cfg inp a sd \<Longrightarrow> no_truncation cfg ins st"
  by (induction ins arbitrary: st) (auto simp add: latches_def Let_def split: option.splits)


lemma sint_zero:
  fixes w :: u32
  assumes "sint w = 0"
  shows "w = 0"
proof -
  have "uint w = 0" using uint_nonneg_sint [of w] assms by simp
  then show ?thesis by (simp add: uint_0_iff)
qed

lemma unat_nonneg_sint:
  fixes w :: u32
  assumes "0 \<le> sint w"
  shows "int (unat w) = sint w"
  using uint_nonneg_sint [OF assms] by simp

text \<open>The short diagonal move and the late-enabled one, with all switches open.\<close>

lemma open_reads:
  "\<not> read_endstop example_config open_switches a sd"
  "\<not> read_endstop late_config open_switches a sd"
  by (cases a; cases sd;
      simp add: read_x_min_def read_x_max_def read_y_min_def read_y_max_def read_z_min_def
        read_z_max_def example_config_def late_config_def open_switches_def)+

lemma open_run_free:
  "no_truncation example_config (replicate n open_switches) st"
  "no_truncation late_config (replicate n open_switches) st"
  by (rule open_inputs_no_truncation; simp add: open_reads)+

lemma diagonal_fields:
  "current_block diagonal_queue = None"
  "block_buffer diagonal_queue = [diagonal_block]"
  "pin_log diagonal_queue = []"
  "count_position diagonal_queue = (\<lambda>_. 0)"
  "steps_x diagonal_block = 3"
  "steps_y diagonal_block = 4"
  "steps_z diagonal_block = 0"
  "steps_e diagonal_block = 0"
  "step_event_count diagonal_block = 4"
  "negative_direction diagonal_block X_AXIS"
  "\<not> negative_direction diagonal_block Y_AXIS"
  "x_step_pins example_config open_switches diagonal_block = [X_STEP_PIN]"
  by (simp_all add: diagonal_queue_def running_def power_on_def diagonal_block_def
        negative_direction_def x_step_pins_def example_config_def open_switches_def)

lemma lifting_fields:
  "current_block lifting_queue = None"
  "block_buffer lifting_queue = [lifting_block]"
  "pin_log lifting_queue = []"
  "count_position lifting_queue = (\<lambda>_. 0)"
  "steps_x lifting_block = 3"
  "steps_y lifting_block = 4"
  "steps_z lifting_block = 2"
  "steps_e lifting_block = 0"
  "step_event_count lifting_block = 4"
  "\<not> negative_direction lifting_block Z_AXIS"
  "z_step_pins late_config open_switches = [Z_STEP_PIN, Z2_STEP_PIN]"
  "Z_LATE_ENABLE late_config"
  by (simp_all add: lifting_queue_def running_def power_on_def lifting_block_def
        negative_direction_def z_step_pins_def late_config_def example_config_def
        open_switches_def)

text \<open>
  Claim C1. Let the core be idle with a block at the head of the buffer whose step counts
  satisfy \<open>0 \<le> steps[a] \<le> step_event_count\<close> on every axis (as they do when the count is
  the maximum of non-negative step counts), and let the step pins be at rest. The pickup of
  \<^verbatim>\<open>Step_Controll\<close> sets the four Bresenham counters to \<open>-(step_event_count >> 1)\<close> and the
  event counter to 0, also when it returns at once for \<^verbatim>\<open>Z_LATE_ENABLE\<close>. Now let
  \<^verbatim>\<open>Step_Controll\<close> run once per input of a list, up to the run that discards the block.
  If no run latches an endstop (no truncation) and the list has more inputs than the block
  has step events (one run may be the early return, every other run executes at least one
  event), then the block is discarded and its entry leaves the buffer, the event counter
  has reached \<^verbatim>\<open>step_event_count\<close> (1 for a block of no events, whose one event steps
  nothing), and for each axis \<open>a\<close>: \<^verbatim>\<open>count_direction[a]\<close> is \<open>-1\<close> or \<open>1\<close> by the direction
  bit, \<^verbatim>\<open>count_position[a]\<close> has changed by \<open>steps[a] * count_direction[a]\<close>, and every
  pin that carries the pulses of \<open>a\<close> in all the runs has received exactly \<open>steps[a]\<close>
  pulses and is at rest again. There is such a pin for every axis (for X with two carriages
  in independent mode, when the active extruder is 0 or 1).
\<close>

theorem bresenham_exact:
  assumes idle: "current_block st = None" and queue: "block_buffer st = b # bs"
    and steps: "\<forall>a. 0 \<le>s steps b a \<and> steps b a \<le>s step_event_count b"
    and rest: "\<forall>p. \<not> level p (pin_log st)"
    and free: "no_truncation cfg ins st"
    and fuel: "unat (step_event_count b) < length ins"
  shows "counter a (fst (pickup cfg st)) = - (drop_bit 1 (step_event_count b))
    \<and> step_events_completed (fst (pickup cfg st)) = 0
    \<and> current_block (fst (pickup cfg st)) = Some (b\<lparr>busy := True\<rparr>)
    \<and> current_block (run_block cfg ins st) = None
    \<and> block_buffer (run_block cfg ins st) = bs
    \<and> step_events_completed (run_block cfg ins st) =
        (if step_event_count b = 0 then 1 else step_event_count b)
    \<and> count_direction (run_block cfg ins st) a = (if negative_direction b a then - 1 else 1)
    \<and> count_position (run_block cfg ins st) a =
        count_position st a + steps b a * scast (count_direction (run_block cfg ins st) a)
    \<and> (\<forall>p. (\<forall>inp\<in>set ins. p \<in> set (axis_step_pins cfg inp b a)) \<longrightarrow>
          pulses p (pin_log (run_block cfg ins st)) = pulses p (pin_log st) + unat (steps b a))
    \<and> (\<forall>p. \<not> level p (pin_log (run_block cfg ins st)))
    \<and> ((DUAL_X_CARRIAGE cfg \<and> extruder_carriage_mode inp \<noteq> 2
          \<and> extruder_carriage_mode inp \<noteq> 3
          \<longrightarrow> active_extruder b = 0 \<or> active_extruder b = 1)
        \<longrightarrow> axis_step_pins cfg inp b a \<noteq> [])"
  supply busy_views [simp]
proof -
  let ?b = "b\<lparr>busy := True\<rparr>"
  let ?n = "sint (step_event_count b)" and ?sa = "sint (steps b a)"
  let ?p = "fst (pickup cfg st)"
  let ?r = "run_block cfg ins st"
  let ?D = "if negative_direction b a then - 1 else 1 :: u32"
  have sa: "0 \<le> sint (steps b a')" "sint (steps b a') \<le> ?n" for a'
    using steps by (simp_all add: word_sle_eq)
  have n0: "0 \<le> ?n" using sa [of a] by simp
  have N: "int (unat (step_event_count b)) = ?n"
    using n0 by (rule unat_nonneg_sint)
  have ua: "int (unat (steps b a)) = ?sa"
    using sa(1) by (rule unat_nonneg_sint)
  have pick: "current_block ?p = Some ?b" "step_events_completed ?p = 0"
    "counter a ?p = - (drop_bit 1 (step_event_count b))"
    using pickup_queued [OF idle queue, where cfg = cfg] by simp_all
  have pins: "axis_step_pins cfg inp b a \<noteq> []"
    if "DUAL_X_CARRIAGE cfg \<and> extruder_carriage_mode inp \<noteq> 2
          \<and> extruder_carriage_mode inp \<noteq> 3
          \<longrightarrow> active_extruder b = 0 \<or> active_extruder b = 1"
    using that by (cases a) (auto simp add: x_step_pins_def z_step_pins_def)
  have main: "current_block ?r = None \<and> block_buffer ?r = bs
    \<and> step_events_completed ?r = (if step_event_count b = 0 then 1 else step_event_count b)
    \<and> count_direction ?r a = (if negative_direction b a then - 1 else 1)
    \<and> count_position ?r a = count_position st a + steps b a * ?D
    \<and> (\<forall>p. (\<forall>inp\<in>set ins. p \<in> set (axis_step_pins cfg inp b a)) \<longrightarrow>
          pulses p (pin_log ?r) = pulses p (pin_log st) + unat (steps b a))
    \<and> (\<forall>p. \<not> level p (pin_log ?r))"
  proof (cases "?n = 0")
    case True
    then have cnt: "step_event_count b = 0" by (rule sint_zero)
    have "sint (steps b a') = 0" for a' using sa [of a'] True by simp
    then have stp: "\<forall>a. steps b a = 0" by (simp add: sint_zero)
    from fuel obtain inp' ins' where ins: "ins = inp' # ins'"
      by (cases ins) simp_all
    note E = empty_block_run [OF idle queue cnt stp]
    from rest show ?thesis unfolding ins by (simp add: E cnt stp del: run_block.simps)
  next
    case False
    then have n: "0 < ?n" using n0 by simp
    define ps where "ps = {p. \<forall>inp\<in>set ins. p \<in> set (axis_step_pins cfg inp b a)}"
    have n': "0 < sint (step_event_count ?b)" using n by simp
    have sa': "0 \<le> sint (steps ?b a)" "sint (steps ?b a) \<le> sint (step_event_count ?b)"
      using sa [of a] by simp_all
    have m0: "0 \<le> ?n - 1 - ?n div 2" "?n - 1 - ?n div 2 < ?n" using n by linarith+
    have c0: "sint (counter a ?p) = - (?n div 2)"
      unfolding pick(3) using n0 by (rule sint_initial_counter)
    have base: "interpolated ?b a ps st 0 ?p"
      using m0 c0 rest pick(2) by (simp add: interpolated_def Let_def)
    have l1: "step_loops ?p \<noteq> 0" using idle queue by (rule pickup_loops)
    have l2: "(ucast (step_loops_nominal ?p) :: u8) \<noteq> 0" using idle queue by (rule pickup_loops)
    have k0: "int 0 < sint (step_event_count ?b)" using n by simp
    have pn: "\<forall>inp\<in>set ins. ps \<subseteq> set (axis_step_pins cfg inp ?b a)"
      by (auto simp add: ps_def)
    have NN: "nat ?n = unat (step_event_count b)" using N by linarith
    have fl: "nat (sint (step_event_count ?b)) + (if tick_block cfg st = None then 1 else 0)
        \<le> 0 + length ins"
      using fuel by (simp add: NN)
    from interpolated_run [OF n' sa' pick(1) base k0 l1 l2 free pn fl]
    have cur: "current_block ?r = None"
      and buf: "block_buffer ?r = drop 1 (block_buffer ?p)"
      and inv: "interpolated ?b a ps st (nat ?n) ?r"
      and dir: "count_direction ?r a = (if negative_direction b a then - 1 else 1)"
      by simp_all
    let ?m = "int (nat ?n) * ?sa + ?n - 1 - ?n div 2"
    have "?m = ?n * ?sa + (?n - 1 - ?n div 2)"
      using n by (simp add: algebra_simps)
    then have q: "?m div ?n = ?sa" using m0 by (rule int_div_pos_eq)
    from inv have ev: "step_events_completed ?r = of_nat (nat ?n)"
      and pos: "count_position ?r a = count_position st a + word_of_int (?m div ?n) * ?D"
      and lev: "\<forall>p. \<not> level p (pin_log ?r)"
      and pul: "\<forall>p\<in>ps. int (pulses p (pin_log ?r)) = int (pulses p (pin_log st)) + ?m div ?n"
      by (simp_all add: interpolated_def Let_def)
    have ev': "step_events_completed ?r = step_event_count b"
      using ev by (simp add: NN)
    have nz: "step_event_count b \<noteq> 0" using False by auto
    have pul': "pulses p (pin_log ?r) = pulses p (pin_log st) + unat (steps b a)"
      if "\<forall>inp\<in>set ins. p \<in> set (axis_step_pins cfg inp b a)" for p
    proof -
      from that have "p \<in> ps" by (simp add: ps_def)
      with pul have "int (pulses p (pin_log ?r)) = int (pulses p (pin_log st)) + int (unat (steps b a))"
        unfolding q ua by simp
      then show ?thesis by linarith
    qed
    have buf': "block_buffer ?r = bs"
      using buf pickup_queued(2) [OF idle queue, where cfg = cfg] by simp
    from cur buf' ev' nz dir pos lev pul' show ?thesis
      unfolding q by simp
  qed
  have sc: "scast (count_direction ?r a) = ?D"
    using main by simp
  from main pick pins show ?thesis
    unfolding sc by simp
qed

theorem bresenham_exact_witness:
  "current_block diagonal_queue = None
   \<and> block_buffer diagonal_queue = [diagonal_block]
   \<and> (\<forall>a. 0 \<le>s steps diagonal_block a \<and> steps diagonal_block a \<le>s step_event_count diagonal_block)
   \<and> (\<forall>p. \<not> level p (pin_log diagonal_queue))
   \<and> no_truncation example_config (replicate 5 open_switches) diagonal_queue
   \<and> unat (step_event_count diagonal_block) < length (replicate 5 open_switches)
   \<and> current_block (run_block example_config (replicate 5 open_switches) diagonal_queue) = None
   \<and> block_buffer (run_block example_config (replicate 5 open_switches) diagonal_queue) = []
   \<and> step_events_completed
        (run_block example_config (replicate 5 open_switches) diagonal_queue) = 4
   \<and> count_position
        (run_block example_config (replicate 5 open_switches) diagonal_queue) X_AXIS = - 3
   \<and> count_position
        (run_block example_config (replicate 5 open_switches) diagonal_queue) Y_AXIS = 4
   \<and> pulses X_STEP_PIN
        (pin_log (run_block example_config (replicate 5 open_switches) diagonal_queue)) = 3
   \<and> pulses Y_STEP_PIN
        (pin_log (run_block example_config (replicate 5 open_switches) diagonal_queue)) = 4
   \<and> pulses E_STEP_PIN
        (pin_log (run_block example_config (replicate 5 open_switches) diagonal_queue)) = 0
   \<and> current_block lifting_queue = None
   \<and> block_buffer lifting_queue = [lifting_block]
   \<and> (\<forall>a. 0 \<le>s steps lifting_block a \<and> steps lifting_block a \<le>s step_event_count lifting_block)
   \<and> (\<forall>p. \<not> level p (pin_log lifting_queue))
   \<and> no_truncation late_config (replicate 5 open_switches) lifting_queue
   \<and> unat (step_event_count lifting_block) < length (replicate 5 open_switches)
   \<and> Z_LATE_ENABLE late_config \<and> 0 <s steps_z lifting_block
   \<and> tick_block late_config lifting_queue = None
   \<and> counter Z_AXIS (fst (pickup late_config lifting_queue)) = - 2
   \<and> current_block (run_block late_config (replicate 5 open_switches) lifting_queue) = None
   \<and> count_position
        (run_block late_config (replicate 5 open_switches) lifting_queue) Z_AXIS = 2
   \<and> pulses Z_STEP_PIN
        (pin_log (run_block late_config (replicate 5 open_switches) lifting_queue)) = 2
   \<and> pulses Z2_STEP_PIN
        (pin_log (run_block late_config (replicate 5 open_switches) lifting_queue)) = 2"
proof -
  let ?ins = "replicate 5 open_switches"
  have d: "current_block diagonal_queue = None" "block_buffer diagonal_queue = [diagonal_block]"
    "\<forall>a. 0 \<le>s steps diagonal_block a \<and> steps diagonal_block a \<le>s step_event_count diagonal_block"
    "\<forall>p. \<not> level p (pin_log diagonal_queue)"
    "no_truncation example_config ?ins diagonal_queue"
    "unat (step_event_count diagonal_block) < length ?ins"
  proof -
    show "\<forall>a. 0 \<le>s steps diagonal_block a
        \<and> steps diagonal_block a \<le>s step_event_count diagonal_block"
    proof
      fix a show "0 \<le>s steps diagonal_block a
          \<and> steps diagonal_block a \<le>s step_event_count diagonal_block"
        by (cases a) (simp_all add: diagonal_fields word_sle_eq)
    qed
  qed (simp_all add: diagonal_fields open_run_free)
  have l: "current_block lifting_queue = None" "block_buffer lifting_queue = [lifting_block]"
    "\<forall>a. 0 \<le>s steps lifting_block a \<and> steps lifting_block a \<le>s step_event_count lifting_block"
    "\<forall>p. \<not> level p (pin_log lifting_queue)"
    "no_truncation late_config ?ins lifting_queue"
    "unat (step_event_count lifting_block) < length ?ins"
  proof -
    show "\<forall>a. 0 \<le>s steps lifting_block a
        \<and> steps lifting_block a \<le>s step_event_count lifting_block"
    proof
      fix a show "0 \<le>s steps lifting_block a
          \<and> steps lifting_block a \<le>s step_event_count lifting_block"
        by (cases a) (simp_all add: lifting_fields word_sle_eq)
    qed
  qed (simp_all add: lifting_fields open_run_free)
  note D = bresenham_exact [OF d, where inp = open_switches]
  note L = bresenham_exact [OF l, where inp = open_switches]
  have "current_block (run_block example_config ?ins diagonal_queue) = None
      \<and> block_buffer (run_block example_config ?ins diagonal_queue) = []
      \<and> step_events_completed (run_block example_config ?ins diagonal_queue) = 4"
    using D [of X_AXIS] by (simp add: diagonal_fields)
  moreover have "count_position (run_block example_config ?ins diagonal_queue) X_AXIS = - 3
      \<and> pulses X_STEP_PIN (pin_log (run_block example_config ?ins diagonal_queue)) = 3"
    using D [of X_AXIS] by (simp add: diagonal_fields)
  moreover have "count_position (run_block example_config ?ins diagonal_queue) Y_AXIS = 4
      \<and> pulses Y_STEP_PIN (pin_log (run_block example_config ?ins diagonal_queue)) = 4"
    using D [of Y_AXIS] by (simp add: diagonal_fields)
  moreover have "pulses E_STEP_PIN (pin_log (run_block example_config ?ins diagonal_queue)) = 0"
    using D [of E_AXIS] by (simp add: diagonal_fields)
  moreover have "counter Z_AXIS (fst (pickup late_config lifting_queue)) = - 2
      \<and> current_block (run_block late_config ?ins lifting_queue) = None
      \<and> count_position (run_block late_config ?ins lifting_queue) Z_AXIS = 2
      \<and> pulses Z_STEP_PIN (pin_log (run_block late_config ?ins lifting_queue)) = 2
      \<and> pulses Z2_STEP_PIN (pin_log (run_block late_config ?ins lifting_queue)) = 2"
    using L [of Z_AXIS] by (simp add: lifting_fields)
  moreover have "tick_block late_config lifting_queue = None" "0 <s steps_z lifting_block"
    by (simp_all add: tick_block_None_iff lifting_fields word_sless_alt)
  ultimately show ?thesis
    using d l by (simp add: lifting_fields)
qed

text \<open>The number of pulses of an axis after \<open>k\<close> step events, in closed form.\<close>

lemma pulses_closed_form:
  assumes "0 < sint (step_event_count b)" "0 \<le> sint (steps b a)"
    and "sint (steps b a) \<le> sint (step_event_count b)"
    and "counter a s0 = - (drop_bit 1 (step_event_count b))"
    and "\<forall>p. \<not> level p (pin_log s0)"
    and "p \<in> set (axis_step_pins cfg inp b a)"
  shows "int (pulses p (pin_log ((step_event cfg inp b ^^ k) s0))) =
    int (pulses p (pin_log s0))
    + (int k * sint (steps b a) + sint (step_event_count b) - 1
        - sint (step_event_count b) div 2) div sint (step_event_count b)"
  using bresenham_invariant [OF assms(1-5), where cfg = cfg and inp = inp and k = k] assms(6)
  by simp

lemma s2_fields:
  "steps_x s2_block = 300"
  "step_event_count s2_block = 400"
  "x_step_pins example_config open_switches s2_block = [X_STEP_PIN]"
  "counter_x s2_start = - 200"
  "pin_log s2_start = []"
  by (simp_all add: s2_block_def s2_start_def running_def power_on_def x_step_pins_def
        example_config_def open_switches_def)

text \<open>
  Claim C8, as amended. For a block with 300 steps in X and a \<^verbatim>\<open>step_event_count\<close> of 400
  (as the one with steps (300, 400, 0, 0)), started with the counter of X at \<open>-200\<close> and
  the step pins at rest, the number of X pulses after \<open>k\<close> step events is
  \<open>(k * 300 + 199) div 400\<close>, for every \<open>k\<close>. The claim has 200 in place of 199: the
  source steps on \<^verbatim>\<open>counter_x > 0\<close>, so an event that brings the counter to exactly 0
  emits no pulse. After two events the counter has gone \<open>-200, 100 - 400 = -300, 0\<close>, with
  one pulse, where the claim's formula gives \<open>800 div 400 = 2\<close>.
\<close>

theorem s2_interleave:
  assumes "steps_x b = 300" and "step_event_count b = 400"
    and "counter_x s0 = - (drop_bit 1 (step_event_count b))"
    and "\<forall>p. \<not> level p (pin_log s0)"
    and "p \<in> set (x_step_pins cfg inp b)"
  shows "pulses p (pin_log ((step_event cfg inp b ^^ k) s0)) =
    pulses p (pin_log s0) + (k * 300 + 199) div 400"
proof -
  have "int (pulses p (pin_log ((step_event cfg inp b ^^ k) s0))) =
      int (pulses p (pin_log s0)) + (int k * 300 + 199) div 400"
    using pulses_closed_form [of b X_AXIS s0 p cfg inp k] assms by simp
  also have "(int k * 300 + 199) div 400 = int ((k * 300 + 199) div 400)"
    by (simp add: zdiv_int)
  finally show ?thesis by linarith
qed

theorem s2_interleave_counterexample:
  "steps s2_block X_AXIS = 300 \<and> steps s2_block Y_AXIS = 400
   \<and> steps s2_block Z_AXIS = 0 \<and> steps s2_block E_AXIS = 0
   \<and> step_event_count s2_block = 400
   \<and> counter_x s2_start = - (drop_bit 1 (step_event_count s2_block))
   \<and> (2 :: nat) \<le> 400
   \<and> pulses X_STEP_PIN
        (pin_log ((step_event example_config open_switches s2_block ^^ 2) s2_start)) = 1
   \<and> (2 * 300 + 200) div 400 = (2 :: nat)
   \<and> pulses X_STEP_PIN
        (pin_log ((step_event example_config open_switches s2_block ^^ 2) s2_start))
       \<noteq> (2 * 300 + 200) div 400"
proof -
  let ?s1 = "step_event example_config open_switches s2_block s2_start"
  have rest0: "\<forall>p. \<not> level p (pin_log s2_start)" by (simp add: s2_fields)
  then have rest1: "\<forall>p. \<not> level p (pin_log ?s1)" by (simp add: step_event_rest)
  have pin: "X_STEP_PIN \<in> set (axis_step_pins example_config open_switches s2_block X_AXIS)"
    by (simp add: s2_fields)
  have f0: "fires s2_block s2_start X_AXIS"
    by (simp add: fires_def s2_fields word_sless_alt)
  then have c1: "counter_x ?s1 = - 300"
    using step_event_counter [of X_AXIS example_config open_switches s2_block s2_start]
    by (simp add: s2_fields)
  have f1: "\<not> fires s2_block ?s1 X_AXIS"
    by (simp add: fires_def c1 s2_fields word_sless_alt)
  have "pulses X_STEP_PIN (pin_log ?s1) = 1"
    using step_event_pulses [OF rest0 pin] f0 by (simp add: s2_fields)
  then have "pulses X_STEP_PIN (pin_log (step_event example_config open_switches s2_block ?s1)) = 1"
    using step_event_pulses [OF rest1 pin] f1 by simp
  moreover have "(step_event example_config open_switches s2_block ^^ 2) s2_start =
      step_event example_config open_switches s2_block ?s1"
    by (simp add: numeral_2_eq_2)
  moreover have "steps_y s2_block = 400" "steps_z s2_block = 0" "steps_e s2_block = 0"
    by (simp_all add: s2_block_def)
  ultimately show ?thesis
    by (simp add: s2_fields)
qed

theorem s2_interleave_witness:
  "steps_x s2_block = 300 \<and> step_event_count s2_block = 400
   \<and> counter_x s2_start = - (drop_bit 1 (step_event_count s2_block))
   \<and> (\<forall>p. \<not> level p (pin_log s2_start))
   \<and> X_STEP_PIN \<in> set (x_step_pins example_config open_switches s2_block)
   \<and> pulses X_STEP_PIN
        (pin_log ((step_event example_config open_switches s2_block ^^ 2) s2_start)) = 1
   \<and> pulses X_STEP_PIN
        (pin_log ((step_event example_config open_switches s2_block ^^ 400) s2_start)) = 300"
proof -
  have h: "steps_x s2_block = 300" "step_event_count s2_block = 400"
    "counter_x s2_start = - (drop_bit 1 (step_event_count s2_block))"
    "\<forall>p. \<not> level p (pin_log s2_start)"
    "X_STEP_PIN \<in> set (x_step_pins example_config open_switches s2_block)"
    by (simp_all add: s2_fields)
  from s2_interleave [OF h, of 2] s2_interleave [OF h, of 400] h
  show ?thesis by (simp add: s2_fields)
qed

section \<open>The trapezoid generator\<close>













lemma tick_rate_idle:
  "tick_block cfg st = None \<Longrightarrow> tick_rate cfg inp st = None"
  by (simp add: tick_rate_def steps_section_def tick_block_def
        split: prod.splits bool.splits option.splits)


lemma entry_rates [simp]:
  "acc_step_rate (generator_entry cfg inp b st) = acc_step_rate (fst (pickup cfg st))"
  "acceleration_time (generator_entry cfg inp b st) = acceleration_time (fst (pickup cfg st))"
  "deceleration_time (generator_entry cfg inp b st) = deceleration_time (fst (pickup cfg st))"
  "OCR1A_nominal (generator_entry cfg inp b st) = OCR1A_nominal (fst (pickup cfg st))"
  by (simp_all add: generator_entry_def directions_and_endstops_def Let_def)

















end
